(* ===== verification/Prelude.thy ===== *)
theory Prelude
  imports Main "HOL-Library.Word"
begin

text \<open>
  Shared vocabulary of the WiMOD host-controller model: the machine integer types of
  the C sources (\<open>UINT8\<close>, \<open>uint16_t\<close>, \<open>uint32_t\<close> as words), undefined behaviour
  of the C array and \<open>memcpy\<close> accesses as values of \<open>c_fault\<close>, a bind on the
  fault-or-value sum, and the little-endian object representation of a \<open>uint32_t\<close>
  (what \<open>memcpy((uint8_t *) &help, &Payload[k], n)\<close> and \<open>(uint8_t *) &time\<close> see on
  the little-endian STM32 and x86 targets).  The lemmas here are the generic facts
  the component theories use: the byte round trip, in-range array accesses, and the
  bound on the bits of a word below a power of two.
\<close>

unbundle bit_operations_syntax

named_theorems wimod_simps "evaluation rules of the WiMOD model"

type_synonym byte = "8 word"
type_synonym u16 = "16 word"
type_synonym u32 = "32 word"

section \<open>Undefined behaviour of C array accesses\<close>

text \<open>
  A C array read or write outside the object, a \<open>memcpy\<close> that reads more bytes
  than its source object holds, an integer division by zero, an access through a
  NULL pointer and the use of the value of a function that ends without \<open>return\<close>
  are undefined behaviour.  The model makes each a value.
\<close>

datatype c_fault =
    Read_Out_Of_Bounds
  | Write_Out_Of_Bounds
  | Source_Overread
  | Division_By_Zero
  | Null_Dereference
  | No_Return_Value

definition fbind :: "'e + 'a \<Rightarrow> ('a \<Rightarrow> 'e + 'b) \<Rightarrow> 'e + 'b" where
  "fbind r f = (case r of Inl e \<Rightarrow> Inl e | Inr a \<Rightarrow> f a)"

text \<open>\<open>buf[i]\<close> on an array whose object is the list \<open>buf\<close>; the index is a C \<open>int\<close>.\<close>

definition buf_get :: "byte list \<Rightarrow> int \<Rightarrow> c_fault + byte" where
  "buf_get buf i = (if 0 \<le> i \<and> i < int (length buf) then Inr (buf ! nat i) else Inl Read_Out_Of_Bounds)"

text \<open>\<open>buf[i] = v\<close>.\<close>

definition buf_set :: "byte list \<Rightarrow> int \<Rightarrow> byte \<Rightarrow> c_fault + byte list" where
  "buf_set buf i v = (if 0 \<le> i \<and> i < int (length buf) then Inr (buf[nat i := v]) else Inl Write_Out_Of_Bounds)"

text \<open>The \<open>n\<close> bytes at \<open>&buf[i]\<close>, as \<open>memcpy\<close> reads them.\<close>

definition buf_range :: "byte list \<Rightarrow> int \<Rightarrow> nat \<Rightarrow> c_fault + byte list" where
  "buf_range buf i n =
     (if 0 \<le> i \<and> nat i + n \<le> length buf then Inr (take n (drop (nat i) buf)) else Inl Read_Out_Of_Bounds)"

text \<open>
  \<open>memcpy(&dst[off], src, n)\<close>: the source object \<open>src\<close> must hold \<open>n\<close> bytes and the
  destination array must have room for them.
\<close>

definition memcpy_into :: "byte list \<Rightarrow> nat \<Rightarrow> byte list \<Rightarrow> nat \<Rightarrow> c_fault + byte list" where
  "memcpy_into dst off src n =
     (if length src < n then Inl Source_Overread
      else if length dst < off + n then Inl Write_Out_Of_Bounds
      else Inr (take off dst @ take n src @ drop (off + n) dst))"

text \<open>The characters of a C string held in a byte array, up to its terminator: what
  \<open>printf("%s")\<close> prints and \<open>strcpy\<close> and \<open>strcat\<close> copy.\<close>

definition c_string :: "byte list \<Rightarrow> byte list" where
  "c_string bs = takeWhile (\<lambda>b. b \<noteq> 0) bs"

section \<open>Little-endian object representation\<close>

text \<open>
  The value of a \<open>uint32_t\<close> whose low-order bytes are the given list, lowest address
  first (little endian).  Bytes beyond the fourth fall outside the word.
\<close>

fun le_u32 :: "byte list \<Rightarrow> u32" where
  "le_u32 [] = 0"
| "le_u32 (b # bs) = ucast b OR push_bit 8 (le_u32 bs)"

text \<open>The four bytes of a \<open>uint32_t\<close> object, lowest address first.\<close>

definition u32_bytes :: "u32 \<Rightarrow> byte list" where
  "u32_bytes w = [ucast w, ucast (drop_bit 8 w), ucast (drop_bit 16 w), ucast (drop_bit 24 w)]"

text \<open>\<open>MAKEWORD(lo,hi) = lo | hi << 8\<close> and \<open>MAKELONG(lo,hi) = lo | hi << 16\<close>.\<close>

definition MAKEWORD :: "byte \<Rightarrow> byte \<Rightarrow> u32" where
  "MAKEWORD lo hi = ucast lo OR push_bit 8 (ucast hi)"

definition MAKELONG :: "u32 \<Rightarrow> u32 \<Rightarrow> u32" where
  "MAKELONG lo hi = lo OR push_bit 16 hi"

section \<open>Generic lemmas\<close>

lemma fbind_simps [simp, wimod_simps]:
  "fbind (Inl e) f = Inl e"
  "fbind (Inr a) f = f a"
  by (simp_all add: fbind_def)

lemma fbind_eq_Inr: "fbind r f = Inr b \<longleftrightarrow> (\<exists>a. r = Inr a \<and> f a = Inr b)"
  by (cases r) simp_all

lemma buf_get_in_range [simp, wimod_simps]:
  "i < length buf \<Longrightarrow> buf_get buf (int i) = Inr (buf ! i)"
  by (simp add: buf_get_def)

lemma buf_get_numeral [simp, wimod_simps]:
  "numeral k < length buf \<Longrightarrow> buf_get buf (numeral k) = Inr (buf ! numeral k)"
  using buf_get_in_range [of "numeral k" buf] by simp

lemma buf_get_0_1 [simp, wimod_simps]:
  "0 < length buf \<Longrightarrow> buf_get buf 0 = Inr (buf ! 0)"
  "1 < length buf \<Longrightarrow> buf_get buf 1 = Inr (buf ! 1)"
  using buf_get_in_range [of 0 buf] buf_get_in_range [of 1 buf] by simp_all

lemma buf_get_negative [simp]: "i < 0 \<Longrightarrow> buf_get buf i = Inl Read_Out_Of_Bounds"
  by (simp add: buf_get_def)

lemma buf_range_in_range [simp, wimod_simps]:
  "i + n \<le> length buf \<Longrightarrow> buf_range buf (int i) n = Inr (take n (drop i buf))"
  by (simp add: buf_range_def)

lemma buf_range_int [simp, wimod_simps]:
  "0 \<le> i \<Longrightarrow> nat i + n \<le> length buf \<Longrightarrow> buf_range buf i n = Inr (take n (drop (nat i) buf))"
  by (simp add: buf_range_def)

lemma buf_range_negative [simp]: "i < 0 \<Longrightarrow> buf_range buf i n = Inl Read_Out_Of_Bounds"
  by (simp add: buf_range_def)

lemma length_memcpy_into:
  "memcpy_into dst off src n = Inr dst' \<Longrightarrow> length dst' = length dst"
  by (auto simp: memcpy_into_def split: if_splits)

lemma memcpy_into_fits [simp, wimod_simps]:
  "n \<le> length src \<Longrightarrow> off + n \<le> length dst \<Longrightarrow>
   memcpy_into dst off src n = Inr (take off dst @ take n src @ drop (off + n) dst)"
  by (simp add: memcpy_into_def)

lemma length_u32_bytes [simp]: "length (u32_bytes w) = 4"
  by (simp add: u32_bytes_def)

text \<open>Reading back the bytes of a \<open>uint32_t\<close> object gives the value stored.\<close>

lemma le_u32_u32_bytes [simp]: "le_u32 (u32_bytes w) = w"
proof (rule bit_word_eqI)
  fix n assume "n < LENGTH(32)"
  then consider "n < 8" | "8 \<le> n \<and> n < 16" | "16 \<le> n \<and> n < 24" | "24 \<le> n \<and> n < 32"
    by force
  then show "bit (le_u32 (u32_bytes w)) n = bit w n"
    by cases (auto simp: u32_bytes_def bit_simps)
qed

lemma MAKELONG_MAKEWORD:
  "MAKELONG (MAKEWORD b0 b1) (MAKEWORD b2 b3) = le_u32 [b0, b1, b2, b3]"
  by (rule bit_word_eqI) (auto simp: MAKELONG_def MAKEWORD_def bit_simps)

text \<open>A word below \<open>2 ^ k\<close> has no bit at or above position \<open>k\<close>.\<close>

lemma bit_less_pow_imp:
  fixes w :: "'a::len word"
  assumes "w < 2 ^ k" and "bit w n"
  shows "n < k"
proof (cases "k < LENGTH('a)")
  case True
  then have "uint w < 2 ^ k" using assms(1) by (simp add: word_2p_lem word_size)
  then have "w AND mask k = w" by (simp add: mask_eq_iff)
  with assms(2) have "bit (w AND mask k) n" by simp
  then show ?thesis by (simp add: bit_simps)
next
  case False
  then show ?thesis using bit_imp_le_length [OF assms(2)] by simp
qed

text \<open>A down-counting \<open>uint8_t\<close> loop that stops at zero after its decrement.\<close>

lemma word_minus_two_less:
  fixes x :: "'a::len word"
  assumes "x \<noteq> 1"
  shows "unat (x - 2) < unat (x - 1)"
proof -
  have "x - 1 \<noteq> 0" using assms by simp
  then have "unat (x - 1 - 1) < unat (x - 1)" by (rule measure_unat)
  then show ?thesis by (simp add: diff_diff_eq)
qed

lemma buf_set_length: "buf_set b i v = Inr b' \<Longrightarrow> length b' = length b"
  by (auto simp: buf_set_def split: if_splits)

lemma buf_set_before: "i < 0 \<Longrightarrow> buf_set b i v = Inl Write_Out_Of_Bounds"
  by (simp add: buf_set_def)

lemma c_string_no_zero: "0 \<notin> set (c_string a)"
  by (simp add: c_string_def) (metis (mono_tags) set_takeWhileD)

lemma c_string_append_zero: "0 \<notin> set xs \<Longrightarrow> c_string (xs @ 0 # ys) = xs"
  by (induction xs) (simp_all add: c_string_def)

end
