(* ===== verification/HCI_Message.thy ===== *)
theory HCI_Message
  imports Prelude
begin

text \<open>
  The HCI message envelope \<open>TWiMOD_HCI_Message\<close> shared by both service access points
  (SAPs), the message identifiers the sources switch on, and the status codes the
  response payloads carry.  The identifiers and status codes are \<open>#define\<close>s of
  \<open>WiMOD_LoRaWAN_API.h\<close> and \<open>WiMOD_HCI_Layer.h\<close>, which are not among the sources:
  the identifiers are modelled as one constructor per name (the switches compare a
  byte against distinct constants, so a case on the constructor is the same branch),
  plus one constructor carrying any other byte, which is where a \<open>default:\<close> branch
  lands.  The payload capacity \<open>WIMOD_HCI_MSG_PAYLOAD_SIZE\<close> is a parameter \<open>N\<close> of
  every operation that uses it.
\<close>

section \<open>Message identifiers\<close>

datatype devmgmt_msg_id =
    DEVMGMT_MSG_PING_REQ | DEVMGMT_MSG_PING_RSP
  | DEVMGMT_MSG_GET_DEVICE_INFO_REQ | DEVMGMT_MSG_GET_DEVICE_INFO_RSP
  | DEVMGMT_MSG_GET_FW_VERSION_REQ | DEVMGMT_MSG_GET_FW_VERSION_RSP
  | DEVMGMT_MSG_RESET_REQ | DEVMGMT_MSG_RESET_RSP
  | DEVMGMT_MSG_SET_OPMODE_REQ | DEVMGMT_MSG_SET_OPMODE_RSP
  | DEVMGMT_MSG_GET_OPMODE_REQ | DEVMGMT_MSG_GET_OPMODE_RSP
  | DEVMGMT_MSG_SET_RTC_REQ | DEVMGMT_MSG_SET_RTC_RSP
  | DEVMGMT_MSG_GET_RTC_REQ | DEVMGMT_MSG_GET_RTC_RSP
  | DEVMGMT_MSG_GET_DEVICE_STATUS_REQ | DEVMGMT_MSG_GET_DEVICE_STATUS_RSP
  | DEVMGMT_MSG_SET_RTC_ALARM_REQ | DEVMGMT_MSG_SET_RTC_ALARM_RSP
  | DEVMGMT_MSG_CLEAR_RTC_ALARM_REQ | DEVMGMT_MSG_CLEAR_RTC_ALARM_RSP
  | DEVMGMT_MSG_GET_RTC_ALARM_REQ | DEVMGMT_MSG_GET_RTC_ALARM_RSP
  | DEVMGMT_MSG_Other byte

datatype lorawan_msg_id =
    LORAWAN_MSG_ACTIVATE_DEVICE_REQ | LORAWAN_MSG_ACTIVATE_DEVICE_RSP
  | LORAWAN_MSG_REACTIVATE_DEVICE_REQ | LORAWAN_MSG_REACTIVATE_DEVICE_RSP
  | LORAWAN_MSG_DEACTIVATE_DEVICE_REQ | LORAWAN_MSG_DEACTIVATE_DEVICE_RSP
  | LORAWAN_MSG_SET_JOIN_PARAM_REQ
  | LORAWAN_MSG_JOIN_NETWORK_REQ | LORAWAN_MSG_JOIN_NETWORK_RSP
  | LORAWAN_MSG_JOIN_TRANSMIT_IND | LORAWAN_MSG_JOIN_NETWORK_IND
  | LORAWAN_MSG_SEND_UDATA_REQ | LORAWAN_MSG_SEND_UDATA_RSP | LORAWAN_MSG_SEND_UDATA_IND
  | LORAWAN_MSG_RECV_UDATA_IND
  | LORAWAN_MSG_SEND_CDATA_REQ | LORAWAN_MSG_SEND_CDATA_RSP | LORAWAN_MSG_SEND_CDATA_IND
  | LORAWAN_MSG_RECV_CDATA_IND | LORAWAN_MSG_RECV_NODATA_IND
  | LORAWAN_MSG_SEND_MAC_CMD_REQ | LORAWAN_MSG_SEND_MAC_CMD_RSP | LORAWAN_MSG_RECV_MAC_CMD_IND
  | LORAWAN_MSG_SET_RSTACK_CONFIG_REQ | LORAWAN_MSG_SET_RSTACK_CONFIG_RSP
  | LORAWAN_MSG_GET_RSTACK_CONFIG_REQ | LORAWAN_MSG_GET_RSTACK_CONFIG_RSP
  | LORAWAN_MSG_GET_SUPPORTED_BANDS_REQ | LORAWAN_MSG_GET_SUPPORTED_BANDS_RSP
  | LORAWAN_MSG_SET_DEVICE_EUI_REQ
  | LORAWAN_MSG_GET_DEVICE_EUI_REQ | LORAWAN_MSG_GET_DEVICE_EUI_RSP
  | LORAWAN_MSG_GET_NWK_STATUS_REQ | LORAWAN_MSG_GET_NWK_STATUS_RSP
  | LORAWAN_MSG_SET_CUSTOM_CFG_REQ | LORAWAN_MSG_SET_CUSTOM_CFG_RSP
  | LORAWAN_MSG_GET_CUSTOM_CFG_REQ | LORAWAN_MSG_GET_CUSTOM_CFG_RSP
  | LORAWAN_MSG_FACTORY_RESET_REQ | LORAWAN_MSG_FACTORY_RESET_RSP
  | LORAWAN_MSG_SET_LINKADRREQ_CONFIG_REQ | LORAWAN_MSG_SET_LINKADRREQ_CONFIG_RSP
  | LORAWAN_MSG_GET_LINKADRREQ_CONFIG_REQ | LORAWAN_MSG_GET_LINKADRREQ_CONFIG_RSP
  | LORAWAN_MSG_SET_BATTERY_LEVEL_REQ
  | LORAWAN_MSG_Other byte

text \<open>
  The pair (\<open>SapID\<close>, \<open>MsgID\<close>) of an envelope: a message identifier belongs to the
  SAP it is read under, so the two are one value.
\<close>

datatype hci_ident =
    DEVMGMT_SAP devmgmt_msg_id
  | LORAWAN_SAP lorawan_msg_id
  | Other_SAP byte byte

section \<open>The envelope\<close>

text \<open>
  \<open>TWiMOD_HCI_Message\<close>: \<open>Length\<close> is the \<open>UINT16\<close> payload length, \<open>Payload\<close> the
  whole fixed-size array (its bytes beyond \<open>Length\<close> are whatever the buffer held).
\<close>

record TWiMOD_HCI_Message =
  Ident :: hci_ident
  Length :: u16
  Payload :: "byte list"

text \<open>An envelope is well formed when its payload array has the capacity \<open>N\<close> and
  the declared length fits in it.\<close>

definition wf_message :: "nat \<Rightarrow> TWiMOD_HCI_Message \<Rightarrow> bool" where
  "wf_message N m \<longleftrightarrow> length (Payload m) = N \<and> unat (Length m) \<le> N"

section \<open>Status codes\<close>

text \<open>
  Status codes of response payloads, with the values of the WiMOD LoRaWAN HCI
  specification (they come from the header, not the sources).
\<close>

definition DEVMGMT_STATUS_OK :: byte where "DEVMGMT_STATUS_OK = 0x00"
definition DEVMGMT_STATUS_ERROR :: byte where "DEVMGMT_STATUS_ERROR = 0x01"
definition DEVMGMT_STATUS_CMD_NOT_SUPPORTED :: byte where "DEVMGMT_STATUS_CMD_NOT_SUPPORTED = 0x02"
definition DEVMGMT_STATUS_WRONG_PARAMETER :: byte where "DEVMGMT_STATUS_WRONG_PARAMETER = 0x03"
definition DEVMGMT_STATUS_WRONG_DEVICE_MODE :: byte where "DEVMGMT_STATUS_WRONG_DEVICE_MODE = 0x04"

definition LORAWAN_STATUS_OK :: byte where "LORAWAN_STATUS_OK = 0x00"
definition LORAWAN_STATUS_ERROR :: byte where "LORAWAN_STATUS_ERROR = 0x01"
definition LORAWAN_STATUS_CMD_NOT_SUPPORTED :: byte where "LORAWAN_STATUS_CMD_NOT_SUPPORTED = 0x02"
definition LORAWAN_STATUS_WRONG_PARAMETER :: byte where "LORAWAN_STATUS_WRONG_PARAMETER = 0x03"
definition LORAWAN_STATUS_WRONG_DEVICE_MODE :: byte where "LORAWAN_STATUS_WRONG_DEVICE_MODE = 0x04"
definition LORAWAN_STATUS_DEVICE_NOT_ACTIVATED :: byte where "LORAWAN_STATUS_DEVICE_NOT_ACTIVATED = 0x05"
definition LORAWAN_STATUS_DEVICE_BUSY :: byte where "LORAWAN_STATUS_DEVICE_BUSY = 0x06"
definition LORAWAN_STATUS_QUEUE_FULL :: byte where "LORAWAN_STATUS_QUEUE_FULL = 0x07"
definition LORAWAN_STATUS_LENGTH_ERROR :: byte where "LORAWAN_STATUS_LENGTH_ERROR = 0x08"
definition LORAWAN_STATUS_NO_FACTORY_SETTINGS :: byte where "LORAWAN_STATUS_NO_FACTORY_SETTINGS = 0x09"
definition LORAWAN_STATUS_CHANNEL_BLOCKED_BY_DC :: byte where "LORAWAN_STATUS_CHANNEL_BLOCKED_BY_DC = 0x0A"
definition LORAWAN_STATUS_CHANNEL_NOT_AVAILABLE :: byte where "LORAWAN_STATUS_CHANNEL_NOT_AVAILABLE = 0x0B"

lemmas devmgmt_status_defs = DEVMGMT_STATUS_OK_def DEVMGMT_STATUS_ERROR_def
  DEVMGMT_STATUS_CMD_NOT_SUPPORTED_def DEVMGMT_STATUS_WRONG_PARAMETER_def
  DEVMGMT_STATUS_WRONG_DEVICE_MODE_def

lemmas lorawan_status_defs = LORAWAN_STATUS_OK_def LORAWAN_STATUS_ERROR_def
  LORAWAN_STATUS_CMD_NOT_SUPPORTED_def LORAWAN_STATUS_WRONG_PARAMETER_def
  LORAWAN_STATUS_WRONG_DEVICE_MODE_def LORAWAN_STATUS_DEVICE_NOT_ACTIVATED_def
  LORAWAN_STATUS_DEVICE_BUSY_def LORAWAN_STATUS_QUEUE_FULL_def LORAWAN_STATUS_LENGTH_ERROR_def
  LORAWAN_STATUS_NO_FACTORY_SETTINGS_def LORAWAN_STATUS_CHANNEL_BLOCKED_BY_DC_def
  LORAWAN_STATUS_CHANNEL_NOT_AVAILABLE_def

end
