(* ===== verification/RTC_Format.thy ===== *)
theory RTC_Format
  imports Prelude
begin

text \<open>
  The 32-bit RTC time word of the device-management SAP.  \<open>rtc_unpack\<close> is the
  field extraction of \<open>WiMOD_LoRaWAN_DevMgmt_Get_RTC_Rsp\<close> (the same masks and
  shifts decode the target time of \<open>WiMOD_LoRaWAN_DevMgmt_DeviceStatus_Rsp\<close>);
  \<open>SetRTC_time\<close> is the shift-and-or sequence of the console command \<open>SetRTC\<close>,
  with its six constants made parameters.  \<open>rtc_layout\<close> is the documented layout of
  the word (year-2000 in bits 31..26, day 25..21, hour 20..16, month 15..12, minute
  11..6, second 5..0).  The lemmas show that the decoder inverts the documented layout
  for every field that fits its width, and that the encoder of \<open>SetRTC\<close> does not
  produce that layout: it shifts by the width of the field just written instead of
  the next one, so day, hour and month land one to two bits too low.
\<close>

unbundle bit_operations_syntax

record rtc_time =
  rtc_year :: u32
  rtc_month :: u32
  rtc_day :: u32
  rtc_hour :: u32
  rtc_minute :: u32
  rtc_second :: u32

definition rtc_unpack :: "u32 \<Rightarrow> rtc_time" where
  "rtc_unpack help =
    \<lparr>rtc_year = drop_bit 26 (help AND 0xfc000000) + 2000,
     rtc_month = drop_bit 12 (help AND 0xf000),
     rtc_day = drop_bit 21 (help AND 0x3e00000),
     rtc_hour = drop_bit 16 (help AND 0x1f0000),
     rtc_minute = drop_bit 6 (help AND 0xfc0),
     rtc_second = help AND 0x3f\<rparr>"

definition SetRTC_time :: "u32 \<Rightarrow> u32 \<Rightarrow> u32 \<Rightarrow> u32 \<Rightarrow> u32 \<Rightarrow> u32 \<Rightarrow> u32" where
  "SetRTC_time years days hours months minutes seconds =
    (let time = (0 :: u32) OR years; time = push_bit 6 time;
         time = time OR days; time = push_bit 5 time;
         time = time OR hours; time = push_bit 5 time;
         time = time OR months; time = push_bit 4 time;
         time = time OR minutes; time = push_bit 6 time
     in time OR seconds)"

definition rtc_layout :: "u32 \<Rightarrow> u32 \<Rightarrow> u32 \<Rightarrow> u32 \<Rightarrow> u32 \<Rightarrow> u32 \<Rightarrow> u32" where
  "rtc_layout y d h mo mi s =
     push_bit 26 y OR push_bit 21 d OR push_bit 16 h OR push_bit 12 mo OR push_bit 6 mi OR s"

text \<open>The fields that fit their widths in the documented layout.\<close>

definition rtc_fields_fit :: "u32 \<Rightarrow> u32 \<Rightarrow> u32 \<Rightarrow> u32 \<Rightarrow> u32 \<Rightarrow> u32 \<Rightarrow> bool" where
  "rtc_fields_fit y d h mo mi s \<longleftrightarrow> y < 64 \<and> d < 32 \<and> h < 32 \<and> mo < 16 \<and> mi < 64 \<and> s < 64"

section \<open>Lemmas\<close>

lemma rtc_masks:
  "(0xfc000000 :: u32) = push_bit 26 (mask 6)"
  "(0xf000 :: u32) = push_bit 12 (mask 4)"
  "(0x3e00000 :: u32) = push_bit 21 (mask 5)"
  "(0x1f0000 :: u32) = push_bit 16 (mask 5)"
  "(0xfc0 :: u32) = push_bit 6 (mask 6)"
  "(0x3f :: u32) = mask 6"
  by (simp_all add: mask_eq_exp_minus_1 push_bit_eq_mult)

text \<open>The SetRTC encoder puts the day at bit 20, the hour at bit 15 and the month at bit 10, one or two bits below the positions the decoder reads.\<close>

theorem SetRTC_time_layout:
  "SetRTC_time y d h mo mi s =
     push_bit 26 y OR push_bit 20 d OR push_bit 15 h OR push_bit 10 mo OR push_bit 6 mi OR s"
  by (rule bit_word_eqI) (auto simp: SetRTC_time_def bit_simps)

lemma rtc_fields_fit_bits:
  assumes "rtc_fields_fit y d h mo mi s"
  shows "bit y m \<Longrightarrow> m < 6" "bit d m \<Longrightarrow> m < 5" "bit h m \<Longrightarrow> m < 5"
    "bit mo m \<Longrightarrow> m < 4" "bit mi m \<Longrightarrow> m < 6" "bit s m \<Longrightarrow> m < 6"
  using assms by (auto simp: rtc_fields_fit_def intro: bit_less_pow_imp)

lemma rtc_layout_fields:
  assumes "rtc_fields_fit y d h mo mi s"
  shows "drop_bit 26 (rtc_layout y d h mo mi s AND 0xfc000000) = y"
    and "drop_bit 12 (rtc_layout y d h mo mi s AND 0xf000) = mo"
    and "drop_bit 21 (rtc_layout y d h mo mi s AND 0x3e00000) = d"
    and "drop_bit 16 (rtc_layout y d h mo mi s AND 0x1f0000) = h"
    and "drop_bit 6 (rtc_layout y d h mo mi s AND 0xfc0) = mi"
    and "rtc_layout y d h mo mi s AND 0x3f = s"
  by (rule bit_word_eqI;
      auto simp: rtc_layout_def rtc_masks bit_simps dest: rtc_fields_fit_bits [OF assms])+

text \<open>Field by field, the decoder reads the SetRTC word as the fields shifted into each other.\<close>

lemma SetRTC_fields:
  assumes "rtc_fields_fit y d h mo mi s"
  shows "drop_bit 26 (SetRTC_time y d h mo mi s AND 0xfc000000) = y"
    and "drop_bit 12 (SetRTC_time y d h mo mi s AND 0xf000) = drop_bit 2 mo OR push_bit 3 (take_bit 1 h)"
    and "drop_bit 21 (SetRTC_time y d h mo mi s AND 0x3e00000) = drop_bit 1 d"
    and "drop_bit 16 (SetRTC_time y d h mo mi s AND 0x1f0000) = drop_bit 1 h OR push_bit 4 (take_bit 1 d)"
    and "drop_bit 6 (SetRTC_time y d h mo mi s AND 0xfc0) = mi OR push_bit 4 (take_bit 2 mo)"
    and "SetRTC_time y d h mo mi s AND 0x3f = s"
  by (rule bit_word_eqI;
      auto simp: SetRTC_time_layout rtc_masks bit_simps bit_0 dest: rtc_fields_fit_bits [OF assms])+

text \<open>C29: Every field the RTC decoder returns is within its width; the year is between 2000 and 2063.\<close>

theorem rtc_unpack_bounds:
  "rtc_month (rtc_unpack w) < 16 \<and> rtc_day (rtc_unpack w) < 32 \<and> rtc_hour (rtc_unpack w) < 32 \<and>
   rtc_minute (rtc_unpack w) < 64 \<and> rtc_second (rtc_unpack w) < 64 \<and>
   2000 \<le> rtc_year (rtc_unpack w) \<and> rtc_year (rtc_unpack w) < 2064"
proof -
  have low: "drop_bit k (w AND push_bit k (mask n)) < 2 ^ n" if "n < 32" for k n
  proof -
    have "drop_bit k (w AND push_bit k (mask n)) = drop_bit k w AND mask n"
      by (rule bit_word_eqI) (auto simp: bit_simps dest: bit_imp_le_length)
    also have "\<dots> < 2 ^ n" using that by (simp add: and_mask_less_size word_size)
    finally show ?thesis .
  qed
  have y: "drop_bit 26 (w AND push_bit 26 (mask 6)) < 64"
    using low [of 6 26] by simp
  have y_le: "unat (drop_bit 26 (w AND push_bit 26 (mask 6))) \<le> 63"
    using y by (simp add: word_less_nat_alt)
  then have "unat (drop_bit 26 (w AND push_bit 26 (mask 6)) + 2000) =
             unat (drop_bit 26 (w AND push_bit 26 (mask 6))) + 2000"
    by (simp add: unat_add_lem [THEN iffD1])
  with y_le have "2000 \<le> unat (drop_bit 26 (w AND push_bit 26 (mask 6)) + 2000) \<and>
                  unat (drop_bit 26 (w AND push_bit 26 (mask 6)) + 2000) < 2064"
    by simp
  then show ?thesis
    using low [of 4 12] low [of 5 21] low [of 5 16] low [of 6 6] low [of 6 0]
    by (simp add: rtc_unpack_def rtc_masks word_le_nat_alt word_less_nat_alt)
qed

section \<open>Properties\<close>

text \<open>C2: For every six fields that fit their widths, the word the console command SetRTC builds is decoded by the decoder of Get_RTC with the year and the second right, but the day halved, the low bit of the day moved into bit 4 of the hour, the hour halved, the low bit of the hour moved into bit 3 of the month, the month shifted down by two, and its low two bits or-ed into bits 4-5 of the minute: the encoder shifts by the width of the field just written instead of the next one.\<close>

theorem SetRTC_decodes_shuffled:
  assumes "rtc_fields_fit y d h mo mi s"
  shows "rtc_unpack (SetRTC_time y d h mo mi s) =
     \<lparr>rtc_year = y + 2000, rtc_month = drop_bit 2 mo OR push_bit 3 (take_bit 1 h),
      rtc_day = drop_bit 1 d, rtc_hour = drop_bit 1 h OR push_bit 4 (take_bit 1 d),
      rtc_minute = mi OR push_bit 4 (take_bit 2 mo), rtc_second = s\<rparr>"
  by (simp only: rtc_unpack_def SetRTC_fields [OF assms])

theorem SetRTC_decodes_shuffled_witness:
  "rtc_fields_fit 18 20 12 5 30 30 \<and>
   rtc_unpack (SetRTC_time 18 20 12 5 30 30) =
     \<lparr>rtc_year = 2018, rtc_month = 1, rtc_day = 10, rtc_hour = 6, rtc_minute = 30, rtc_second = 30\<rparr>"
  using SetRTC_decodes_shuffled [of 18 20 12 5 30 30] by (simp add: rtc_fields_fit_def)

text \<open>C3: The RTC decoder inverts the documented layout: every six fields that fit their widths come back unchanged, the year offset by 2000.\<close>

theorem rtc_unpack_roundtrip:
  assumes "rtc_fields_fit y d h mo mi s"
  shows "rtc_unpack (rtc_layout y d h mo mi s) =
     \<lparr>rtc_year = y + 2000, rtc_month = mo, rtc_day = d, rtc_hour = h, rtc_minute = mi, rtc_second = s\<rparr>"
  by (simp only: rtc_unpack_def rtc_layout_fields [OF assms])

theorem rtc_unpack_roundtrip_witness:
  "rtc_fields_fit 18 20 12 5 30 30 \<and>
   rtc_unpack (rtc_layout 18 20 12 5 30 30) =
     \<lparr>rtc_year = 2018, rtc_month = 5, rtc_day = 20, rtc_hour = 12, rtc_minute = 30, rtc_second = 30\<rparr>"
  using rtc_unpack_roundtrip [of 18 20 12 5 30 30] by (simp add: rtc_fields_fit_def)

end
