(* ===== verification/Encoder.thy ===== *)
theory Encoder
  imports HCI_Message RTC_Format
begin

text \<open>
  The outbound side of \<open>WiMOD_LoRaWAN_API.c\<close>: the two request builders
  \<open>WiMOD_DevMgmt_Msg_Req\<close> and \<open>WiMOD_LoRaWAN_Msg_Req\<close>, which fill the global
  \<open>TxMessage\<close> and hand it to \<open>WiMOD_HCI_SendMessage\<close>, the API functions that call
  them, the data-submission functions with their length check, and the console
  commands that build fixed payloads.  The state is the pair of global envelopes
  \<open>TxMessage\<close>, \<open>RxMessage\<close> and the list of envelopes handed to the transport; the
  HCI layer (not among the sources) is the parameter \<open>hci_send\<close>, the \<open>int\<close> that
  \<open>WiMOD_HCI_SendMessage\<close> returns for an envelope.  \<open>N\<close> is
  \<open>WIMOD_HCI_MSG_PAYLOAD_SIZE\<close>.
\<close>

record wimod_state =
  TxMessage :: TWiMOD_HCI_Message
  RxMessage :: TWiMOD_HCI_Message
  sent :: "TWiMOD_HCI_Message list"

type_synonym hci_transport = "TWiMOD_HCI_Message \<Rightarrow> int"

type_synonym req_result = "c_fault + (int \<times> wimod_state)"

text \<open>The two static envelopes at program start (zero-initialised).\<close>

definition empty_message :: "nat \<Rightarrow> TWiMOD_HCI_Message" where
  "empty_message N = \<lparr>Ident = Other_SAP 0 0, Length = 0, Payload = replicate N 0\<rparr>"

definition initial_state :: "nat \<Rightarrow> wimod_state" where
  "initial_state N = \<lparr>TxMessage = empty_message N, RxMessage = empty_message N, sent = []\<rparr>"

section \<open>Request builders\<close>

text \<open>The length switch of \<open>WiMOD_DevMgmt_Msg_Req\<close>; \<open>None\<close> is its \<open>default:\<close>.\<close>

fun devmgmt_req_length :: "devmgmt_msg_id \<Rightarrow> u16 option" where
  "devmgmt_req_length DEVMGMT_MSG_PING_REQ = Some 0"
| "devmgmt_req_length DEVMGMT_MSG_GET_DEVICE_INFO_REQ = Some 0"
| "devmgmt_req_length DEVMGMT_MSG_RESET_REQ = Some 0"
| "devmgmt_req_length DEVMGMT_MSG_GET_FW_VERSION_REQ = Some 0"
| "devmgmt_req_length DEVMGMT_MSG_GET_DEVICE_STATUS_REQ = Some 0"
| "devmgmt_req_length DEVMGMT_MSG_GET_RTC_REQ = Some 0"
| "devmgmt_req_length DEVMGMT_MSG_GET_RTC_ALARM_REQ = Some 0"
| "devmgmt_req_length DEVMGMT_MSG_CLEAR_RTC_ALARM_REQ = Some 0"
| "devmgmt_req_length DEVMGMT_MSG_GET_OPMODE_REQ = Some 0"
| "devmgmt_req_length DEVMGMT_MSG_SET_RTC_REQ = Some 4"
| "devmgmt_req_length DEVMGMT_MSG_SET_RTC_ALARM_REQ = Some 4"
| "devmgmt_req_length DEVMGMT_MSG_SET_OPMODE_REQ = Some 1"
| "devmgmt_req_length _ = None"

text \<open>The length switch of \<open>WiMOD_LoRaWAN_Msg_Req\<close>: the three data kinds take the
  caller's \<open>len\<close>.\<close>

fun lorawan_req_length :: "lorawan_msg_id \<Rightarrow> u16 \<Rightarrow> u16 option" where
  "lorawan_req_length LORAWAN_MSG_ACTIVATE_DEVICE_REQ len = Some 36"
| "lorawan_req_length LORAWAN_MSG_REACTIVATE_DEVICE_REQ len = Some 0"
| "lorawan_req_length LORAWAN_MSG_JOIN_NETWORK_REQ len = Some 0"
| "lorawan_req_length LORAWAN_MSG_GET_RSTACK_CONFIG_REQ len = Some 0"
| "lorawan_req_length LORAWAN_MSG_GET_SUPPORTED_BANDS_REQ len = Some 0"
| "lorawan_req_length LORAWAN_MSG_GET_DEVICE_EUI_REQ len = Some 0"
| "lorawan_req_length LORAWAN_MSG_GET_CUSTOM_CFG_REQ len = Some 0"
| "lorawan_req_length LORAWAN_MSG_GET_LINKADRREQ_CONFIG_REQ len = Some 0"
| "lorawan_req_length LORAWAN_MSG_FACTORY_RESET_REQ len = Some 0"
| "lorawan_req_length LORAWAN_MSG_DEACTIVATE_DEVICE_REQ len = Some 0"
| "lorawan_req_length LORAWAN_MSG_GET_NWK_STATUS_REQ len = Some 0"
| "lorawan_req_length LORAWAN_MSG_SET_CUSTOM_CFG_REQ len = Some 1"
| "lorawan_req_length LORAWAN_MSG_SET_LINKADRREQ_CONFIG_REQ len = Some 1"
| "lorawan_req_length LORAWAN_MSG_SET_BATTERY_LEVEL_REQ len = Some 1"
| "lorawan_req_length LORAWAN_MSG_SET_JOIN_PARAM_REQ len = Some 24"
| "lorawan_req_length LORAWAN_MSG_SEND_UDATA_REQ len = Some len"
| "lorawan_req_length LORAWAN_MSG_SEND_CDATA_REQ len = Some len"
| "lorawan_req_length LORAWAN_MSG_SEND_MAC_CMD_REQ len = Some len"
| "lorawan_req_length LORAWAN_MSG_SET_RSTACK_CONFIG_REQ len = Some 7"
| "lorawan_req_length LORAWAN_MSG_SET_DEVICE_EUI_REQ len = Some 8"
| "lorawan_req_length _ len = None"

text \<open>
  The body both builders share: set \<open>SapID\<close>/\<open>MsgID\<close>, zero the payload array, and
  on an unsupported kind return \<open>DEVMGMT_STATUS_CMD_NOT_SUPPORTED\<close> with the
  half-written \<open>TxMessage\<close> left behind; otherwise set \<open>Length\<close>, copy \<open>Length\<close>
  bytes of \<open>val\<close> when it is not zero, and send.
\<close>

definition Msg_Req_fill ::
  "nat \<Rightarrow> hci_transport \<Rightarrow> hci_ident \<Rightarrow> u16 option \<Rightarrow> byte list \<Rightarrow> wimod_state \<Rightarrow> req_result" where
  "Msg_Req_fill N hci_send ident rule val s =
    (let tx0 = (TxMessage s)\<lparr>Ident := ident, Payload := replicate N 0\<rparr> in
     case rule of
       None \<Rightarrow> Inr (uint DEVMGMT_STATUS_CMD_NOT_SUPPORTED, s\<lparr>TxMessage := tx0\<rparr>)
     | Some l \<Rightarrow>
         (let tx1 = tx0\<lparr>Length := l\<rparr> in
          fbind (if 0 < l then memcpy_into (Payload tx1) 0 val (unat l) else Inr (Payload tx1))
            (\<lambda>p. let tx2 = tx1\<lparr>Payload := p\<rparr>
                 in Inr (hci_send tx2, s\<lparr>TxMessage := tx2, sent := sent s @ [tx2]\<rparr>))))"

definition WiMOD_DevMgmt_Msg_Req ::
  "nat \<Rightarrow> hci_transport \<Rightarrow> devmgmt_msg_id \<Rightarrow> byte list \<Rightarrow> u16 \<Rightarrow> wimod_state \<Rightarrow> req_result" where
  "WiMOD_DevMgmt_Msg_Req N hci_send msg_id val len s =
     Msg_Req_fill N hci_send (DEVMGMT_SAP msg_id) (devmgmt_req_length msg_id) val s"

definition WiMOD_LoRaWAN_Msg_Req ::
  "nat \<Rightarrow> hci_transport \<Rightarrow> lorawan_msg_id \<Rightarrow> byte list \<Rightarrow> u16 \<Rightarrow> wimod_state \<Rightarrow> req_result" where
  "WiMOD_LoRaWAN_Msg_Req N hci_send msg_id val len s =
     Msg_Req_fill N hci_send (LORAWAN_SAP msg_id) (lorawan_req_length msg_id len) val s"

section \<open>API functions\<close>

definition WiMOD_LoRaWAN_SetOPMODE :: "nat \<Rightarrow> hci_transport \<Rightarrow> byte \<Rightarrow> wimod_state \<Rightarrow> req_result" where
  "WiMOD_LoRaWAN_SetOPMODE N hci_send val s =
     (if val > 1 then Inr (-1, s)
      else WiMOD_DevMgmt_Msg_Req N hci_send DEVMGMT_MSG_SET_OPMODE_REQ [val] 1 s)"

definition WiMOD_LoRaWAN_SetRTC :: "nat \<Rightarrow> hci_transport \<Rightarrow> u32 \<Rightarrow> wimod_state \<Rightarrow> req_result" where
  "WiMOD_LoRaWAN_SetRTC N hci_send time s =
     WiMOD_DevMgmt_Msg_Req N hci_send DEVMGMT_MSG_SET_RTC_REQ (u32_bytes time) 4 s"

definition WiMOD_LoRaWAN_SetRTCAlarm :: "nat \<Rightarrow> hci_transport \<Rightarrow> byte list \<Rightarrow> wimod_state \<Rightarrow> req_result" where
  "WiMOD_LoRaWAN_SetRTCAlarm N hci_send alarm s =
     WiMOD_DevMgmt_Msg_Req N hci_send DEVMGMT_MSG_SET_RTC_ALARM_REQ alarm 4 s"

definition WiMOD_LoRaWAN_SetCustomConfig :: "nat \<Rightarrow> hci_transport \<Rightarrow> byte \<Rightarrow> wimod_state \<Rightarrow> req_result" where
  "WiMOD_LoRaWAN_SetCustomConfig N hci_send val s =
     WiMOD_LoRaWAN_Msg_Req N hci_send LORAWAN_MSG_SET_CUSTOM_CFG_REQ [val] 1 s"

definition WiMOD_LoRaWAN_SetLinkADR :: "nat \<Rightarrow> hci_transport \<Rightarrow> byte list \<Rightarrow> wimod_state \<Rightarrow> req_result" where
  "WiMOD_LoRaWAN_SetLinkADR N hci_send payload s =
     WiMOD_LoRaWAN_Msg_Req N hci_send LORAWAN_MSG_SET_LINKADRREQ_CONFIG_REQ payload 1 s"

definition WiMOD_LoRaWAN_SetMAC_CMD :: "nat \<Rightarrow> hci_transport \<Rightarrow> byte list \<Rightarrow> wimod_state \<Rightarrow> req_result" where
  "WiMOD_LoRaWAN_SetMAC_CMD N hci_send payload s =
     WiMOD_LoRaWAN_Msg_Req N hci_send LORAWAN_MSG_SEND_MAC_CMD_REQ payload 16 s"

text \<open>The wrappers without data pass \<open>NULL, 0\<close>: the empty list here.\<close>

definition WiMOD_LoRaWAN_GetCustomConfig :: "nat \<Rightarrow> hci_transport \<Rightarrow> wimod_state \<Rightarrow> req_result" where
  "WiMOD_LoRaWAN_GetCustomConfig N hci_send s =
     WiMOD_LoRaWAN_Msg_Req N hci_send LORAWAN_MSG_GET_CUSTOM_CFG_REQ [] 0 s"

definition WiMOD_LoRaWAN_SetRadioStackConfig :: "wimod_state \<Rightarrow> req_result" where
  "WiMOD_LoRaWAN_SetRadioStackConfig s = Inr (1, s)"

definition WiMOD_LoRaWAN_GetOPMODE :: "nat \<Rightarrow> hci_transport \<Rightarrow> wimod_state \<Rightarrow> req_result" where
  "WiMOD_LoRaWAN_GetOPMODE N hci_send s =
     WiMOD_DevMgmt_Msg_Req N hci_send DEVMGMT_MSG_GET_OPMODE_REQ [] 0 s"

definition WiMOD_LoRaWAN_ClearRTCAlarm :: "nat \<Rightarrow> hci_transport \<Rightarrow> wimod_state \<Rightarrow> req_result" where
  "WiMOD_LoRaWAN_ClearRTCAlarm N hci_send s =
     WiMOD_DevMgmt_Msg_Req N hci_send DEVMGMT_MSG_CLEAR_RTC_ALARM_REQ [] 0 s"

definition WiMOD_LoRaWAN_GetRTCAlarm :: "nat \<Rightarrow> hci_transport \<Rightarrow> wimod_state \<Rightarrow> req_result" where
  "WiMOD_LoRaWAN_GetRTCAlarm N hci_send s =
     WiMOD_DevMgmt_Msg_Req N hci_send DEVMGMT_MSG_GET_RTC_ALARM_REQ [] 0 s"

definition WiMOD_LoRaWAN_GetRTC :: "nat \<Rightarrow> hci_transport \<Rightarrow> wimod_state \<Rightarrow> req_result" where
  "WiMOD_LoRaWAN_GetRTC N hci_send s =
     WiMOD_DevMgmt_Msg_Req N hci_send DEVMGMT_MSG_GET_RTC_REQ [] 0 s"

definition WiMOD_LoRaWAN_SendPing :: "nat \<Rightarrow> hci_transport \<Rightarrow> wimod_state \<Rightarrow> req_result" where
  "WiMOD_LoRaWAN_SendPing N hci_send s =
     WiMOD_DevMgmt_Msg_Req N hci_send DEVMGMT_MSG_PING_REQ [] 0 s"

definition WiMOD_LoRaWAN_GetDeviceInfo :: "nat \<Rightarrow> hci_transport \<Rightarrow> wimod_state \<Rightarrow> req_result" where
  "WiMOD_LoRaWAN_GetDeviceInfo N hci_send s =
     WiMOD_DevMgmt_Msg_Req N hci_send DEVMGMT_MSG_GET_DEVICE_INFO_REQ [] 0 s"

definition WiMOD_LoRaWAN_GetFirmwareVersion :: "nat \<Rightarrow> hci_transport \<Rightarrow> wimod_state \<Rightarrow> req_result" where
  "WiMOD_LoRaWAN_GetFirmwareVersion N hci_send s =
     WiMOD_DevMgmt_Msg_Req N hci_send DEVMGMT_MSG_GET_FW_VERSION_REQ [] 0 s"

definition WiMOD_LoRaWAN_GetNkwStatus :: "nat \<Rightarrow> hci_transport \<Rightarrow> wimod_state \<Rightarrow> req_result" where
  "WiMOD_LoRaWAN_GetNkwStatus N hci_send s =
     WiMOD_LoRaWAN_Msg_Req N hci_send LORAWAN_MSG_GET_NWK_STATUS_REQ [] 0 s"

definition WiMOD_LoRaWAN_FactoryReset :: "nat \<Rightarrow> hci_transport \<Rightarrow> wimod_state \<Rightarrow> req_result" where
  "WiMOD_LoRaWAN_FactoryReset N hci_send s =
     WiMOD_LoRaWAN_Msg_Req N hci_send LORAWAN_MSG_FACTORY_RESET_REQ [] 0 s"

definition WiMOD_LoRaWAN_GetLinkADR :: "nat \<Rightarrow> hci_transport \<Rightarrow> wimod_state \<Rightarrow> req_result" where
  "WiMOD_LoRaWAN_GetLinkADR N hci_send s =
     WiMOD_LoRaWAN_Msg_Req N hci_send LORAWAN_MSG_GET_LINKADRREQ_CONFIG_REQ [] 0 s"

definition WiMOD_LoRaWAN_Reset :: "nat \<Rightarrow> hci_transport \<Rightarrow> wimod_state \<Rightarrow> req_result" where
  "WiMOD_LoRaWAN_Reset N hci_send s =
     WiMOD_DevMgmt_Msg_Req N hci_send DEVMGMT_MSG_RESET_REQ [] 0 s"

definition WiMOD_LoRaWAN_GetDeviceStatus :: "nat \<Rightarrow> hci_transport \<Rightarrow> wimod_state \<Rightarrow> req_result" where
  "WiMOD_LoRaWAN_GetDeviceStatus N hci_send s =
     WiMOD_DevMgmt_Msg_Req N hci_send DEVMGMT_MSG_GET_DEVICE_STATUS_REQ [] 0 s"

definition WiMOD_LoRaWAN_JoinNetworkRequest :: "nat \<Rightarrow> hci_transport \<Rightarrow> wimod_state \<Rightarrow> req_result" where
  "WiMOD_LoRaWAN_JoinNetworkRequest N hci_send s =
     WiMOD_LoRaWAN_Msg_Req N hci_send LORAWAN_MSG_JOIN_NETWORK_REQ [] 0 s"

text \<open>\<open>WiMOD_LoRaWAN_ActivateRequest\<close>: a 37-byte array, of which the length rule
  sends 36 bytes.\<close>

definition ActivateRequest_payload :: "byte list" where
  "ActivateRequest_payload =
    [0x04, 0x47, 0x00, 0x00,
     0x00, 0x11, 0x22, 0x33, 0x44, 0x55, 0x66, 0x77, 0x88, 0x99, 0xAA, 0xBB, 0xCC, 0xDD, 0xEE, 0xFF,
     0xFF, 0xEE, 0xDD, 0xCC, 0xBB, 0xAA, 0x99, 0x88, 0x77, 0x66, 0x55, 0x44, 0x33, 0x22, 0x11, 0x00,
     0x00]"

definition WiMOD_LoRaWAN_ActivateRequest :: "nat \<Rightarrow> hci_transport \<Rightarrow> wimod_state \<Rightarrow> req_result" where
  "WiMOD_LoRaWAN_ActivateRequest N hci_send s =
     WiMOD_LoRaWAN_Msg_Req N hci_send LORAWAN_MSG_ACTIVATE_DEVICE_REQ ActivateRequest_payload 37 s"

text \<open>
  \<open>WiMOD_LoRaWAN_SendURadioData\<close> and \<open>WiMOD_LoRaWAN_SendCRadioData\<close>: reject an
  application payload longer than \<open>N - 1\<close>, otherwise put the port in front of it in
  a local zeroed array of \<open>N\<close> bytes and request \<open>1 + srcLength\<close> bytes (passed as the
  \<open>uint16_t len\<close>).  \<open>srcData\<close> is the caller's object, \<open>srcLength\<close> the length
  the caller claims for it.
\<close>

definition radio_data_req ::
  "nat \<Rightarrow> hci_transport \<Rightarrow> lorawan_msg_id \<Rightarrow> byte \<Rightarrow> byte list \<Rightarrow> nat \<Rightarrow> wimod_state \<Rightarrow> req_result" where
  "radio_data_req N hci_send msg_id port srcData srcLength s =
     (if int srcLength > int N - 1 then Inr (-1, s)
      else fbind (buf_set (replicate N 0) 0 port) (\<lambda>payload.
           fbind (memcpy_into payload 1 srcData srcLength) (\<lambda>payload.
             WiMOD_LoRaWAN_Msg_Req N hci_send msg_id payload (word_of_nat (1 + srcLength)) s)))"

definition WiMOD_LoRaWAN_SendURadioData ::
  "nat \<Rightarrow> hci_transport \<Rightarrow> byte \<Rightarrow> byte list \<Rightarrow> nat \<Rightarrow> wimod_state \<Rightarrow> req_result" where
  "WiMOD_LoRaWAN_SendURadioData N hci_send port srcData srcLength s =
     radio_data_req N hci_send LORAWAN_MSG_SEND_UDATA_REQ port srcData srcLength s"

definition WiMOD_LoRaWAN_SendCRadioData ::
  "nat \<Rightarrow> hci_transport \<Rightarrow> byte \<Rightarrow> byte list \<Rightarrow> nat \<Rightarrow> wimod_state \<Rightarrow> req_result" where
  "WiMOD_LoRaWAN_SendCRadioData N hci_send port srcData srcLength s =
     radio_data_req N hci_send LORAWAN_MSG_SEND_CDATA_REQ port srcData srcLength s"

section \<open>Console commands\<close>

text \<open>\<open>SetOPMODE\<close> asks for operation mode 3 (customer mode, per its comment).\<close>

definition SetOPMODE :: "nat \<Rightarrow> hci_transport \<Rightarrow> wimod_state \<Rightarrow> req_result" where
  "SetOPMODE N hci_send s = WiMOD_LoRaWAN_SetOPMODE N hci_send 3 s"

definition ClearOPMODE :: "nat \<Rightarrow> hci_transport \<Rightarrow> wimod_state \<Rightarrow> req_result" where
  "ClearOPMODE N hci_send s = WiMOD_LoRaWAN_SetOPMODE N hci_send 0 s"

text \<open>\<open>SetRTC\<close>: 2018-5-20 [12:30:30] packed by the shift sequence.\<close>

definition SetRTC :: "nat \<Rightarrow> hci_transport \<Rightarrow> wimod_state \<Rightarrow> req_result" where
  "SetRTC N hci_send s = WiMOD_LoRaWAN_SetRTC N hci_send (SetRTC_time 18 20 12 5 30 30) s"

text \<open>\<open>SetAlarm\<close>: daily alarm at 12:30:30.\<close>

definition SetAlarm :: "nat \<Rightarrow> hci_transport \<Rightarrow> wimod_state \<Rightarrow> req_result" where
  "SetAlarm N hci_send s = WiMOD_LoRaWAN_SetRTCAlarm N hci_send [0x1, 12, 30, 30] s"

definition SetRadioStack_data :: "byte list" where
  "SetRadioStack_data = [0x5, 0x10, 0b11000110, 0x01, 0x7, 0x12, 0xf]"

definition SetRadioStack :: "nat \<Rightarrow> hci_transport \<Rightarrow> wimod_state \<Rightarrow> req_result" where
  "SetRadioStack N hci_send s =
     WiMOD_LoRaWAN_Msg_Req N hci_send LORAWAN_MSG_SET_RSTACK_CONFIG_REQ SetRadioStack_data 7 s"

definition SetBatLVL :: "nat \<Rightarrow> hci_transport \<Rightarrow> byte \<Rightarrow> wimod_state \<Rightarrow> req_result" where
  "SetBatLVL N hci_send batLvl s =
     WiMOD_LoRaWAN_Msg_Req N hci_send LORAWAN_MSG_SET_BATTERY_LEVEL_REQ [batLvl] 1 s"

text \<open>The other console commands print their name and call one API function; their
  \<open>void\<close> drops its result.\<close>

definition GetNwkStatus :: "nat \<Rightarrow> hci_transport \<Rightarrow> wimod_state \<Rightarrow> req_result" where
  "GetNwkStatus N hci_send s = WiMOD_LoRaWAN_GetNkwStatus N hci_send s"

definition SetCustomCFG :: "nat \<Rightarrow> hci_transport \<Rightarrow> wimod_state \<Rightarrow> req_result" where
  "SetCustomCFG N hci_send s = WiMOD_LoRaWAN_SetCustomConfig N hci_send 0 s"

definition GetCustomCFG :: "nat \<Rightarrow> hci_transport \<Rightarrow> wimod_state \<Rightarrow> req_result" where
  "GetCustomCFG N hci_send s = WiMOD_LoRaWAN_GetCustomConfig N hci_send s"

definition ActivateABP_payload :: "byte list" where
  "ActivateABP_payload =
    [0x68, 0x68, 0x00, 0x00,
     0x00, 0x11, 0x22, 0x33, 0x44, 0x55, 0x66, 0x77, 0x88, 0x99, 0xAA, 0xBB, 0xCC, 0xDD, 0xEE, 0xFF,
     0xFF, 0xEE, 0xDD, 0xCC, 0xBB, 0xAA, 0x99, 0x88, 0x77, 0x66, 0x55, 0x44, 0x33, 0x22, 0x11, 0x00,
     0x00]"

definition ActivateABP :: "nat \<Rightarrow> hci_transport \<Rightarrow> wimod_state \<Rightarrow> req_result" where
  "ActivateABP N hci_send s =
     WiMOD_LoRaWAN_Msg_Req N hci_send LORAWAN_MSG_ACTIVATE_DEVICE_REQ ActivateABP_payload 37 s"

definition Reactivate :: "nat \<Rightarrow> hci_transport \<Rightarrow> wimod_state \<Rightarrow> req_result" where
  "Reactivate N hci_send s = WiMOD_LoRaWAN_Msg_Req N hci_send LORAWAN_MSG_REACTIVATE_DEVICE_REQ [] 0 s"

definition Deactivate :: "nat \<Rightarrow> hci_transport \<Rightarrow> wimod_state \<Rightarrow> req_result" where
  "Deactivate N hci_send s = WiMOD_LoRaWAN_Msg_Req N hci_send LORAWAN_MSG_DEACTIVATE_DEVICE_REQ [] 0 s"

definition GetSupportBand :: "nat \<Rightarrow> hci_transport \<Rightarrow> wimod_state \<Rightarrow> req_result" where
  "GetSupportBand N hci_send s = WiMOD_LoRaWAN_Msg_Req N hci_send LORAWAN_MSG_GET_SUPPORTED_BANDS_REQ [] 0 s"

definition GetRadioStack :: "nat \<Rightarrow> hci_transport \<Rightarrow> wimod_state \<Rightarrow> req_result" where
  "GetRadioStack N hci_send s = WiMOD_LoRaWAN_Msg_Req N hci_send LORAWAN_MSG_GET_RSTACK_CONFIG_REQ [] 0 s"

definition GetDevEUI :: "nat \<Rightarrow> hci_transport \<Rightarrow> wimod_state \<Rightarrow> req_result" where
  "GetDevEUI N hci_send s = WiMOD_LoRaWAN_Msg_Req N hci_send LORAWAN_MSG_GET_DEVICE_EUI_REQ [] 0 s"

definition GetOPMODE :: "nat \<Rightarrow> hci_transport \<Rightarrow> wimod_state \<Rightarrow> req_result" where
  "GetOPMODE N hci_send s = WiMOD_LoRaWAN_GetOPMODE N hci_send s"

definition ClearRTCAlarm :: "nat \<Rightarrow> hci_transport \<Rightarrow> wimod_state \<Rightarrow> req_result" where
  "ClearRTCAlarm N hci_send s = WiMOD_LoRaWAN_ClearRTCAlarm N hci_send s"

definition GetRTC :: "nat \<Rightarrow> hci_transport \<Rightarrow> wimod_state \<Rightarrow> req_result" where
  "GetRTC N hci_send s = WiMOD_LoRaWAN_GetRTC N hci_send s"

definition GetAlarm :: "nat \<Rightarrow> hci_transport \<Rightarrow> wimod_state \<Rightarrow> req_result" where
  "GetAlarm N hci_send s = WiMOD_LoRaWAN_GetRTCAlarm N hci_send s"

definition Ping :: "nat \<Rightarrow> hci_transport \<Rightarrow> wimod_state \<Rightarrow> req_result" where
  "Ping N hci_send s = WiMOD_LoRaWAN_SendPing N hci_send s"

definition GetFirmwareVersion :: "nat \<Rightarrow> hci_transport \<Rightarrow> wimod_state \<Rightarrow> req_result" where
  "GetFirmwareVersion N hci_send s = WiMOD_LoRaWAN_GetFirmwareVersion N hci_send s"

definition GetDeviceInfo :: "nat \<Rightarrow> hci_transport \<Rightarrow> wimod_state \<Rightarrow> req_result" where
  "GetDeviceInfo N hci_send s = WiMOD_LoRaWAN_GetDeviceInfo N hci_send s"

definition GetDeviceStatus :: "nat \<Rightarrow> hci_transport \<Rightarrow> wimod_state \<Rightarrow> req_result" where
  "GetDeviceStatus N hci_send s = WiMOD_LoRaWAN_GetDeviceStatus N hci_send s"

definition Join :: "nat \<Rightarrow> hci_transport \<Rightarrow> wimod_state \<Rightarrow> req_result" where
  "Join N hci_send s = WiMOD_LoRaWAN_JoinNetworkRequest N hci_send s"

definition SendUData :: "nat \<Rightarrow> hci_transport \<Rightarrow> byte \<Rightarrow> byte list \<Rightarrow> nat \<Rightarrow> wimod_state \<Rightarrow> req_result" where
  "SendUData N hci_send port srcData srcLength s =
     WiMOD_LoRaWAN_SendURadioData N hci_send port srcData srcLength s"

definition SendCData :: "nat \<Rightarrow> hci_transport \<Rightarrow> byte \<Rightarrow> byte list \<Rightarrow> nat \<Rightarrow> wimod_state \<Rightarrow> req_result" where
  "SendCData N hci_send port srcData srcLength s =
     WiMOD_LoRaWAN_SendCRadioData N hci_send port srcData srcLength s"

definition FactoryReset :: "nat \<Rightarrow> hci_transport \<Rightarrow> wimod_state \<Rightarrow> req_result" where
  "FactoryReset N hci_send s = WiMOD_LoRaWAN_FactoryReset N hci_send s"

definition GetLinkADR :: "nat \<Rightarrow> hci_transport \<Rightarrow> wimod_state \<Rightarrow> req_result" where
  "GetLinkADR N hci_send s = WiMOD_LoRaWAN_GetLinkADR N hci_send s"

definition SetLinkADR :: "nat \<Rightarrow> hci_transport \<Rightarrow> wimod_state \<Rightarrow> req_result" where
  "SetLinkADR N hci_send s = WiMOD_LoRaWAN_SetLinkADR N hci_send [0] s"

section \<open>Invariant: the envelopes keep their capacity\<close>

definition wf_state :: "nat \<Rightarrow> wimod_state \<Rightarrow> bool" where
  "wf_state N s \<longleftrightarrow> wf_message N (TxMessage s) \<and> wf_message N (RxMessage s) \<and>
                    (\<forall>m \<in> set (sent s). wf_message N m)"

lemma wf_initial_state: "wf_state N (initial_state N)"
  by (simp add: wf_state_def initial_state_def empty_message_def wf_message_def)

text \<open>What a successful request leaves behind: the sent envelope, its contents, and
  the state after it.\<close>

lemma Msg_Req_fill_Some:
  assumes "unat l \<le> length val" and "unat l \<le> N"
  shows "Msg_Req_fill N hci_send ident (Some l) val s =
           (let tx = (TxMessage s)\<lparr>Ident := ident, Length := l,
                        Payload := take (unat l) val @ replicate (N - unat l) 0\<rparr>
            in Inr (hci_send tx, s\<lparr>TxMessage := tx, sent := sent s @ [tx]\<rparr>))"
proof (cases "l = 0")
  case True
  then show ?thesis by (cases "TxMessage s") (simp add: Msg_Req_fill_def Let_def)
next
  case False
  then have "0 < l" by (simp add: word_neq_0_conv)
  with assms show ?thesis by (cases "TxMessage s") (simp add: Msg_Req_fill_def Let_def)
qed

lemma Msg_Req_fill_None:
  "Msg_Req_fill N hci_send ident None val s =
     Inr (uint DEVMGMT_STATUS_CMD_NOT_SUPPORTED,
          s\<lparr>TxMessage := (TxMessage s)\<lparr>Ident := ident, Payload := replicate N 0\<rparr>\<rparr>)"
  by (simp add: Msg_Req_fill_def)

lemma Msg_Req_fill_wf:
  assumes "wf_state N s" and "Msg_Req_fill N hci_send ident rule val s = Inr (r, s')"
  shows "wf_state N s'"
proof (cases rule)
  case None
  with assms show ?thesis by (auto simp: Msg_Req_fill_def wf_state_def wf_message_def)
next
  case (Some l)
  with assms show ?thesis
    by (auto simp: Msg_Req_fill_def Let_def fbind_eq_Inr wf_state_def wf_message_def
        memcpy_into_def word_gt_0 split: if_splits)
qed

text \<open>What the data-submission body sends when the data fits: the port, the data and
  zeroes, with length \<open>1 + srcLength\<close>, for a kind whose length is the caller's.\<close>

lemma radio_data_req_sends:
  assumes "srcLength + 1 \<le> N" and "N < 65536" and "srcLength \<le> length srcData"
    and rule: "\<forall>len. lorawan_req_length msg_id len = Some len"
  shows "radio_data_req N hci_send msg_id port srcData srcLength s =
           (let tx = (TxMessage s)\<lparr>Ident := LORAWAN_SAP msg_id, Length := word_of_nat (1 + srcLength),
                       Payload := port # take srcLength srcData @ replicate (N - 1 - srcLength) 0\<rparr>
            in Inr (hci_send tx, s\<lparr>TxMessage := tx, sent := sent s @ [tx]\<rparr>))"
proof -
  let ?l = "word_of_nat (1 + srcLength) :: u16"
  let ?p = "port # take srcLength srcData @ replicate (N - 1 - srcLength) 0"
  have ul: "unat ?l = srcLength + 1" using assms(1,2) by (simp only: unat_of_nat) simp
  have set0: "buf_set (replicate N 0) 0 port = Inr (port # replicate (N - 1) 0)"
    using assms(1) by (cases N) (simp_all add: buf_set_def)
  have cp: "memcpy_into (port # replicate (N - 1) 0) 1 srcData srcLength = Inr ?p"
    using assms(1,3) by simp
  have len: "unat ?l \<le> length ?p" using ul assms by simp
  have fill: "Msg_Req_fill N hci_send (LORAWAN_SAP msg_id) (Some ?l) ?p s =
                (let tx = (TxMessage s)\<lparr>Ident := LORAWAN_SAP msg_id, Length := ?l, Payload := ?p\<rparr>
                 in Inr (hci_send tx, s\<lparr>TxMessage := tx, sent := sent s @ [tx]\<rparr>))"
    using Msg_Req_fill_Some [OF len] ul assms by (simp add: min_def)
  have "\<not> int N - 1 < int srcLength" using assms(1) by simp
  then show ?thesis
    using set0 cp fill rule by (simp add: radio_data_req_def WiMOD_LoRaWAN_Msg_Req_def Let_def)
qed

lemma Msg_Req_fill_overflow:
  assumes "N < unat l" and "unat l \<le> length args"
  shows "Msg_Req_fill N hci_send ident (Some l) args s = Inl Write_Out_Of_Bounds"
proof -
  have "0 < l" using assms(1) by (simp add: word_gt_0) (metis not_less0 unat_0)
  with assms show ?thesis by (simp add: Msg_Req_fill_def Let_def memcpy_into_def)
qed

section \<open>Properties\<close>

text \<open>C4: WiMOD_LoRaWAN_SendURadioData with a payload that fits the envelope sends one message: identifier SEND_UDATA_REQ, length 1 + srcLength, the port byte then the first srcLength bytes of the data then zeroes; the sent message is the new TxMessage and the transport result is returned.\<close>

theorem SendURadioData_sends:
  assumes "srcLength + 1 \<le> N" and "N < 65536" and "srcLength \<le> length srcData"
  shows "\<exists>tx. WiMOD_LoRaWAN_SendURadioData N hci_send port srcData srcLength s =
                Inr (hci_send tx, s\<lparr>TxMessage := tx, sent := sent s @ [tx]\<rparr>) \<and>
              Ident tx = LORAWAN_SAP LORAWAN_MSG_SEND_UDATA_REQ \<and> unat (Length tx) = srcLength + 1 \<and>
              Payload tx = port # take srcLength srcData @ replicate (N - 1 - srcLength) 0"
proof -
  have ul: "unat (word_of_nat (1 + srcLength) :: u16) = srcLength + 1"
    using assms(1,2) by (simp only: unat_of_nat) simp
  let ?tx = "(TxMessage s)\<lparr>Ident := LORAWAN_SAP LORAWAN_MSG_SEND_UDATA_REQ, Length := word_of_nat (1 + srcLength),
               Payload := port # take srcLength srcData @ replicate (N - 1 - srcLength) 0\<rparr>"
  have "WiMOD_LoRaWAN_SendURadioData N hci_send port srcData srcLength s =
          Inr (hci_send ?tx, s\<lparr>TxMessage := ?tx, sent := sent s @ [?tx]\<rparr>)"
    using radio_data_req_sends [OF assms, where msg_id = LORAWAN_MSG_SEND_UDATA_REQ]
    by (simp add: WiMOD_LoRaWAN_SendURadioData_def Let_def)
  then show ?thesis using ul by (intro exI [of _ ?tx]) simp
qed

theorem SendURadioData_sends_witness:
  "7 + 1 \<le> (8::nat) \<and> (8::nat) < 65536 \<and> 7 \<le> length [1, 2, 3, 4, 5, 6, 7 :: byte] \<and>
   (\<exists>tx. WiMOD_LoRaWAN_SendURadioData 8 (\<lambda>_. 1) 5 [1, 2, 3, 4, 5, 6, 7] 7 (initial_state 8) =
          Inr ((\<lambda>_. 1) tx, (initial_state 8)\<lparr>TxMessage := tx, sent := sent (initial_state 8) @ [tx]\<rparr>) \<and>
        Ident tx = LORAWAN_SAP LORAWAN_MSG_SEND_UDATA_REQ \<and> unat (Length tx) = 7 + 1 \<and>
        Payload tx = 5 # take 7 [1, 2, 3, 4, 5, 6, 7] @ replicate (8 - 1 - 7) 0)"
  using SendURadioData_sends [of 7 8 "[1, 2, 3, 4, 5, 6, 7]" "\<lambda>_. 1" 5 "initial_state 8"] by simp

text \<open>C5: WiMOD_LoRaWAN_SendURadioData with more than N - 1 data bytes returns -1 and leaves the state unchanged: nothing is sent.\<close>

theorem SendURadioData_overflow:
  "int N - 1 < int srcLength \<Longrightarrow>
   WiMOD_LoRaWAN_SendURadioData N hci_send port srcData srcLength s = Inr (-1, s)"
  by (simp add: WiMOD_LoRaWAN_SendURadioData_def radio_data_req_def)

theorem SendURadioData_overflow_witness:
  "int 8 - 1 < int 8 \<and> WiMOD_LoRaWAN_SendURadioData 8 (\<lambda>_. 1) 5 (replicate 8 0) 8 (initial_state 8) = Inr (-1, initial_state 8)"
  using SendURadioData_overflow [of 8 8 "\<lambda>_. 1" 5 "replicate 8 0" "initial_state 8"] by simp

text \<open>C6: WiMOD_DevMgmt_Msg_Req for a request whose length rule gives l sends exactly one message with that identifier, length l and the first l bytes of the value followed by zeroes.\<close>

theorem DevMgmt_Msg_Req_sends:
  assumes "devmgmt_req_length msg = Some l" and "unat l \<le> length val" and "unat l \<le> N"
  shows "\<exists>tx. WiMOD_DevMgmt_Msg_Req N hci_send msg val len s =
                Inr (hci_send tx, s\<lparr>TxMessage := tx, sent := sent s @ [tx]\<rparr>) \<and>
              Ident tx = DEVMGMT_SAP msg \<and> Length tx = l \<and>
              Payload tx = take (unat l) val @ replicate (N - unat l) 0"
proof -
  let ?tx = "(TxMessage s)\<lparr>Ident := DEVMGMT_SAP msg, Length := l,
               Payload := take (unat l) val @ replicate (N - unat l) 0\<rparr>"
  have "WiMOD_DevMgmt_Msg_Req N hci_send msg val len s =
          Inr (hci_send ?tx, s\<lparr>TxMessage := ?tx, sent := sent s @ [?tx]\<rparr>)"
    using Msg_Req_fill_Some [OF assms(2,3)] assms(1) by (simp add: WiMOD_DevMgmt_Msg_Req_def Let_def)
  then show ?thesis by (intro exI [of _ ?tx]) simp
qed

theorem DevMgmt_Msg_Req_sends_witness:
  "devmgmt_req_length DEVMGMT_MSG_SET_RTC_REQ = Some 4 \<and> unat (4 :: u16) \<le> length [1, 2, 3, 4 :: byte] \<and>
   unat (4 :: u16) \<le> 8 \<and>
   (\<exists>tx. WiMOD_DevMgmt_Msg_Req 8 (\<lambda>_. 1) DEVMGMT_MSG_SET_RTC_REQ [1, 2, 3, 4] 4 (initial_state 8) =
           Inr ((\<lambda>_. 1) tx, (initial_state 8)\<lparr>TxMessage := tx, sent := sent (initial_state 8) @ [tx]\<rparr>) \<and>
         Ident tx = DEVMGMT_SAP DEVMGMT_MSG_SET_RTC_REQ \<and> Length tx = 4 \<and>
         Payload tx = take (unat (4 :: u16)) [1, 2, 3, 4] @ replicate (8 - unat (4 :: u16)) 0)"
  using DevMgmt_Msg_Req_sends [of DEVMGMT_MSG_SET_RTC_REQ 4 "[1, 2, 3, 4]" 8 "\<lambda>_. 1" 4 "initial_state 8"]
  by simp

text \<open>C7: WiMOD_LoRaWAN_Msg_Req copies the caller-given length of a variable-length request (here SEND_MAC_CMD) without comparing it to the envelope capacity: a length above N writes beyond the payload array.\<close>

theorem Msg_Req_no_overflow_check:
  assumes "N < unat len" and "unat len \<le> length val"
  shows "WiMOD_LoRaWAN_Msg_Req N hci_send LORAWAN_MSG_SEND_MAC_CMD_REQ val len s = Inl Write_Out_Of_Bounds"
  using Msg_Req_fill_overflow [OF assms] by (simp add: WiMOD_LoRaWAN_Msg_Req_def)

theorem Msg_Req_no_overflow_check_witness:
  "8 < unat (16 :: u16) \<and> unat (16 :: u16) \<le> length (replicate 16 (0 :: byte)) \<and>
   WiMOD_LoRaWAN_Msg_Req 8 (\<lambda>_. 1) LORAWAN_MSG_SEND_MAC_CMD_REQ (replicate 16 0) 16 (initial_state 8) =
     Inl Write_Out_Of_Bounds"
  using Msg_Req_no_overflow_check [of 8 16 "replicate 16 0" "\<lambda>_. 1" "initial_state 8"] by simp

text \<open>Every request of WiMOD_LoRaWAN_Msg_Req that completes keeps the envelopes well formed: the payload array has its capacity N and the length field is at most N.\<close>

theorem LoRaWAN_Msg_Req_wf:
  "wf_state N s \<Longrightarrow> WiMOD_LoRaWAN_Msg_Req N hci_send msg val len s = Inr (r, s') \<Longrightarrow> wf_state N s'"
  unfolding WiMOD_LoRaWAN_Msg_Req_def by (rule Msg_Req_fill_wf)

theorem LoRaWAN_Msg_Req_wf_witness:
  "\<exists>r s'. wf_state 8 (initial_state 8) \<and>
     WiMOD_LoRaWAN_Msg_Req 8 (\<lambda>_. 1) LORAWAN_MSG_SET_CUSTOM_CFG_REQ [5] 1 (initial_state 8) = Inr (r, s') \<and>
     wf_state 8 s'"
proof -
  have "\<exists>r s'. WiMOD_LoRaWAN_Msg_Req 8 (\<lambda>_. 1) LORAWAN_MSG_SET_CUSTOM_CFG_REQ [5] 1 (initial_state 8) = Inr (r, s')"
    using Msg_Req_fill_Some [of 1 "[5]" 8] by (simp add: WiMOD_LoRaWAN_Msg_Req_def Let_def)
  then obtain r s' where rs:
    "WiMOD_LoRaWAN_Msg_Req 8 (\<lambda>_. 1) LORAWAN_MSG_SET_CUSTOM_CFG_REQ [5] 1 (initial_state 8) = Inr (r, s')"
    by blast
  have wf0: "wf_state 8 (initial_state 8)" by (rule wf_initial_state)
  from LoRaWAN_Msg_Req_wf [OF wf0 rs] wf0 rs show ?thesis by blast
qed

text \<open>C26: WiMOD_LoRaWAN_SetOPMODE sends exactly one SET_OPMODE request, of length 1 with the mode as its only byte, if and only if the mode is 0 or 1; for every mode above 1 it returns -1 and leaves the state unchanged, so the console command SetOPMODE, which asks for mode 3, never sends anything.\<close>

theorem SetOPMODE_sends_iff:
  assumes "1 \<le> N"
  shows "((\<exists>tx. WiMOD_LoRaWAN_SetOPMODE N hci_send val s =
                  Inr (hci_send tx, s\<lparr>TxMessage := tx, sent := sent s @ [tx]\<rparr>) \<and>
                Ident tx = DEVMGMT_SAP DEVMGMT_MSG_SET_OPMODE_REQ \<and> Length tx = 1 \<and>
                Payload tx = val # replicate (N - 1) 0) \<longleftrightarrow> val \<le> 1) \<and>
         (1 < val \<longrightarrow> WiMOD_LoRaWAN_SetOPMODE N hci_send val s = Inr (-1, s)) \<and>
         SetOPMODE N hci_send s = Inr (-1, s)"
proof (cases "val \<le> 1")
  case True
  let ?tx = "(TxMessage s)\<lparr>Ident := DEVMGMT_SAP DEVMGMT_MSG_SET_OPMODE_REQ, Length := 1,
               Payload := val # replicate (N - 1) 0\<rparr>"
  have "WiMOD_LoRaWAN_SetOPMODE N hci_send val s =
          Inr (hci_send ?tx, s\<lparr>TxMessage := ?tx, sent := sent s @ [?tx]\<rparr>)"
    using Msg_Req_fill_Some [of 1 "[val]" N] assms True
    by (simp add: WiMOD_LoRaWAN_SetOPMODE_def WiMOD_DevMgmt_Msg_Req_def Let_def leD)
  then have "\<exists>tx. WiMOD_LoRaWAN_SetOPMODE N hci_send val s =
                  Inr (hci_send tx, s\<lparr>TxMessage := tx, sent := sent s @ [tx]\<rparr>) \<and>
                Ident tx = DEVMGMT_SAP DEVMGMT_MSG_SET_OPMODE_REQ \<and> Length tx = 1 \<and>
                Payload tx = val # replicate (N - 1) 0"
    by (intro exI [of _ ?tx]) simp
  with True show ?thesis by (simp add: SetOPMODE_def WiMOD_LoRaWAN_SetOPMODE_def)
next
  case False
  have "s \<noteq> s\<lparr>TxMessage := tx, sent := sent s @ [tx]\<rparr>" for tx
    by (cases s) simp
  with False show ?thesis by (auto simp: SetOPMODE_def WiMOD_LoRaWAN_SetOPMODE_def)
qed

theorem SetOPMODE_sends_iff_witness:
  "1 \<le> (8 :: nat) \<and>
   (\<exists>tx. WiMOD_LoRaWAN_SetOPMODE 8 (\<lambda>_. 1) 1 (initial_state 8) =
           Inr (1, (initial_state 8)\<lparr>TxMessage := tx, sent := sent (initial_state 8) @ [tx]\<rparr>) \<and>
         Ident tx = DEVMGMT_SAP DEVMGMT_MSG_SET_OPMODE_REQ \<and> Length tx = 1 \<and>
         Payload tx = 1 # replicate 7 0) \<and>
   WiMOD_LoRaWAN_SetOPMODE 8 (\<lambda>_. 1) 3 (initial_state 8) = Inr (-1, initial_state 8) \<and>
   SetOPMODE 8 (\<lambda>_. 1) (initial_state 8) = Inr (-1, initial_state 8)"
  using SetOPMODE_sends_iff [of 8 "\<lambda>_. 1" 1 "initial_state 8"] SetOPMODE_sends_iff [of 8 "\<lambda>_. 1" 3 "initial_state 8"]
  by simp

text \<open>WiMOD_LoRaWAN_SetOPMODE with a mode above 1 returns -1 and leaves the state unchanged.\<close>

theorem SetOPMODE_rejects:
  "1 < val \<Longrightarrow> WiMOD_LoRaWAN_SetOPMODE N hci_send val s = Inr (-1, s)"
  by (simp add: WiMOD_LoRaWAN_SetOPMODE_def)

theorem SetOPMODE_rejects_witness:
  "1 < (2 :: byte) \<and> WiMOD_LoRaWAN_SetOPMODE 8 (\<lambda>_. 1) 2 (initial_state 8) = Inr (-1, initial_state 8)"
  using SetOPMODE_rejects [of 2 8 "\<lambda>_. 1" "initial_state 8"] by simp

text \<open>WiMOD_DevMgmt_Msg_Req for an identifier its switch does not list returns the status CMD_NOT_SUPPORTED without sending; it has already written the identifier and cleared the payload of TxMessage.\<close>

theorem DevMgmt_Msg_Req_unsupported:
  "devmgmt_req_length msg = None \<Longrightarrow>
   WiMOD_DevMgmt_Msg_Req N hci_send msg val len s =
     Inr (2, s\<lparr>TxMessage := (TxMessage s)\<lparr>Ident := DEVMGMT_SAP msg, Payload := replicate N 0\<rparr>\<rparr>)"
  by (simp add: WiMOD_DevMgmt_Msg_Req_def Msg_Req_fill_None DEVMGMT_STATUS_CMD_NOT_SUPPORTED_def)

theorem DevMgmt_Msg_Req_unsupported_witness:
  "devmgmt_req_length DEVMGMT_MSG_PING_RSP = None \<and>
   WiMOD_DevMgmt_Msg_Req 8 (\<lambda>_. 1) DEVMGMT_MSG_PING_RSP [] 0 (initial_state 8) =
     Inr (2, (initial_state 8)\<lparr>TxMessage := (TxMessage (initial_state 8))\<lparr>Ident := DEVMGMT_SAP DEVMGMT_MSG_PING_RSP, Payload := replicate 8 0\<rparr>\<rparr>)"
  using DevMgmt_Msg_Req_unsupported [of DEVMGMT_MSG_PING_RSP 8 "\<lambda>_. 1" "[]" 0 "initial_state 8"] by simp

text \<open>WiMOD_LoRaWAN_Msg_Req for an identifier its switch does not list returns the device-management status CMD_NOT_SUPPORTED and sends nothing.\<close>

theorem LoRaWAN_Msg_Req_unsupported:
  "lorawan_req_length msg len = None \<Longrightarrow>
   WiMOD_LoRaWAN_Msg_Req N hci_send msg val len s = Inr (r, s') \<Longrightarrow>
   r = uint DEVMGMT_STATUS_CMD_NOT_SUPPORTED \<and> sent s' = sent s \<and>
   Ident (TxMessage s') = LORAWAN_SAP msg \<and> Length (TxMessage s') = Length (TxMessage s)"
  by (auto simp: WiMOD_LoRaWAN_Msg_Req_def Msg_Req_fill_None)

theorem LoRaWAN_Msg_Req_unsupported_witness:
  "\<exists>r s'. lorawan_req_length LORAWAN_MSG_SEND_UDATA_RSP 0 = None \<and>
     WiMOD_LoRaWAN_Msg_Req 8 (\<lambda>_. 1) LORAWAN_MSG_SEND_UDATA_RSP [] 0 (initial_state 8) = Inr (r, s') \<and>
     r = uint DEVMGMT_STATUS_CMD_NOT_SUPPORTED \<and> sent s' = sent (initial_state 8)"
proof -
  have eq: "\<exists>r s'. WiMOD_LoRaWAN_Msg_Req 8 (\<lambda>_. 1) LORAWAN_MSG_SEND_UDATA_RSP [] 0 (initial_state 8) = Inr (r, s')"
    by (simp add: WiMOD_LoRaWAN_Msg_Req_def Msg_Req_fill_None)
  then obtain r s' where rs: "WiMOD_LoRaWAN_Msg_Req 8 (\<lambda>_. 1) LORAWAN_MSG_SEND_UDATA_RSP [] 0 (initial_state 8) = Inr (r, s')"
    by blast
  have "lorawan_req_length LORAWAN_MSG_SEND_UDATA_RSP 0 = None" by simp
  with rs LoRaWAN_Msg_Req_unsupported [of LORAWAN_MSG_SEND_UDATA_RSP 0 8 "\<lambda>_. 1" "[]" "initial_state 8" r s']
  show ?thesis by blast
qed

end
