(* ===== verification/Encode_Spec.thy ===== *)
theory Encode_Spec
  imports Encoder
begin

text \<open>
  The outbound contract of the specification (sections 4.1 to 4.3 and 7): an encoder
  from an endpoint, a kind and argument bytes to an envelope (endpoint and kind, and
  the payload bytes the kind's length rule takes) or an error.  The length tables are
  the specification's.  \<open>envelope_of\<close> reads a sent \<open>TWiMOD_HCI_Message\<close> as an
  envelope (its identifier and its first \<open>Length\<close> payload bytes), and
  \<open>refines_encode\<close> says when a run of the driver implements an outcome of the
  contract: a success sends exactly one message, whose envelope is the specified one;
  an error returns without sending; the driver never reaches undefined behaviour.
  The lemmas show that the Device-Management builder and the data-submission
  functions refine the contract, and that the LoRaWAN builder refines it exactly on
  the requests for which the contract does not report \<open>Overflow\<close>.
\<close>

datatype encode_error = UnsupportedKind | InvalidArgument | Overflow | LengthMismatch

type_synonym envelope = "hci_ident \<times> byte list"

text \<open>Section 4.2: the payload length of each Device-Management request.\<close>

fun devmgmt_spec_length :: "devmgmt_msg_id \<Rightarrow> nat option" where
  "devmgmt_spec_length DEVMGMT_MSG_PING_REQ = Some 0"
| "devmgmt_spec_length DEVMGMT_MSG_GET_DEVICE_INFO_REQ = Some 0"
| "devmgmt_spec_length DEVMGMT_MSG_RESET_REQ = Some 0"
| "devmgmt_spec_length DEVMGMT_MSG_GET_FW_VERSION_REQ = Some 0"
| "devmgmt_spec_length DEVMGMT_MSG_GET_DEVICE_STATUS_REQ = Some 0"
| "devmgmt_spec_length DEVMGMT_MSG_GET_RTC_REQ = Some 0"
| "devmgmt_spec_length DEVMGMT_MSG_GET_RTC_ALARM_REQ = Some 0"
| "devmgmt_spec_length DEVMGMT_MSG_CLEAR_RTC_ALARM_REQ = Some 0"
| "devmgmt_spec_length DEVMGMT_MSG_GET_OPMODE_REQ = Some 0"
| "devmgmt_spec_length DEVMGMT_MSG_SET_RTC_REQ = Some 4"
| "devmgmt_spec_length DEVMGMT_MSG_SET_RTC_ALARM_REQ = Some 4"
| "devmgmt_spec_length DEVMGMT_MSG_SET_OPMODE_REQ = Some 1"
| "devmgmt_spec_length _ = None"

text \<open>Section 4.3: the payload length of each LoRaWAN request; the three data kinds
  take the caller's length.\<close>

fun lorawan_spec_length :: "lorawan_msg_id \<Rightarrow> nat \<Rightarrow> nat option" where
  "lorawan_spec_length LORAWAN_MSG_REACTIVATE_DEVICE_REQ n = Some 0"
| "lorawan_spec_length LORAWAN_MSG_JOIN_NETWORK_REQ n = Some 0"
| "lorawan_spec_length LORAWAN_MSG_GET_RSTACK_CONFIG_REQ n = Some 0"
| "lorawan_spec_length LORAWAN_MSG_GET_SUPPORTED_BANDS_REQ n = Some 0"
| "lorawan_spec_length LORAWAN_MSG_GET_DEVICE_EUI_REQ n = Some 0"
| "lorawan_spec_length LORAWAN_MSG_GET_CUSTOM_CFG_REQ n = Some 0"
| "lorawan_spec_length LORAWAN_MSG_GET_LINKADRREQ_CONFIG_REQ n = Some 0"
| "lorawan_spec_length LORAWAN_MSG_FACTORY_RESET_REQ n = Some 0"
| "lorawan_spec_length LORAWAN_MSG_DEACTIVATE_DEVICE_REQ n = Some 0"
| "lorawan_spec_length LORAWAN_MSG_GET_NWK_STATUS_REQ n = Some 0"
| "lorawan_spec_length LORAWAN_MSG_SET_CUSTOM_CFG_REQ n = Some 1"
| "lorawan_spec_length LORAWAN_MSG_SET_LINKADRREQ_CONFIG_REQ n = Some 1"
| "lorawan_spec_length LORAWAN_MSG_SET_BATTERY_LEVEL_REQ n = Some 1"
| "lorawan_spec_length LORAWAN_MSG_ACTIVATE_DEVICE_REQ n = Some 36"
| "lorawan_spec_length LORAWAN_MSG_SET_JOIN_PARAM_REQ n = Some 24"
| "lorawan_spec_length LORAWAN_MSG_SET_RSTACK_CONFIG_REQ n = Some 7"
| "lorawan_spec_length LORAWAN_MSG_SET_DEVICE_EUI_REQ n = Some 8"
| "lorawan_spec_length LORAWAN_MSG_SEND_UDATA_REQ n = Some n"
| "lorawan_spec_length LORAWAN_MSG_SEND_CDATA_REQ n = Some n"
| "lorawan_spec_length LORAWAN_MSG_SEND_MAC_CMD_REQ n = Some n"
| "lorawan_spec_length _ n = None"

text \<open>Section 4.1: \<open>encode\<close> with a payload capacity of \<open>N\<close> bytes.\<close>

definition spec_encode :: "nat \<Rightarrow> hci_ident \<Rightarrow> byte list \<Rightarrow> nat option \<Rightarrow> encode_error + envelope" where
  "spec_encode N ident args rule =
     (case rule of
        None \<Rightarrow> Inl UnsupportedKind
      | Some l \<Rightarrow> if N < l then Inl Overflow
                  else if length args < l then Inl LengthMismatch
                  else Inr (ident, take l args))"

definition devmgmt_encode :: "nat \<Rightarrow> devmgmt_msg_id \<Rightarrow> byte list \<Rightarrow> encode_error + envelope" where
  "devmgmt_encode N msg args = spec_encode N (DEVMGMT_SAP msg) args (devmgmt_spec_length msg)"

definition lorawan_encode :: "nat \<Rightarrow> lorawan_msg_id \<Rightarrow> byte list \<Rightarrow> nat \<Rightarrow> encode_error + envelope" where
  "lorawan_encode N msg args n = spec_encode N (LORAWAN_SAP msg) args (lorawan_spec_length msg n)"

text \<open>Section 4.3, data submission: the port in front of the application payload,
  which may hold at most \<open>N - 1\<close> bytes.\<close>

definition send_data_spec :: "nat \<Rightarrow> lorawan_msg_id \<Rightarrow> byte \<Rightarrow> byte list \<Rightarrow> encode_error + envelope" where
  "send_data_spec N msg port app =
     (if N - 1 < length app then Inl Overflow else Inr (LORAWAN_SAP msg, port # app))"

definition envelope_of :: "TWiMOD_HCI_Message \<Rightarrow> envelope" where
  "envelope_of m = (Ident m, take (unat (Length m)) (Payload m))"

definition refines_encode :: "encode_error + envelope \<Rightarrow> wimod_state \<Rightarrow> req_result \<Rightarrow> bool" where
  "refines_encode a s c =
     (case c of
        Inl _ \<Rightarrow> False
      | Inr (r, s') \<Rightarrow>
          (case a of
             Inr env \<Rightarrow> sent s' = sent s @ [TxMessage s'] \<and> envelope_of (TxMessage s') = env
           | Inl _ \<Rightarrow> sent s' = sent s))"

section \<open>Lemmas\<close>

lemma devmgmt_tables_agree: "map_option unat (devmgmt_req_length msg) = devmgmt_spec_length msg"
  by (cases msg) simp_all

lemma lorawan_tables_agree: "map_option unat (lorawan_req_length msg len) = lorawan_spec_length msg (unat len)"
  by (cases msg) simp_all

lemma devmgmt_spec_length_le: "devmgmt_spec_length msg = Some l \<Longrightarrow> l \<le> 4"
  by (cases msg) auto

text \<open>The common body against the contract, kind by kind.\<close>

lemma Msg_Req_fill_refines:
  assumes "\<forall>l. rule = Some l \<longrightarrow> unat l \<le> length args" and "\<forall>l. rule = Some l \<longrightarrow> unat l \<le> N"
  shows "refines_encode (spec_encode N ident args (map_option unat rule)) s
           (Msg_Req_fill N hci_send ident rule args s)"
proof (cases rule)
  case None
  then show ?thesis by (simp add: Msg_Req_fill_None spec_encode_def refines_encode_def)
next
  case (Some l)
  then have le: "unat l \<le> length args" "unat l \<le> N" using assms by simp_all
  have "envelope_of ((TxMessage s)\<lparr>Ident := ident, Length := l,
          Payload := take (unat l) args @ replicate (N - unat l) 0\<rparr>) = (ident, take (unat l) args)"
    using le by (cases "TxMessage s") (simp add: envelope_of_def)
  then show ?thesis
    using Some le Msg_Req_fill_Some [OF le] by (simp add: spec_encode_def refines_encode_def Let_def)
qed

lemma radio_data_refines:
  assumes "0 < N" and "N < 65536" and "\<forall>n. lorawan_req_length msg n = Some n"
  shows "refines_encode (send_data_spec N msg port app) s (radio_data_req N hci_send msg port app (length app) s)"
proof (cases "N - 1 < length app")
  case True
  then have "int N - 1 < int (length app)" using assms(1) by arith
  then show ?thesis using True by (simp add: send_data_spec_def radio_data_req_def refines_encode_def)
next
  case False
  then have fit: "length app + 1 \<le> N" using assms(1) by simp
  let ?tx = "(TxMessage s)\<lparr>Ident := LORAWAN_SAP msg, Length := word_of_nat (1 + length app),
               Payload := port # take (length app) app @ replicate (N - 1 - length app) 0\<rparr>"
  have ul: "unat (word_of_nat (1 + length app) :: u16) = length app + 1"
    using fit assms(2) by (simp only: unat_of_nat) simp
  have "envelope_of ?tx = (LORAWAN_SAP msg, port # app)"
    using ul by (cases "TxMessage s") (simp add: envelope_of_def)
  then show ?thesis
    using False radio_data_req_sends [OF fit assms(2) order.refl assms(3), of hci_send port s]
    by (simp add: send_data_spec_def refines_encode_def Let_def)
qed

section \<open>Properties\<close>

text \<open>C37: The Device-Management request builder WiMOD_DevMgmt_Msg_Req refines the encoder of the specification for every kind: it never faults when the envelope holds the longest fixed request (4 bytes); an accepted kind sends exactly one message whose identifier and first Length payload bytes are the specified envelope, and a kind the specification does not list is rejected without sending.\<close>

theorem DevMgmt_Msg_Req_refines:
  assumes "4 \<le> N" and "\<forall>l. devmgmt_spec_length msg = Some l \<longrightarrow> l \<le> length args"
  shows "refines_encode (devmgmt_encode N msg args) s (WiMOD_DevMgmt_Msg_Req N hci_send msg args len s)"
proof -
  have "unat l \<le> length args \<and> unat l \<le> N" if "devmgmt_req_length msg = Some l" for l
  proof -
    have "devmgmt_spec_length msg = Some (unat l)" using that devmgmt_tables_agree [of msg] by simp
    then show ?thesis using assms devmgmt_spec_length_le by fastforce
  qed
  then show ?thesis
    using Msg_Req_fill_refines [where rule = "devmgmt_req_length msg" and args = args and N = N and s = s
        and hci_send = hci_send and ident = "DEVMGMT_SAP msg"]
    by (simp add: devmgmt_encode_def WiMOD_DevMgmt_Msg_Req_def devmgmt_tables_agree)
qed

theorem DevMgmt_Msg_Req_refines_witness:
  "refines_encode (devmgmt_encode 8 DEVMGMT_MSG_SET_RTC_REQ [1, 2, 3, 4]) (initial_state 8)
     (WiMOD_DevMgmt_Msg_Req 8 (\<lambda>_. 1) DEVMGMT_MSG_SET_RTC_REQ [1, 2, 3, 4] 4 (initial_state 8))"
proof -
  have "\<forall>l. devmgmt_spec_length DEVMGMT_MSG_SET_RTC_REQ = Some l \<longrightarrow> l \<le> length [1, 2, 3, 4 :: byte]" by simp
  then show ?thesis using DevMgmt_Msg_Req_refines [of 8 DEVMGMT_MSG_SET_RTC_REQ "[1, 2, 3, 4]"] by simp
qed

text \<open>C38: The LoRaWAN request builder WiMOD_LoRaWAN_Msg_Req refines the encoder of the specification exactly on the requests for which the specification does not report Overflow: with the arguments the length rule asks for, the run implements the specified outcome if and only if that outcome is not Overflow (where the code writes beyond the payload array instead).\<close>

theorem LoRaWAN_Msg_Req_refines_iff:
  assumes "\<forall>l. lorawan_spec_length msg (unat len) = Some l \<longrightarrow> l \<le> length args"
  shows "refines_encode (lorawan_encode N msg args (unat len)) s (WiMOD_LoRaWAN_Msg_Req N hci_send msg args len s) \<longleftrightarrow>
           lorawan_encode N msg args (unat len) \<noteq> Inl Overflow"
proof (cases "lorawan_req_length msg len")
  case None
  then show ?thesis
    using Msg_Req_fill_refines [where rule = "lorawan_req_length msg len" and args = args and N = N and s = s
        and hci_send = hci_send and ident = "LORAWAN_SAP msg"]
    by (simp add: lorawan_encode_def WiMOD_LoRaWAN_Msg_Req_def lorawan_tables_agree [symmetric] spec_encode_def)
next
  case (Some l)
  then have spec: "lorawan_spec_length msg (unat len) = Some (unat l)"
    using lorawan_tables_agree [of msg len] by simp
  then have args: "unat l \<le> length args" using assms by simp
  show ?thesis
  proof (cases "N < unat l")
    case True
    then show ?thesis using Some spec args Msg_Req_fill_overflow [OF True args]
      by (simp add: lorawan_encode_def WiMOD_LoRaWAN_Msg_Req_def spec_encode_def refines_encode_def)
  next
    case False
    then have "refines_encode (lorawan_encode N msg args (unat len)) s (WiMOD_LoRaWAN_Msg_Req N hci_send msg args len s)"
      using Msg_Req_fill_refines [where rule = "lorawan_req_length msg len" and args = args and N = N and s = s
        and hci_send = hci_send and ident = "LORAWAN_SAP msg"] Some args
      by (simp add: lorawan_encode_def WiMOD_LoRaWAN_Msg_Req_def spec)
    then show ?thesis using False spec args by (simp add: lorawan_encode_def spec_encode_def)
  qed
qed

theorem LoRaWAN_Msg_Req_refines_iff_witness:
  "\<not> refines_encode (lorawan_encode 8 LORAWAN_MSG_SEND_MAC_CMD_REQ (replicate 16 0) 16) (initial_state 8)
       (WiMOD_LoRaWAN_Msg_Req 8 (\<lambda>_. 1) LORAWAN_MSG_SEND_MAC_CMD_REQ (replicate 16 0) 16 (initial_state 8)) \<and>
   refines_encode (lorawan_encode 8 LORAWAN_MSG_SET_CUSTOM_CFG_REQ [5] 1) (initial_state 8)
       (WiMOD_LoRaWAN_Msg_Req 8 (\<lambda>_. 1) LORAWAN_MSG_SET_CUSTOM_CFG_REQ [5] 1 (initial_state 8))"
proof -
  have "\<forall>l. lorawan_spec_length LORAWAN_MSG_SEND_MAC_CMD_REQ (unat (16 :: u16)) = Some l \<longrightarrow>
            l \<le> length (replicate 16 (0 :: byte))" by simp
  moreover have "\<forall>l. lorawan_spec_length LORAWAN_MSG_SET_CUSTOM_CFG_REQ (unat (1 :: u16)) = Some l \<longrightarrow>
            l \<le> length [5 :: byte]" by simp
  ultimately show ?thesis
    using LoRaWAN_Msg_Req_refines_iff [of LORAWAN_MSG_SEND_MAC_CMD_REQ 16 "replicate 16 0" 8 "initial_state 8" "\<lambda>_. 1"]
      LoRaWAN_Msg_Req_refines_iff [of LORAWAN_MSG_SET_CUSTOM_CFG_REQ 1 "[5]" 8 "initial_state 8" "\<lambda>_. 1"]
    by (simp add: lorawan_encode_def spec_encode_def)
qed

text \<open>C39: WiMOD_LoRaWAN_SendURadioData and WiMOD_LoRaWAN_SendCRadioData refine the data submission of the specification (section 7): an application payload that fits beside the port byte is sent as one message whose envelope is the data kind with the port followed by the payload; a longer one is rejected without sending, and neither case faults.\<close>

theorem SendRadioData_refines:
  assumes "0 < N" and "N < 65536"
  shows "refines_encode (send_data_spec N LORAWAN_MSG_SEND_UDATA_REQ port app) s
           (WiMOD_LoRaWAN_SendURadioData N hci_send port app (length app) s) \<and>
         refines_encode (send_data_spec N LORAWAN_MSG_SEND_CDATA_REQ port app) s
           (WiMOD_LoRaWAN_SendCRadioData N hci_send port app (length app) s)"
  using radio_data_refines [OF assms, of LORAWAN_MSG_SEND_UDATA_REQ] radio_data_refines [OF assms, of LORAWAN_MSG_SEND_CDATA_REQ]
  by (simp add: WiMOD_LoRaWAN_SendURadioData_def WiMOD_LoRaWAN_SendCRadioData_def)

theorem SendRadioData_refines_witness:
  "refines_encode (send_data_spec 8 LORAWAN_MSG_SEND_UDATA_REQ 5 [1, 2, 3]) (initial_state 8)
     (WiMOD_LoRaWAN_SendURadioData 8 (\<lambda>_. 1) 5 [1, 2, 3] 3 (initial_state 8)) \<and>
   refines_encode (send_data_spec 8 LORAWAN_MSG_SEND_CDATA_REQ 5 [1, 2, 3]) (initial_state 8)
     (WiMOD_LoRaWAN_SendCRadioData 8 (\<lambda>_. 1) 5 [1, 2, 3] 3 (initial_state 8))"
  using SendRadioData_refines [of 8 5 "[1, 2, 3]" "initial_state 8" "\<lambda>_. 1"] by (simp add: numeral_3_eq_3)

end
