(* ===== verification/Status_Tables.thy ===== *)
theory Status_Tables
  imports HCI_Message
begin

text \<open>
  The lookup tables of \<open>WiMOD_LoRaWAN_API.c\<close> (\<open>WiMOD_DeviceMgmt_StatusStrings\<close>,
  \<open>WiMOD_LoRaWAN_StatusStrings\<close>, \<open>WiMOD_DeviceMgmt_ModuleTypes\<close>) and their linear
  scan \<open>WiMOD_LoRaWAN_ShowResponse\<close>.  A \<open>TIDString\<close> entry is a code and a C string
  pointer; the table ends with the sentinel \<open>{0, 0}\<close> whose string is \<open>NULL\<close>.  The
  scan stops at the first entry with a \<open>NULL\<close> string, so a code with no entry yields
  no label.  The lemmas show that the scan is the map lookup of the entries before the
  sentinel (a refinement), that a terminated table is never read past its end, and
  which label each status code gets.
\<close>

record TIDString =
  ID :: byte
  String :: "string option"

definition tid :: "byte \<Rightarrow> string \<Rightarrow> TIDString" where
  "tid i s = \<lparr>ID = i, String = Some s\<rparr>"

definition tid_end :: TIDString where
  "tid_end = \<lparr>ID = 0, String = None\<rparr>"

definition WiMOD_DeviceMgmt_StatusStrings :: "TIDString list" where
  "WiMOD_DeviceMgmt_StatusStrings =
    [tid DEVMGMT_STATUS_OK ''ok'',
     tid DEVMGMT_STATUS_ERROR ''error'',
     tid DEVMGMT_STATUS_CMD_NOT_SUPPORTED ''command not supported'',
     tid DEVMGMT_STATUS_WRONG_PARAMETER ''wrong parameter'',
     tid DEVMGMT_STATUS_WRONG_DEVICE_MODE ''wrong device mode'',
     tid_end]"

definition WiMOD_LoRaWAN_StatusStrings :: "TIDString list" where
  "WiMOD_LoRaWAN_StatusStrings =
    [tid LORAWAN_STATUS_OK ''ok'',
     tid LORAWAN_STATUS_ERROR ''error'',
     tid LORAWAN_STATUS_CMD_NOT_SUPPORTED ''command not supported'',
     tid LORAWAN_STATUS_WRONG_PARAMETER ''wrong parameter'',
     tid LORAWAN_STATUS_WRONG_DEVICE_MODE ''wrong device mode'',
     tid LORAWAN_STATUS_DEVICE_NOT_ACTIVATED ''device not activated'',
     tid LORAWAN_STATUS_DEVICE_BUSY ''device busy - command rejected'',
     tid LORAWAN_STATUS_QUEUE_FULL ''message queue full - command rejected'',
     tid LORAWAN_STATUS_LENGTH_ERROR ''HCI message length error'',
     tid LORAWAN_STATUS_NO_FACTORY_SETTINGS ''no factory settings available'',
     tid LORAWAN_STATUS_CHANNEL_BLOCKED_BY_DC
       ''error: channel blocked due to duty cycle, please try later again'',
     tid LORAWAN_STATUS_CHANNEL_NOT_AVAILABLE ''error: channel not available'',
     tid_end]"

definition WiMOD_DeviceMgmt_ModuleTypes :: "TIDString list" where
  "WiMOD_DeviceMgmt_ModuleTypes =
    [tid 0x90 ''iM880A (obsolete)'',
     tid 0x92 ''iM880A-L (128k)'',
     tid 0x93 ''iU880A (128k)'',
     tid 0x98 ''iM880B-L'',
     tid 0x99 ''iU880B'',
     tid 0x9A ''iM980A (iMAS923TH for Thailand)'',
     tid 0xA0 ''iM881A'',
     tid_end]"

text \<open>
  \<open>WiMOD_LoRaWAN_ShowResponse(string, statusTable, statusID)\<close>: the label it prints
  after the caption \<open>string\<close> (the caption is presentation only), \<open>None\<close> when it
  prints nothing.  Walking off the end of the array is a fault.
\<close>

fun WiMOD_LoRaWAN_ShowResponse :: "TIDString list \<Rightarrow> byte \<Rightarrow> c_fault + string option" where
  "WiMOD_LoRaWAN_ShowResponse [] statusID = Inl Read_Out_Of_Bounds"
| "WiMOD_LoRaWAN_ShowResponse (e # es) statusID =
     (case String e of
        None \<Rightarrow> Inr None
      | Some s \<Rightarrow> if ID e = statusID then Inr (Some s) else WiMOD_LoRaWAN_ShowResponse es statusID)"

section \<open>The abstract table\<close>

text \<open>A table is terminated when some entry has a \<open>NULL\<close> string.  Its meaning is
  the association list of the entries before the first such entry.\<close>

definition table_terminated :: "TIDString list \<Rightarrow> bool" where
  "table_terminated t \<longleftrightarrow> (\<exists>e \<in> set t. String e = None)"

fun table_entries :: "TIDString list \<Rightarrow> (byte \<times> string) list" where
  "table_entries [] = []"
| "table_entries (e # es) =
     (case String e of None \<Rightarrow> [] | Some s \<Rightarrow> (ID e, s) # table_entries es)"

lemma ShowResponse_map_of:
  "table_terminated t \<Longrightarrow> WiMOD_LoRaWAN_ShowResponse t k = Inr (map_of (table_entries t) k)"
  by (induction t) (auto simp: table_terminated_def split: option.splits)

lemma tables_terminated [simp]:
  "table_terminated WiMOD_DeviceMgmt_StatusStrings"
  "table_terminated WiMOD_LoRaWAN_StatusStrings"
  "table_terminated WiMOD_DeviceMgmt_ModuleTypes"
  by (simp_all add: table_terminated_def WiMOD_DeviceMgmt_StatusStrings_def
      WiMOD_LoRaWAN_StatusStrings_def WiMOD_DeviceMgmt_ModuleTypes_def tid_end_def)

lemma tid_simps [simp]:
  "String (tid i s) = Some s" "ID (tid i s) = i" "String tid_end = None"
  by (simp_all add: tid_def tid_end_def)

lemma table_entries_DeviceMgmt_StatusStrings:
  "table_entries WiMOD_DeviceMgmt_StatusStrings =
    [(0, ''ok''), (1, ''error''), (2, ''command not supported''), (3, ''wrong parameter''),
     (4, ''wrong device mode'')]"
  by (simp add: WiMOD_DeviceMgmt_StatusStrings_def devmgmt_status_defs)

lemma table_entries_LoRaWAN_StatusStrings:
  "map fst (table_entries WiMOD_LoRaWAN_StatusStrings) = [0, 1, 2, 3, 4, 5, 6, 7, 8, 9, 10, 11]"
  by (simp add: WiMOD_LoRaWAN_StatusStrings_def lorawan_status_defs)

lemma table_entries_ModuleTypes:
  "map fst (table_entries WiMOD_DeviceMgmt_ModuleTypes) = [0x90, 0x92, 0x93, 0x98, 0x99, 0x9A, 0xA0]"
  by (simp add: WiMOD_DeviceMgmt_ModuleTypes_def)

lemma map_of_None_iff: "map_of xs k = None \<longleftrightarrow> k \<notin> set (map fst xs)"
  by (simp add: map_of_eq_None_iff)

section \<open>Properties\<close>

text \<open>C27: WiMOD_LoRaWAN_ShowResponse on a table terminated by its NULL-string entry returns a label or none for every status byte: the search stops at the terminator and never reads past the table.\<close>

theorem ShowResponse_total:
  "table_terminated t \<Longrightarrow> \<exists>lbl. WiMOD_LoRaWAN_ShowResponse t k = Inr lbl"
  by (induction t) (auto simp: table_terminated_def split: option.splits)

theorem ShowResponse_total_witness:
  "table_terminated WiMOD_DeviceMgmt_ModuleTypes \<and>
   (\<exists>lbl. WiMOD_LoRaWAN_ShowResponse WiMOD_DeviceMgmt_ModuleTypes 0x98 = Inr lbl)"
  using ShowResponse_total [where t = WiMOD_DeviceMgmt_ModuleTypes and k = "0x98"] by simp

text \<open>Status bytes beyond the tables (above 4 for device management, above 11 for LoRaWAN) have no label.\<close>

theorem ShowResponse_miss:
  "(4 < st \<longrightarrow> WiMOD_LoRaWAN_ShowResponse WiMOD_DeviceMgmt_StatusStrings st = Inr None) \<and>
   (11 < st \<longrightarrow> WiMOD_LoRaWAN_ShowResponse WiMOD_LoRaWAN_StatusStrings st = Inr None)"
proof -
  have dm: "st \<notin> set (map fst (table_entries WiMOD_DeviceMgmt_StatusStrings))" if "4 < st"
    using that by (auto simp: table_entries_DeviceMgmt_StatusStrings)
  have lw: "st \<notin> set (map fst (table_entries WiMOD_LoRaWAN_StatusStrings))" if "11 < st"
    using that by (auto simp: table_entries_LoRaWAN_StatusStrings)
  show ?thesis
    using dm lw by (simp add: ShowResponse_map_of map_of_None_iff)
qed

theorem ShowResponse_miss_witness:
  "(4 < (12::byte) \<and> WiMOD_LoRaWAN_ShowResponse WiMOD_DeviceMgmt_StatusStrings 12 = Inr None) \<and>
   (11 < (12::byte) \<and> WiMOD_LoRaWAN_ShowResponse WiMOD_LoRaWAN_StatusStrings 12 = Inr None)"
  using ShowResponse_miss [of 12] by simp

end
