(* ===== verification/DevMgmt_Decoder.thy ===== *)
theory DevMgmt_Decoder
  imports Status_Tables RTC_Format
begin

text \<open>
  The inbound Device-Management handlers of \<open>WiMOD_LoRaWAN_API.c\<close> and their switch
  \<open>WiMOD_LoRaWAN_Process_DevMgmt_Message\<close>.  Each handler prints the status label of
  \<open>WiMOD_LoRaWAN_ShowResponse\<close> and, when the status byte is \<open>DEVMGMT_STATUS_OK\<close>,
  the fields it reads at fixed offsets of the receive buffer; the model returns those
  values as a record instead of text.  The offsets are read from the whole payload
  array (the sources never compare them with \<open>Length\<close>); an offset beyond the array
  is a fault.  \<open>WiMOD_LoRaWAN_DevMgmt_FirmwareVersion_Rsp\<close> also writes a string
  terminator at \<open>Payload[Length]\<close>, so the handlers return the message as they leave it.
\<close>

unbundle bit_operations_syntax

section \<open>Decoded records\<close>

record device_info =
  module_type :: byte
  module_label :: "string option"
  device_address :: u32
  device_id :: u32

record fw_version =
  fw_minor :: byte
  fw_major :: byte
  build_count :: u32
  build_date :: "byte list"
  fw_content :: "byte list option"

record device_status =
  tick_resolution :: u32
  system_tick :: u32
  target_time :: rtc_time
  nvm_status :: u32
  battery_level :: u32
  tx_udata :: u32
  tx_cdata :: u32
  tx_error :: u32
  rx1_udata :: u32
  rx1_cdata :: u32
  rx1_mic_error :: u32
  rx2_udata :: u32
  rx2_cdata :: u32
  rx2_mic_error :: u32
  tx_join :: u32
  rx_accept :: u32

record rtc_alarm =
  alarm_set :: byte
  alarm_daily :: byte
  alarm_hour :: u32
  alarm_minute :: u32
  alarm_second :: u32

text \<open>What a handler reports: the status byte, the label printed for it, and the
  record it prints on success.\<close>

datatype devmgmt_event =
    DevMgmt_Status devmgmt_msg_id byte "string option"
  | DevMgmt_DeviceInfo byte "string option" "device_info option"
  | DevMgmt_FirmwareVersion byte "string option" "fw_version option"
  | DevMgmt_DeviceStatus byte "string option" "device_status option"
  | DevMgmt_RTC byte "string option" "rtc_time option"
  | DevMgmt_RTC_Alarm byte "string option" "rtc_alarm option"
  | DevMgmt_OPMODE byte "string option" "byte option"
  | DevMgmt_Unhandled devmgmt_msg_id

section \<open>Reading the buffer\<close>

text \<open>\<open>memcpy((uint8_t *) &help, &Payload[k], n)\<close> followed by a read of \<open>help\<close>.\<close>

definition read_le :: "byte list \<Rightarrow> nat \<Rightarrow> nat \<Rightarrow> c_fault + u32" where
  "read_le p k n = fbind (buf_range p (int k) n) (\<lambda>bs. Inr (le_u32 bs))"

text \<open>The value of \<open>n\<close> bytes at offset \<open>k\<close> when the read is in range.\<close>

definition le_at :: "byte list \<Rightarrow> nat \<Rightarrow> nat \<Rightarrow> u32" where
  "le_at p k n = le_u32 (take n (drop k p))"

lemma read_le_in_range [simp, wimod_simps]:
  "k + n \<le> length p \<Longrightarrow> read_le p k n = Inr (le_at p k n)"
  by (simp add: read_le_def le_at_def)

text \<open>The status prefix every handler shares: read \<open>Payload[0]\<close> and print its label.\<close>

definition with_status ::
  "TIDString list \<Rightarrow> byte list \<Rightarrow> (byte \<Rightarrow> string option \<Rightarrow> c_fault + 'a) \<Rightarrow> c_fault + 'a" where
  "with_status table p k = fbind (buf_get p 0) (\<lambda>st. fbind (WiMOD_LoRaWAN_ShowResponse table st) (k st))"

section \<open>Handlers\<close>

definition WiMOD_LoRaWAN_DevMgmt_Get_OPMODE_Rsp :: "byte list \<Rightarrow> c_fault + devmgmt_event" where
  "WiMOD_LoRaWAN_DevMgmt_Get_OPMODE_Rsp p =
     with_status WiMOD_DeviceMgmt_StatusStrings p (\<lambda>st lbl.
       if st = DEVMGMT_STATUS_OK
       then fbind (buf_get p 1) (\<lambda>m. Inr (DevMgmt_OPMODE st lbl (Some m)))
       else Inr (DevMgmt_OPMODE st lbl None))"

definition WiMOD_LoRaWAN_DevMgmt_Get_RTC_ALARM_Rsp :: "byte list \<Rightarrow> c_fault + devmgmt_event" where
  "WiMOD_LoRaWAN_DevMgmt_Get_RTC_ALARM_Rsp p =
     with_status WiMOD_DeviceMgmt_StatusStrings p (\<lambda>st lbl.
       if st = DEVMGMT_STATUS_OK
       then fbind (buf_get p 1) (\<lambda>set. fbind (buf_get p 2) (\<lambda>daily.
              fbind (read_le p 3 3) (\<lambda>help.
                Inr (DevMgmt_RTC_Alarm st lbl (Some
                  \<lparr>alarm_set = set, alarm_daily = daily,
                   alarm_hour = help AND 0xFF,
                   alarm_minute = drop_bit 8 (help AND 0xFF00),
                   alarm_second = drop_bit 16 (help AND 0xFF0000)\<rparr>)))))
       else Inr (DevMgmt_RTC_Alarm st lbl None))"

definition WiMOD_LoRaWAN_DevMgmt_Get_RTC_Rsp :: "byte list \<Rightarrow> c_fault + devmgmt_event" where
  "WiMOD_LoRaWAN_DevMgmt_Get_RTC_Rsp p =
     with_status WiMOD_DeviceMgmt_StatusStrings p (\<lambda>st lbl.
       if st = DEVMGMT_STATUS_OK
       then fbind (read_le p 1 4) (\<lambda>help. Inr (DevMgmt_RTC st lbl (Some (rtc_unpack help))))
       else Inr (DevMgmt_RTC st lbl None))"

text \<open>
  \<open>WiMOD_LoRaWAN_DevMgmt_DeviceStatus_Rsp\<close> copies its sixteen fields one \<open>memcpy\<close> at a
  time into \<open>help\<close>, from bytes 1 to 13 and 16 to 59 in increasing order, whatever
  \<open>Length\<close> says; the first copy beyond the array is the fault.  Fields copied with fewer
  than four bytes are masked as in the source, so the bytes of \<open>help\<close> that the copy
  leaves are never printed.  \<open>DeviceStatus_record\<close> is the record the sixteen copies
  give when they are all in range.
\<close>

definition DeviceStatus_record :: "byte list \<Rightarrow> device_status" where
  "DeviceStatus_record p =
     \<lparr>tick_resolution = le_at p 1 1 AND 0xFF,
      system_tick = le_at p 2 4,
      target_time = rtc_unpack (le_at p 6 4),
      nvm_status = le_at p 10 2 AND 0xFFFF,
      battery_level = le_at p 12 2 AND 0xFFFF,
      tx_udata = le_at p 16 4,
      tx_cdata = le_at p 20 4,
      tx_error = le_at p 24 4,
      rx1_udata = le_at p 28 4,
      rx1_cdata = le_at p 32 4,
      rx1_mic_error = le_at p 36 4,
      rx2_udata = le_at p 40 4,
      rx2_cdata = le_at p 44 4,
      rx2_mic_error = le_at p 48 4,
      tx_join = le_at p 52 4,
      rx_accept = le_at p 56 4\<rparr>"

definition WiMOD_LoRaWAN_DevMgmt_DeviceStatus_Rsp :: "byte list \<Rightarrow> c_fault + devmgmt_event" where
  "WiMOD_LoRaWAN_DevMgmt_DeviceStatus_Rsp p =
     with_status WiMOD_DeviceMgmt_StatusStrings p (\<lambda>st lbl.
       if st = DEVMGMT_STATUS_OK
       then fbind (read_le p 1 1) (\<lambda>res. fbind (read_le p 2 4) (\<lambda>tick.
            fbind (read_le p 6 4) (\<lambda>time. fbind (read_le p 10 2) (\<lambda>nvm.
            fbind (read_le p 12 2) (\<lambda>bat. fbind (read_le p 16 4) (\<lambda>txu.
            fbind (read_le p 20 4) (\<lambda>txc. fbind (read_le p 24 4) (\<lambda>txe.
            fbind (read_le p 28 4) (\<lambda>r1u. fbind (read_le p 32 4) (\<lambda>r1c.
            fbind (read_le p 36 4) (\<lambda>r1e. fbind (read_le p 40 4) (\<lambda>r2u.
            fbind (read_le p 44 4) (\<lambda>r2c. fbind (read_le p 48 4) (\<lambda>r2e.
            fbind (read_le p 52 4) (\<lambda>txj. fbind (read_le p 56 4) (\<lambda>acc.
              Inr (DevMgmt_DeviceStatus st lbl (Some
                \<lparr>tick_resolution = res AND 0xFF, system_tick = tick, target_time = rtc_unpack time,
                 nvm_status = nvm AND 0xFFFF, battery_level = bat AND 0xFFFF,
                 tx_udata = txu, tx_cdata = txc, tx_error = txe,
                 rx1_udata = r1u, rx1_cdata = r1c, rx1_mic_error = r1e,
                 rx2_udata = r2u, rx2_cdata = r2c, rx2_mic_error = r2e,
                 tx_join = txj, rx_accept = acc\<rparr>))))))))))))))))))
       else Inr (DevMgmt_DeviceStatus st lbl None))"

definition WiMOD_LoRaWAN_DevMgmt_DeviceInfo_Rsp :: "byte list \<Rightarrow> c_fault + devmgmt_event" where
  "WiMOD_LoRaWAN_DevMgmt_DeviceInfo_Rsp p =
     with_status WiMOD_DeviceMgmt_StatusStrings p (\<lambda>st lbl.
       if st = DEVMGMT_STATUS_OK
       then fbind (buf_get p 1) (\<lambda>ty. fbind (WiMOD_LoRaWAN_ShowResponse WiMOD_DeviceMgmt_ModuleTypes ty)
              (\<lambda>tylbl. fbind (read_le p 2 4) (\<lambda>addr. fbind (read_le p 6 4) (\<lambda>did.
                Inr (DevMgmt_DeviceInfo st lbl (Some
                  \<lparr>module_type = ty, module_label = tylbl, device_address = addr, device_id = did\<rparr>))))))
       else Inr (DevMgmt_DeviceInfo st lbl None))"

text \<open>
  \<open>WiMOD_LoRaWAN_DevMgmt_FirmwareVersion_Rsp\<close>: version bytes, the build count
  \<open>MAKEWORD(Payload[3], Payload[4])\<close>, the build date printed with \<open>%s\<close> from a copy
  of 10 bytes (up to its first zero byte), and, when \<open>Length > 15\<close>, the free text
  from offset 15 after \<open>Payload[Length] = 0\<close>, again up to its first zero byte.
\<close>

definition WiMOD_LoRaWAN_DevMgmt_FirmwareVersion_Rsp ::
  "TWiMOD_HCI_Message \<Rightarrow> c_fault + (devmgmt_event \<times> TWiMOD_HCI_Message)" where
  "WiMOD_LoRaWAN_DevMgmt_FirmwareVersion_Rsp m =
     (let p = Payload m in
      with_status WiMOD_DeviceMgmt_StatusStrings p (\<lambda>st lbl.
       if st = DEVMGMT_STATUS_OK
       then fbind (buf_get p 2) (\<lambda>major. fbind (buf_get p 1) (\<lambda>minor.
              fbind (buf_get p 3) (\<lambda>lo. fbind (buf_get p 4) (\<lambda>hi.
              fbind (buf_range p 5 10) (\<lambda>date.
                if Length m > 15
                then fbind (buf_set p (uint (Length m)) 0) (\<lambda>p'.
                       Inr (DevMgmt_FirmwareVersion st lbl (Some
                         \<lparr>fw_minor = minor, fw_major = major, build_count = MAKEWORD lo hi,
                          build_date = c_string date, fw_content = Some (c_string (drop 15 p'))\<rparr>),
                            m\<lparr>Payload := p'\<rparr>))
                else Inr (DevMgmt_FirmwareVersion st lbl (Some
                         \<lparr>fw_minor = minor, fw_major = major, build_count = MAKEWORD lo hi,
                          build_date = c_string date, fw_content = None\<rparr>), m))))))
       else Inr (DevMgmt_FirmwareVersion st lbl None, m)))"

section \<open>The Device-Management switch\<close>

definition devmgmt_show :: "devmgmt_msg_id \<Rightarrow> byte list \<Rightarrow> c_fault + devmgmt_event" where
  "devmgmt_show rsp p = with_status WiMOD_DeviceMgmt_StatusStrings p (\<lambda>st lbl. Inr (DevMgmt_Status rsp st lbl))"

definition keep_message :: "TWiMOD_HCI_Message \<Rightarrow> c_fault + devmgmt_event \<Rightarrow> c_fault + (devmgmt_event \<times> TWiMOD_HCI_Message)" where
  "keep_message m r = fbind r (\<lambda>e. Inr (e, m))"

fun WiMOD_LoRaWAN_Process_DevMgmt_Message ::
  "devmgmt_msg_id \<Rightarrow> TWiMOD_HCI_Message \<Rightarrow> c_fault + (devmgmt_event \<times> TWiMOD_HCI_Message)" where
  "WiMOD_LoRaWAN_Process_DevMgmt_Message DEVMGMT_MSG_PING_RSP m =
     keep_message m (devmgmt_show DEVMGMT_MSG_PING_RSP (Payload m))"
| "WiMOD_LoRaWAN_Process_DevMgmt_Message DEVMGMT_MSG_GET_DEVICE_INFO_RSP m =
     keep_message m (WiMOD_LoRaWAN_DevMgmt_DeviceInfo_Rsp (Payload m))"
| "WiMOD_LoRaWAN_Process_DevMgmt_Message DEVMGMT_MSG_GET_FW_VERSION_RSP m =
     WiMOD_LoRaWAN_DevMgmt_FirmwareVersion_Rsp m"
| "WiMOD_LoRaWAN_Process_DevMgmt_Message DEVMGMT_MSG_RESET_RSP m =
     keep_message m (devmgmt_show DEVMGMT_MSG_RESET_RSP (Payload m))"
| "WiMOD_LoRaWAN_Process_DevMgmt_Message DEVMGMT_MSG_GET_DEVICE_STATUS_RSP m =
     keep_message m (WiMOD_LoRaWAN_DevMgmt_DeviceStatus_Rsp (Payload m))"
| "WiMOD_LoRaWAN_Process_DevMgmt_Message DEVMGMT_MSG_GET_RTC_RSP m =
     keep_message m (WiMOD_LoRaWAN_DevMgmt_Get_RTC_Rsp (Payload m))"
| "WiMOD_LoRaWAN_Process_DevMgmt_Message DEVMGMT_MSG_SET_RTC_RSP m =
     keep_message m (devmgmt_show DEVMGMT_MSG_SET_RTC_RSP (Payload m))"
| "WiMOD_LoRaWAN_Process_DevMgmt_Message DEVMGMT_MSG_GET_RTC_ALARM_RSP m =
     keep_message m (WiMOD_LoRaWAN_DevMgmt_Get_RTC_ALARM_Rsp (Payload m))"
| "WiMOD_LoRaWAN_Process_DevMgmt_Message DEVMGMT_MSG_SET_RTC_ALARM_RSP m =
     keep_message m (devmgmt_show DEVMGMT_MSG_SET_RTC_ALARM_RSP (Payload m))"
| "WiMOD_LoRaWAN_Process_DevMgmt_Message DEVMGMT_MSG_CLEAR_RTC_ALARM_RSP m =
     keep_message m (devmgmt_show DEVMGMT_MSG_CLEAR_RTC_ALARM_RSP (Payload m))"
| "WiMOD_LoRaWAN_Process_DevMgmt_Message DEVMGMT_MSG_GET_OPMODE_RSP m =
     keep_message m (WiMOD_LoRaWAN_DevMgmt_Get_OPMODE_Rsp (Payload m))"
| "WiMOD_LoRaWAN_Process_DevMgmt_Message msg m = Inr (DevMgmt_Unhandled msg, m)"

text \<open>A device-status response laid out as the handler reads it: the status, the one-byte tick
  resolution, the tick, the RTC word, the two-byte NVM status and battery level, two
  bytes the handler skips, and the eleven four-byte counters.\<close>

abbreviation status_payload ::
  "u32 \<Rightarrow> u32 \<Rightarrow> u32 \<Rightarrow> u32 \<Rightarrow> u32 \<Rightarrow> byte list \<Rightarrow> u32 list \<Rightarrow> byte list" where
  "status_payload res tick time nvm bat reserved cs \<equiv>
     [DEVMGMT_STATUS_OK] @ take 1 (u32_bytes res) @ u32_bytes tick @ u32_bytes time @
     take 2 (u32_bytes nvm) @ take 2 (u32_bytes bat) @ reserved @ concat (map u32_bytes cs)"

section \<open>Lemmas\<close>

lemma ShowResponse_DeviceMgmt [simp]:
  "WiMOD_LoRaWAN_ShowResponse WiMOD_DeviceMgmt_StatusStrings st =
     Inr (map_of (table_entries WiMOD_DeviceMgmt_StatusStrings) st)"
  by (simp add: ShowResponse_map_of)

lemma with_status_DeviceMgmt:
  "0 < length p \<Longrightarrow>
   with_status WiMOD_DeviceMgmt_StatusStrings p k =
     k (p ! 0) (map_of (table_entries WiMOD_DeviceMgmt_StatusStrings) (p ! 0))"
  using buf_get_in_range [of 0 p] by (simp add: with_status_def)

lemma read_le_out_of_range: "length p < k + n \<Longrightarrow> read_le p k n = Inl Read_Out_Of_Bounds"
  by (simp add: read_le_def buf_range_def)

lemma DeviceStatus_Rsp_in_range:
  assumes "60 \<le> length p" and "p ! 0 = DEVMGMT_STATUS_OK"
  shows "WiMOD_LoRaWAN_DevMgmt_DeviceStatus_Rsp p = Inr (DevMgmt_DeviceStatus 0 (Some ''ok'') (Some (DeviceStatus_record p)))"
proof -
  have "0 < length p" using assms(1) by linarith
  then show ?thesis using assms
    by (simp add: WiMOD_LoRaWAN_DevMgmt_DeviceStatus_Rsp_def DeviceStatus_record_def with_status_DeviceMgmt
        table_entries_DeviceMgmt_StatusStrings DEVMGMT_STATUS_OK_def)
qed

lemma le_u32_take_u32_bytes:
  "le_u32 (take (Suc 0) (u32_bytes w)) = w AND 0xFF" "le_u32 (take 2 (u32_bytes w)) = w AND 0xFFFF"
proof -
  have m: "(0xFF :: u32) = mask 8" "(0xFFFF :: u32) = mask 16" by (simp_all add: mask_eq_exp_minus_1)
  show "le_u32 (take (Suc 0) (u32_bytes w)) = w AND 0xFF" "le_u32 (take 2 (u32_bytes w)) = w AND 0xFFFF"
    by (rule bit_word_eqI; auto simp: m u32_bytes_def bit_simps)+
qed

lemma length_concat_u32_bytes: "length (concat (map u32_bytes cs)) = 4 * length cs"
  by (induction cs) simp_all

lemma le_at_counters:
  "i < length cs \<Longrightarrow> le_at (pre @ concat (map u32_bytes cs) @ rest) (length pre + 4 * i) 4 = cs ! i"
proof (induction cs arbitrary: pre i)
  case Nil then show ?case by simp
next
  case (Cons c cs)
  show ?case
  proof (cases i)
    case 0 then show ?thesis by (simp add: le_at_def)
  next
    case (Suc j)
    have "le_at ((pre @ u32_bytes c) @ concat (map u32_bytes cs) @ rest) (length (pre @ u32_bytes c) + 4 * j) 4 = cs ! j"
      using Cons.prems Suc by (intro Cons.IH) simp
    then show ?thesis using Suc by (simp add: algebra_simps)
  qed
qed

lemma le_at_after_prefix:
  "length b \<le> k \<Longrightarrow> le_at (b @ drop (length b) q) k n = le_at q k n"
  by (simp add: le_at_def)

lemma c_string_update_zero: "k < length xs \<Longrightarrow> c_string (xs[k := 0]) = c_string (take k xs)"
proof (induction xs arbitrary: k)
  case Nil then show ?case by simp
next
  case (Cons x xs)
  then show ?case by (cases k) (simp_all add: c_string_def)
qed

lemma FirmwareVersion_terminator_in_range: assumes "15 < unat (Length m)" and "unat (Length m) < length (Payload m)"
  shows "buf_set (Payload m) (uint (Length m)) 0 = Inr ((Payload m)[unat (Length m) := 0])"
proof -
  have "uint (Length m) < int (length (Payload m))" using assms(2) by (simp add: uint_nat del: of_nat_unat)
  then show ?thesis by (simp add: buf_set_def)
qed
lemma c_string_drop_update_zero: "k < length xs \<Longrightarrow> 15 \<le> k \<Longrightarrow> c_string (drop 15 (xs[k := 0])) = c_string (take (k - 15) (drop 15 xs))"
  using c_string_update_zero [of "k - 15" "drop 15 xs"] by (simp add: drop_update_swap)

section \<open>Properties\<close>

text \<open>C12: WiMOD_LoRaWAN_DevMgmt_FirmwareVersion_Rsp writes its string terminator at Payload[Length]; when the length fills the payload array the write is out of bounds.\<close>

theorem FirmwareVersion_terminator_overflow:
  assumes "length (Payload m) = unat (Length m)" and "15 < unat (Length m)"
    and "Payload m ! 0 = DEVMGMT_STATUS_OK"
  shows "WiMOD_LoRaWAN_DevMgmt_FirmwareVersion_Rsp m = Inl Write_Out_Of_Bounds"
proof -
  define p where "p = Payload m"
  have len: "16 \<le> length p" using assms(1,2) by (simp add: p_def)
  have gt: "15 < Length m" using assms(2) by (simp add: word_less_nat_alt)
  have rd: "buf_range p 5 10 = Inr (take 10 (drop 5 p))"
    using buf_range_in_range [of 5 10 p] len by simp
  have wr: "buf_set p (uint (Length m)) 0 = Inl Write_Out_Of_Bounds"
    using assms(1) by (simp add: buf_set_def p_def)
  have st: "p ! 0 = 0" using assms(3) by (simp add: p_def DEVMGMT_STATUS_OK_def)
  have "0 < length p" using len by linarith
  then have "WiMOD_LoRaWAN_DevMgmt_FirmwareVersion_Rsp m =
      fbind (buf_get p 2) (\<lambda>major. fbind (buf_get p 1) (\<lambda>minor.
              fbind (buf_get p 3) (\<lambda>lo. fbind (buf_get p 4) (\<lambda>hi.
              fbind (buf_range p 5 10) (\<lambda>date.
                fbind (buf_set p (uint (Length m)) 0) (\<lambda>p'.
                       Inr (DevMgmt_FirmwareVersion 0 (Some ''ok'') (Some
                         \<lparr>fw_minor = minor, fw_major = major, build_count = MAKEWORD lo hi,
                          build_date = c_string date, fw_content = Some (c_string (drop 15 p'))\<rparr>),
                            m\<lparr>Payload := p'\<rparr>)))))))"
    using gt st
    by (simp add: WiMOD_LoRaWAN_DevMgmt_FirmwareVersion_Rsp_def with_status_DeviceMgmt p_def [symmetric]
        table_entries_DeviceMgmt_StatusStrings DEVMGMT_STATUS_OK_def)
  also have "\<dots> = Inl Write_Out_Of_Bounds"
    using len rd wr by simp
  finally show ?thesis .
qed

theorem FirmwareVersion_terminator_overflow_witness:
  "length (replicate 16 (0::byte)) = unat (16::u16) \<and> 15 < unat (16::u16) \<and>
   replicate 16 (0::byte) ! 0 = DEVMGMT_STATUS_OK \<and>
   WiMOD_LoRaWAN_DevMgmt_FirmwareVersion_Rsp
     \<lparr>Ident = DEVMGMT_SAP DEVMGMT_MSG_GET_FW_VERSION_RSP, Length = 16, Payload = replicate 16 0\<rparr> =
     Inl Write_Out_Of_Bounds"
  using FirmwareVersion_terminator_overflow
    [of "\<lparr>Ident = DEVMGMT_SAP DEVMGMT_MSG_GET_FW_VERSION_RSP, Length = 16, Payload = replicate 16 0\<rparr>"]
  by (simp add: DEVMGMT_STATUS_OK_def)

text \<open>C13: A successful firmware-version response whose Length is above 15 and below the capacity of the payload array is decoded by WiMOD_LoRaWAN_DevMgmt_FirmwareVersion_Rsp at the offsets of the specification: minor version at byte 1, major at byte 2, the build count little-endian at bytes 3-4, the build date as the C string of the 10 bytes at 5, and the content as the C string of the bytes from 15 up to Length, where the handler writes its terminator.\<close>

theorem FirmwareVersion_decoded:
  assumes "15 < unat (Length m)" and "unat (Length m) < length (Payload m)"
    and "Payload m ! 0 = DEVMGMT_STATUS_OK"
  shows "WiMOD_LoRaWAN_DevMgmt_FirmwareVersion_Rsp m =
     Inr (DevMgmt_FirmwareVersion 0 (Some ''ok'') (Some
            \<lparr>fw_minor = Payload m ! 1, fw_major = Payload m ! 2,
             build_count = MAKEWORD (Payload m ! 3) (Payload m ! 4),
             build_date = c_string (take 10 (drop 5 (Payload m))),
             fw_content = Some (c_string (take (unat (Length m) - 15) (drop 15 (Payload m))))\<rparr>),
          m\<lparr>Payload := (Payload m)[unat (Length m) := 0]\<rparr>)"
proof -
  define p where "p = Payload m"
  define L where "L = unat (Length m)"
  have len: "16 \<le> length p" "L < length p" using assms(1,2) by (simp_all add: p_def L_def)
  have gt: "15 < Length m" using assms(1) by (simp add: word_less_nat_alt)
  have st: "p ! 0 = 0" using assms(3) by (simp add: p_def DEVMGMT_STATUS_OK_def)
  have g: "buf_get p 1 = Inr (p ! 1)" "buf_get p 2 = Inr (p ! 2)" "buf_get p 3 = Inr (p ! 3)"
      "buf_get p 4 = Inr (p ! 4)"
    using buf_get_in_range [of 1 p] buf_get_in_range [of 2 p] buf_get_in_range [of 3 p]
      buf_get_in_range [of 4 p] len by simp_all
  have rd: "buf_range p 5 10 = Inr (take 10 (drop 5 p))"
    using buf_range_in_range [of 5 10 p] len by simp
  have wr: "buf_set p (uint (Length m)) 0 = Inr (p[L := 0])"
    using FirmwareVersion_terminator_in_range [OF assms(1,2)] by (simp add: p_def L_def)
  have c: "c_string (drop 15 (p[L := 0])) = c_string (take (L - 15) (drop 15 p))"
    using len assms(1) c_string_drop_update_zero [of L p] by (simp add: L_def)
  have "0 < length p" using len by linarith
  then have "WiMOD_LoRaWAN_DevMgmt_FirmwareVersion_Rsp m =
      fbind (buf_get p 2) (\<lambda>major. fbind (buf_get p 1) (\<lambda>minor.
              fbind (buf_get p 3) (\<lambda>lo. fbind (buf_get p 4) (\<lambda>hi.
              fbind (buf_range p 5 10) (\<lambda>date.
                fbind (buf_set p (uint (Length m)) 0) (\<lambda>p'.
                       Inr (DevMgmt_FirmwareVersion 0 (Some ''ok'') (Some
                         \<lparr>fw_minor = minor, fw_major = major, build_count = MAKEWORD lo hi,
                          build_date = c_string date, fw_content = Some (c_string (drop 15 p'))\<rparr>),
                            m\<lparr>Payload := p'\<rparr>)))))))"
    using gt st
    by (simp add: WiMOD_LoRaWAN_DevMgmt_FirmwareVersion_Rsp_def with_status_DeviceMgmt p_def [symmetric]
        table_entries_DeviceMgmt_StatusStrings DEVMGMT_STATUS_OK_def)
  also have "\<dots> = Inr (DevMgmt_FirmwareVersion 0 (Some ''ok'') (Some
            \<lparr>fw_minor = p ! 1, fw_major = p ! 2, build_count = MAKEWORD (p ! 3) (p ! 4),
             build_date = c_string (take 10 (drop 5 p)),
             fw_content = Some (c_string (take (L - 15) (drop 15 p)))\<rparr>), m\<lparr>Payload := p[L := 0]\<rparr>)"
    by (simp only: g rd wr c fbind_simps)
  finally show ?thesis by (simp only: p_def L_def)
qed

theorem FirmwareVersion_decoded_witness:
  "15 < unat (17 :: u16) \<and> unat (17 :: u16) < length [0, 3, 2, 7, 1, 0x32, 0x30, 0x31, 0x38, 0, 0, 0, 0, 0, 0, 0x41, 0x42, 9, 9, 9 :: byte] \<and>
   [0, 3, 2, 7, 1, 0x32, 0x30, 0x31, 0x38, 0, 0, 0, 0, 0, 0, 0x41, 0x42, 9, 9, 9 :: byte] ! 0 = DEVMGMT_STATUS_OK \<and>
   (\<exists>m'. WiMOD_LoRaWAN_DevMgmt_FirmwareVersion_Rsp
       \<lparr>Ident = DEVMGMT_SAP DEVMGMT_MSG_GET_FW_VERSION_RSP, Length = 17,
        Payload = [0, 3, 2, 7, 1, 0x32, 0x30, 0x31, 0x38, 0, 0, 0, 0, 0, 0, 0x41, 0x42, 9, 9, 9]\<rparr> =
     Inr (DevMgmt_FirmwareVersion 0 (Some ''ok'') (Some
            \<lparr>fw_minor = 3, fw_major = 2, build_count = MAKEWORD 7 1, build_date = [0x32, 0x30, 0x31, 0x38],
             fw_content = Some [0x41, 0x42]\<rparr>), m'))"
  using FirmwareVersion_decoded
    [of "\<lparr>Ident = DEVMGMT_SAP DEVMGMT_MSG_GET_FW_VERSION_RSP, Length = 17,
          Payload = [0, 3, 2, 7, 1, 0x32, 0x30, 0x31, 0x38, 0, 0, 0, 0, 0, 0, 0x41, 0x42, 9, 9, 9]\<rparr>"]
  by (simp add: DEVMGMT_STATUS_OK_def c_string_def)

text \<open>C14: A successful device-status response laid out as the handler reads it is decoded by WiMOD_LoRaWAN_DevMgmt_DeviceStatus_Rsp field by field: the tick resolution from byte 1, the system tick from bytes 2-5, the target time from the RTC word at bytes 6-9, the NVM status and battery level from the two-byte fields at 10 and 12, and the eleven counters (TX U-Data to RX accept) from bytes 16-59 in order, the offsets of the specification's device-status table, all little-endian.\<close>

theorem DeviceStatus_decoded:
  assumes "length reserved = 2" and "length cs = 11"
  shows "WiMOD_LoRaWAN_DevMgmt_DeviceStatus_Rsp (status_payload res tick time nvm bat reserved cs @ rest) =
     Inr (DevMgmt_DeviceStatus 0 (Some ''ok'') (Some
       \<lparr>tick_resolution = res AND 0xFF, system_tick = tick, target_time = rtc_unpack time,
        nvm_status = nvm AND 0xFFFF, battery_level = bat AND 0xFFFF,
        tx_udata = cs ! 0, tx_cdata = cs ! 1, tx_error = cs ! 2,
        rx1_udata = cs ! 3, rx1_cdata = cs ! 4, rx1_mic_error = cs ! 5,
        rx2_udata = cs ! 6, rx2_cdata = cs ! 7, rx2_mic_error = cs ! 8,
        tx_join = cs ! 9, rx_accept = cs ! 10\<rparr>))"
proof -
  let ?pre = "[DEVMGMT_STATUS_OK] @ take 1 (u32_bytes res) @ u32_bytes tick @ u32_bytes time @
     take 2 (u32_bytes nvm) @ take 2 (u32_bytes bat) @ reserved"
  let ?p = "status_payload res tick time nvm bat reserved cs @ rest"
  have p: "?p = ?pre @ concat (map u32_bytes cs) @ rest" by simp
  have lpre: "length ?pre = 16" using assms(1) by simp
  have lc: "length (concat (map u32_bytes cs)) = 44"
    using assms(2) length_concat_u32_bytes [of cs] by simp
  have c: "le_at ?p (16 + 4 * i) 4 = cs ! i" if "i < 11" for i
    using le_at_counters [of i cs ?pre rest] that assms(2) lpre p by simp
  have h: "le_at ?p 1 1 = res AND 0xFF" "le_at ?p 2 4 = tick" "le_at ?p 6 4 = time"
     "le_at ?p 10 2 = nvm AND 0xFFFF" "le_at ?p 12 2 = bat AND 0xFFFF"
    by (simp_all add: le_at_def le_u32_take_u32_bytes)
  have "60 \<le> length ?p" using lpre lc by simp
  moreover have "?p ! 0 = DEVMGMT_STATUS_OK" by simp
  ultimately show ?thesis
    using c [of 0] c [of 1] c [of 2] c [of 3] c [of 4] c [of 5] c [of 6] c [of 7] c [of 8] c [of 9] c [of 10] h
    by (simp add: DeviceStatus_Rsp_in_range DeviceStatus_record_def le_u32_take_u32_bytes word_bw_assocs)
qed

theorem DeviceStatus_decoded_witness:
  "length [0, 0 :: byte] = 2 \<and> length [1, 2, 3, 4, 5, 6, 7, 8, 9, 10, 11 :: u32] = 11 \<and>
   WiMOD_LoRaWAN_DevMgmt_DeviceStatus_Rsp (status_payload 10 1000 0 3 3300 [0, 0] [1, 2, 3, 4, 5, 6, 7, 8, 9, 10, 11] @ []) =
     Inr (DevMgmt_DeviceStatus 0 (Some ''ok'') (Some
       \<lparr>tick_resolution = 10, system_tick = 1000, target_time = rtc_unpack 0,
        nvm_status = 3, battery_level = 3300,
        tx_udata = 1, tx_cdata = 2, tx_error = 3, rx1_udata = 4, rx1_cdata = 5, rx1_mic_error = 6,
        rx2_udata = 7, rx2_cdata = 8, rx2_mic_error = 9, tx_join = 10, rx_accept = 11\<rparr>))"
  using DeviceStatus_decoded [of "[0, 0]" "[1, 2, 3, 4, 5, 6, 7, 8, 9, 10, 11]" 10 1000 0 3 3300 "[]"]
  by simp

text \<open>C15: WiMOD_LoRaWAN_DevMgmt_DeviceStatus_Rsp never consults Length: a successful response of at most 52 bytes, received into a payload array that still holds an earlier message (the static RxMessage that the HCI layer fills), is decoded without a fault, and the TX-join and RX-accept counters it reports are the bytes of the earlier message.\<close>

theorem DeviceStatus_stale_counters:
  assumes "b \<noteq> []" and "b ! 0 = DEVMGMT_STATUS_OK" and "length b \<le> 52" and "60 \<le> length q"
  shows "\<exists>ds. WiMOD_LoRaWAN_DevMgmt_DeviceStatus_Rsp (b @ drop (length b) q) = Inr (DevMgmt_DeviceStatus 0 (Some ''ok'') (Some ds)) \<and>
              tx_join ds = le_at q 52 4 \<and> rx_accept ds = le_at q 56 4"
proof -
  have "60 \<le> length (b @ drop (length b) q)" "(b @ drop (length b) q) ! 0 = DEVMGMT_STATUS_OK"
    using assms by (simp_all add: nth_append)
  then show ?thesis
    using assms(3) by (simp add: DeviceStatus_Rsp_in_range DeviceStatus_record_def le_at_after_prefix)
qed

theorem DeviceStatus_stale_counters_witness:
  "[0, 5 :: byte] \<noteq> [] \<and> [0, 5 :: byte] ! 0 = DEVMGMT_STATUS_OK \<and> length [0, 5 :: byte] \<le> 52 \<and>
   60 \<le> length (replicate 60 (7 :: byte)) \<and>
   (\<exists>ds. WiMOD_LoRaWAN_DevMgmt_DeviceStatus_Rsp ([0, 5] @ drop 2 (replicate 60 7)) = Inr (DevMgmt_DeviceStatus 0 (Some ''ok'') (Some ds)) \<and>
         tx_join ds = 0x07070707 \<and> rx_accept ds = 0x07070707)"
proof -
  have r: "replicate 4 (7 :: byte) = [7, 7, 7, 7]" by (simp add: numeral_eq_Suc)
  show ?thesis
    using DeviceStatus_stale_counters [of "[0, 5]" "replicate 60 7"]
    by (simp add: DEVMGMT_STATUS_OK_def le_at_def r)
qed

text \<open>C16: A successful RTC-alarm response is decoded by WiMOD_LoRaWAN_DevMgmt_Get_RTC_ALARM_Rsp with the alarm flag from byte 1, the daily flag from byte 2 and hour, minute and second from bytes 3, 4 and 5: the three-byte little-endian copy at offset 3 and its byte masks give back the three bytes unchanged.\<close>

theorem RTC_Alarm_decoded:
  "WiMOD_LoRaWAN_DevMgmt_Get_RTC_ALARM_Rsp ([DEVMGMT_STATUS_OK, al, daily, hh, mm, ss] @ rest) =
     Inr (DevMgmt_RTC_Alarm 0 (Some ''ok'') (Some
       \<lparr>alarm_set = al, alarm_daily = daily, alarm_hour = ucast hh, alarm_minute = ucast mm,
        alarm_second = ucast ss\<rparr>))"
proof -
  have m: "(0xFF :: u32) = mask 8" "(0xFF00 :: u32) = push_bit 8 (mask 8)" "(0xFF0000 :: u32) = push_bit 16 (mask 8)"
    by (simp_all add: mask_eq_exp_minus_1 push_bit_eq_mult)
  have w: "le_u32 [hh, mm, ss] AND 0xFF = ucast hh"
     "drop_bit 8 (le_u32 [hh, mm, ss] AND 0xFF00) = ucast mm"
     "drop_bit 16 (le_u32 [hh, mm, ss] AND 0xFF0000) = ucast ss"
    by (rule bit_word_eqI; auto simp: m bit_simps dest: bit_imp_le_length)+
  show ?thesis
    using w by (simp add: WiMOD_LoRaWAN_DevMgmt_Get_RTC_ALARM_Rsp_def with_status_DeviceMgmt
        table_entries_DeviceMgmt_StatusStrings DEVMGMT_STATUS_OK_def read_le_def buf_range_def)
qed

text \<open>A successful device-status response in an array shorter than 60 bytes makes WiMOD_LoRaWAN_DevMgmt_DeviceStatus_Rsp read beyond the array.\<close>

theorem DeviceStatus_short_buffer:
  "0 < length p \<Longrightarrow> length p < 60 \<Longrightarrow> p ! 0 = DEVMGMT_STATUS_OK \<Longrightarrow>
   WiMOD_LoRaWAN_DevMgmt_DeviceStatus_Rsp p = Inl Read_Out_Of_Bounds"
  by (simp add: WiMOD_LoRaWAN_DevMgmt_DeviceStatus_Rsp_def with_status_DeviceMgmt read_le_out_of_range read_le_def buf_range_def)

theorem DeviceStatus_short_buffer_witness:
  "0 < length [0, 1, 2 :: byte] \<and> length [0, 1, 2 :: byte] < 60 \<and> [0, 1, 2 :: byte] ! 0 = DEVMGMT_STATUS_OK \<and>
   WiMOD_LoRaWAN_DevMgmt_DeviceStatus_Rsp [0, 1, 2] = Inl Read_Out_Of_Bounds"
  using DeviceStatus_short_buffer [of "[0, 1, 2]"] by (simp add: DEVMGMT_STATUS_OK_def)

text \<open>A device-status response with a status other than OK yields only the status and its label, no fields.\<close>

theorem DeviceStatus_absent_on_failure:
  "0 < length p \<Longrightarrow> p ! 0 \<noteq> DEVMGMT_STATUS_OK \<Longrightarrow>
   WiMOD_LoRaWAN_DevMgmt_DeviceStatus_Rsp p =
     Inr (DevMgmt_DeviceStatus (p ! 0) (map_of (table_entries WiMOD_DeviceMgmt_StatusStrings) (p ! 0)) None)"
  by (simp add: WiMOD_LoRaWAN_DevMgmt_DeviceStatus_Rsp_def with_status_DeviceMgmt)

theorem DeviceStatus_absent_on_failure_witness:
  "0 < length (replicate 60 (1::byte)) \<and> replicate 60 (1::byte) ! 0 \<noteq> DEVMGMT_STATUS_OK \<and>
   WiMOD_LoRaWAN_DevMgmt_DeviceStatus_Rsp (replicate 60 1) = Inr (DevMgmt_DeviceStatus 1 (Some ''error'') None)"
  using DeviceStatus_absent_on_failure [of "replicate 60 1"]
  by (simp add: DEVMGMT_STATUS_OK_def table_entries_DeviceMgmt_StatusStrings)

text \<open>The response to SET_OPMODE, which WiMOD_LoRaWAN_SetOPMODE requests, is not handled by the device-management switch.\<close>

theorem Set_OPMODE_Rsp_unhandled:
  "WiMOD_LoRaWAN_Process_DevMgmt_Message DEVMGMT_MSG_SET_OPMODE_RSP m =
     Inr (DevMgmt_Unhandled DEVMGMT_MSG_SET_OPMODE_RSP, m)"
  by simp

end
