(* ===== verification/LoRaWAN_Indications.thy ===== *)
theory LoRaWAN_Indications
  imports DevMgmt_Decoder
begin

text \<open>
  The LoRaWAN-SAP indication handlers of \<open>WiMOD_LoRaWAN_API.c\<close>: transmit
  indications (\<open>WiMOD_LoRaWAN_Process_U_DATA_TxIndication\<close>,
  \<open>..._C_DATA_TxIndication\<close>, \<open>..._JoinTxIndication\<close>), the join indication, and
  the three receive indications whose first payload byte is a flag set (bit 0: a
  5-byte channel-info block trails the payload; bit 1: acknowledgement; bit 2: frame
  pending).  \<open>payloadSize\<close> is the C \<open>int\<close> \<open>Length - 1\<close>, less 5 when bit 0 is
  set; nothing keeps it from going negative, and the channel-info pointer
  \<open>&Payload[1 + payloadSize]\<close> then points before the array (a fault in the model).
  The U-Data handler also acts on two ports: port 99 resets the system and port 100
  forwards bytes to the TCP connection with \<open>tcp_write\<close>.  The C-Data handler's
  print loop has no increment; it is a \<open>partial_function (option)\<close> whose \<open>None\<close> is
  the handler never returning.
\<close>

unbundle bit_operations_syntax

section \<open>Decoded values\<close>

record rx_channel_info =
  rx_chn_idx :: byte
  rx_dr :: byte
  rx_rssi :: byte
  rx_snr :: byte
  rx_slot :: byte

text \<open>A transmit indication with channel info prints channel index, data rate, the
  number of transmissions and the power; its "airtime" prints a pointer, not a value,
  so it is not part of the record.\<close>

datatype tx_indication =
    Tx_Sent
  | Tx_Sent_Channel byte byte byte byte
  | Tx_Max_Retransmissions
  | Tx_Max_Payload_Exceeded
  | Tx_Error

datatype join_tx_indication = Join_Tx_Ok | Join_Tx_Channel byte byte byte | Join_Tx_Error

datatype join_indication =
    Join_Accept u32
  | Join_Accept_Info u32 byte byte byte byte byte
  | Join_Timeout

datatype rx_action = No_Action | TCP_Write "byte list"

datatype rx_indication =
    Data_Rx "(byte \<times> byte list) option" rx_action bool bool "rx_channel_info option"
  | System_Reset
  | MAC_Rx "byte list option" "rx_channel_info option"

section \<open>Flags and sizes\<close>

definition flag_set :: "byte \<Rightarrow> byte \<Rightarrow> bool" where
  "flag_set flags bitmask \<longleftrightarrow> flags AND bitmask \<noteq> 0"

text \<open>\<open>int payloadSize = rxMessage->Length - 1; if (Payload[0] & 0x01) payloadSize -= 5;\<close>\<close>

definition rx_payload_size :: "u16 \<Rightarrow> byte \<Rightarrow> int" where
  "rx_payload_size len flags = int (unat len) - 1 - (if flag_set flags 0x01 then 5 else 0)"

definition channel_info_of :: "byte list \<Rightarrow> rx_channel_info" where
  "channel_info_of bs = \<lparr>rx_chn_idx = bs ! 0, rx_dr = bs ! 1, rx_rssi = bs ! 2, rx_snr = bs ! 3, rx_slot = bs ! 4\<rparr>"

text \<open>The trailing block: printed only when bit 0 is set, from \<open>&Payload[1 + payloadSize]\<close>.\<close>

definition rx_channel_block :: "byte list \<Rightarrow> byte \<Rightarrow> int \<Rightarrow> c_fault + rx_channel_info option" where
  "rx_channel_block p flags payloadSize =
     (if flag_set flags 0x01
      then fbind (buf_range p (1 + payloadSize) 5) (\<lambda>bs. Inr (Some (channel_info_of bs)))
      else Inr None)"

section \<open>Transmit and join indications\<close>

definition WiMOD_LoRaWAN_Process_U_DATA_TxIndication :: "byte list \<Rightarrow> c_fault + tx_indication" where
  "WiMOD_LoRaWAN_Process_U_DATA_TxIndication p =
     fbind (buf_get p 0) (\<lambda>st.
       if st = 0 then Inr Tx_Sent
       else if st = 1 then fbind (buf_get p 1) (\<lambda>ch. fbind (buf_get p 2) (\<lambda>dr.
              fbind (buf_get p 3) (\<lambda>num. fbind (buf_get p 4) (\<lambda>pw. Inr (Tx_Sent_Channel ch dr num pw)))))
       else Inr Tx_Error)"

definition WiMOD_LoRaWAN_Process_C_DATA_TxIndication :: "byte list \<Rightarrow> c_fault + tx_indication" where
  "WiMOD_LoRaWAN_Process_C_DATA_TxIndication p =
     fbind (buf_get p 0) (\<lambda>st.
       if st = 0 then Inr Tx_Sent
       else if st = 1 then fbind (buf_get p 1) (\<lambda>ch. fbind (buf_get p 2) (\<lambda>dr.
              fbind (buf_get p 3) (\<lambda>num. fbind (buf_get p 4) (\<lambda>pw. Inr (Tx_Sent_Channel ch dr num pw)))))
       else if flag_set st 0x02 then Inr Tx_Max_Retransmissions
       else if flag_set st 0x04 then Inr Tx_Max_Payload_Exceeded
       else Inr Tx_Error)"

definition WiMOD_LoRaWAN_Process_JoinTxIndication :: "byte list \<Rightarrow> c_fault + join_tx_indication" where
  "WiMOD_LoRaWAN_Process_JoinTxIndication p =
     fbind (buf_get p 0) (\<lambda>st.
       if st = 0 then Inr Join_Tx_Ok
       else if st = 1 then fbind (buf_get p 3) (\<lambda>n. fbind (buf_get p 1) (\<lambda>ch.
              fbind (buf_get p 2) (\<lambda>dr. Inr (Join_Tx_Channel n ch dr))))
       else Inr Join_Tx_Error)"

definition join_address :: "byte list \<Rightarrow> c_fault + u32" where
  "join_address p =
     fbind (buf_get p 1) (\<lambda>b1. fbind (buf_get p 2) (\<lambda>b2. fbind (buf_get p 3) (\<lambda>b3.
       fbind (buf_get p 4) (\<lambda>b4. Inr (MAKELONG (MAKEWORD b1 b2) (MAKEWORD b3 b4))))))"

definition WiMOD_LoRaWAN_Process_JoinNetworkIndication :: "byte list \<Rightarrow> c_fault + join_indication" where
  "WiMOD_LoRaWAN_Process_JoinNetworkIndication p =
     fbind (buf_get p 0) (\<lambda>st.
       if st = 0 then fbind (join_address p) (\<lambda>a. Inr (Join_Accept a))
       else if st = 1 then fbind (join_address p) (\<lambda>a. fbind (buf_range p 5 5) (\<lambda>bs.
              Inr (Join_Accept_Info a (bs ! 0) (bs ! 1) (bs ! 2) (bs ! 3) (bs ! 4))))
       else Inr Join_Timeout)"

section \<open>Receive indications\<close>

text \<open>
  \<open>WiMOD_LoRaWAN_Process_U_DataRxIndication\<close>.  With \<open>payloadSize \<ge> 1\<close> the port
  is \<open>Payload[1]\<close> and the loop \<open>for (i = 1; i < payloadSize; i++)\<close> prints
  \<open>Payload[2 .. payloadSize]\<close>.  Port 99 enters a critical section and resets the
  MCU, so nothing after it runs; port 100 calls
  \<open>tcp_write(echoclient_pcb, Payload + 2, payloadSize, 1)\<close>.
\<close>

definition WiMOD_LoRaWAN_Process_U_DataRxIndication :: "TWiMOD_HCI_Message \<Rightarrow> c_fault + rx_indication" where
  "WiMOD_LoRaWAN_Process_U_DataRxIndication m =
     (let p = Payload m in
      fbind (buf_get p 0) (\<lambda>flags.
        let payloadSize = rx_payload_size (Length m) flags in
        fbind (if payloadSize \<ge> 1
         then fbind (buf_get p 1) (\<lambda>port. fbind (buf_range p 2 (nat (payloadSize - 1))) (\<lambda>app.
                if port = 99 then Inr None
                else if port = 100
                then fbind (buf_range p 2 (nat payloadSize)) (\<lambda>fwd. Inr (Some (Some (port, app), TCP_Write fwd)))
                else Inr (Some (Some (port, app), No_Action))))
         else Inr (Some (None, No_Action)))
        (\<lambda>head. case head of
              None \<Rightarrow> Inr System_Reset
            | Some (pa, act) \<Rightarrow>
                fbind (rx_channel_block p flags payloadSize) (\<lambda>ci.
                  Inr (Data_Rx pa act (flag_set flags 0x02) (flag_set flags 0x04) ci)))))"

text \<open>The C-Data print loop \<open>for (int i = 1; i < payloadSize;)\<close>: \<open>i\<close> never changes.\<close>

partial_function (option) cdata_print_loop ::
  "byte list \<Rightarrow> int \<Rightarrow> int \<Rightarrow> byte list \<Rightarrow> (c_fault + byte list) option" where
  "cdata_print_loop p payloadSize i acc =
     (if i < payloadSize
      then (case buf_get p (1 + i) of
              Inl f \<Rightarrow> Some (Inl f)
            | Inr b \<Rightarrow> cdata_print_loop p payloadSize i (acc @ [b]))
      else Some (Inr acc))"

definition WiMOD_LoRaWAN_Process_C_DataRxIndication ::
  "TWiMOD_HCI_Message \<Rightarrow> (c_fault + rx_indication) option" where
  "WiMOD_LoRaWAN_Process_C_DataRxIndication m =
     (let p = Payload m in
      case buf_get p 0 of
        Inl f \<Rightarrow> Some (Inl f)
      | Inr flags \<Rightarrow>
          (let payloadSize = rx_payload_size (Length m) flags in
           Option.bind (if payloadSize \<ge> 1
            then (case buf_get p 1 of
                    Inl f \<Rightarrow> Some (Inl f)
                  | Inr port \<Rightarrow> map_option (\<lambda>r. fbind r (\<lambda>app. Inr (Some (port, app))))
                                  (cdata_print_loop p payloadSize 1 []))
            else Some (Inr None))
           (\<lambda>r. Some (fbind r (\<lambda>pa.
                 fbind (rx_channel_block p flags payloadSize) (\<lambda>ci.
                   Inr (Data_Rx pa No_Action (flag_set flags 0x02) (flag_set flags 0x04) ci)))))))"

definition WiMOD_LoRaWAN_Process_MAC_CMDRxIndication :: "TWiMOD_HCI_Message \<Rightarrow> c_fault + rx_indication" where
  "WiMOD_LoRaWAN_Process_MAC_CMDRxIndication m =
     (let p = Payload m in
      fbind (buf_get p 0) (\<lambda>flags.
        let payloadSize = rx_payload_size (Length m) flags in
        fbind (if payloadSize \<ge> 1 then fbind (buf_range p 1 (nat payloadSize)) (\<lambda>mac. Inr (Some mac))
               else Inr None) (\<lambda>mac.
        fbind (rx_channel_block p flags payloadSize) (\<lambda>ci. Inr (MAC_Rx mac ci)))))"

section \<open>Lemmas\<close>

text \<open>The print loop with an index in range before the bound never returns: whatever
  it returns, by fixpoint induction, comes from a call whose guard fails or whose read
  faults.\<close>

lemma cdata_print_loop_stuck:
  assumes "i < payloadSize" and "0 \<le> 1 + i" and "1 + i < int (length p)"
  shows "cdata_print_loop p payloadSize i acc = None"
proof -
  have "\<not> (i < payloadSize \<and> 0 \<le> 1 + i \<and> 1 + i < int (length p))"
    if "cdata_print_loop p payloadSize i acc = Some r" for r
  proof (rule cdata_print_loop.raw_induct
      [where P = "\<lambda>p ps i acc r. \<not> (i < ps \<and> 0 \<le> 1 + i \<and> 1 + i < int (length p))", OF _ that])
    fix f p ps i acc r
    assume IH: "\<And>p ps i acc r. f p ps i acc = Some r \<Longrightarrow> \<not> (i < ps \<and> 0 \<le> 1 + i \<and> 1 + i < int (length p))"
      and eq: "(if i < ps then (case buf_get p (1 + i) of Inl f \<Rightarrow> Some (Inl f)
                 | Inr b \<Rightarrow> f p ps i (acc @ [b])) else Some (Inr acc)) = Some r"
    show "\<not> (i < ps \<and> 0 \<le> 1 + i \<and> 1 + i < int (length p))"
    proof
      assume c: "i < ps \<and> 0 \<le> 1 + i \<and> 1 + i < int (length p)"
      then have "buf_get p (1 + i) = Inr (p ! nat (1 + i))" by (simp add: buf_get_def)
      with c eq have "f p ps i (acc @ [p ! nat (1 + i)]) = Some r" by simp
      then have "\<not> (i < ps \<and> 0 \<le> 1 + i \<and> 1 + i < int (length p))" by (rule IH)
      with c show False by simp
    qed
  qed
  with assms show ?thesis by (cases "cdata_print_loop p payloadSize i acc") auto
qed

lemma rx_payload_size_bit0:
  "flag_set f 0x01 \<Longrightarrow> rx_payload_size len f = int (unat len) - 6"
  "\<not> flag_set f 0x01 \<Longrightarrow> rx_payload_size len f = int (unat len) - 1"
  by (simp_all add: rx_payload_size_def)

section \<open>Properties\<close>

text \<open>C8: WiMOD_LoRaWAN_Process_C_DataRxIndication never returns on a confirmed downlink with two or more payload bytes: its print loop never increments its index.\<close>

theorem C_DataRx_never_returns:
  assumes "2 \<le> rx_payload_size (Length m) (Payload m ! 0)" and "2 < length (Payload m)"
  shows "WiMOD_LoRaWAN_Process_C_DataRxIndication m = None"
proof -
  have "cdata_print_loop (Payload m) (rx_payload_size (Length m) (Payload m ! 0)) 1 [] = None"
    using assms by (intro cdata_print_loop_stuck) simp_all
  moreover have "0 < length (Payload m)" "1 < length (Payload m)" using assms(2) by linarith+
  ultimately show ?thesis using assms
    by (simp add: WiMOD_LoRaWAN_Process_C_DataRxIndication_def Let_def)
qed

theorem C_DataRx_never_returns_witness:
  "2 \<le> rx_payload_size 4 ([0, 7, 1, 2, 3] ! 0) \<and> 2 < length [0, 7, 1, 2, 3 :: byte] \<and>
   WiMOD_LoRaWAN_Process_C_DataRxIndication \<lparr>Ident = LORAWAN_SAP LORAWAN_MSG_RECV_CDATA_IND,
     Length = 4, Payload = [0, 7, 1, 2, 3]\<rparr> = None"
  using C_DataRx_never_returns [of "\<lparr>Ident = LORAWAN_SAP LORAWAN_MSG_RECV_CDATA_IND, Length = 4, Payload = [0, 7, 1, 2, 3]\<rparr>"]
  by (simp add: rx_payload_size_def flag_set_def)

text \<open>C9: On an unconfirmed downlink with the channel-info flag set, a port other than 99 and 100 and a length of at least 7, WiMOD_LoRaWAN_Process_U_DataRxIndication decodes the port, the Length - 7 application bytes after it, the ack and pending flags and the five channel-info bytes at the end.\<close>

theorem U_DataRx_channel_info:
  assumes "flag_set (Payload m ! 0) 0x01" and "7 \<le> unat (Length m)" and "unat (Length m) \<le> length (Payload m)"
    and "Payload m ! 1 \<noteq> 99" and "Payload m ! 1 \<noteq> 100"
  shows "WiMOD_LoRaWAN_Process_U_DataRxIndication m =
           Inr (Data_Rx (Some (Payload m ! 1, take (unat (Length m) - 7) (drop 2 (Payload m)))) No_Action
                  (flag_set (Payload m ! 0) 0x02) (flag_set (Payload m ! 0) 0x04)
                  (Some (channel_info_of (take 5 (drop (unat (Length m) - 5) (Payload m))))))"
proof -
  define L where "L = unat (Length m)"
  have ps: "rx_payload_size (Length m) (Payload m ! 0) = int L - 6"
    using rx_payload_size_bit0(1) [OF assms(1)] by (simp add: L_def)
  have "7 \<le> L" using assms(2) by (simp add: L_def)
  then have n1: "nat (int L - 6 - 1) = L - 7" and n2: "nat (1 + (int L - 6)) = L - 5"
    by simp_all
  have "0 < length (Payload m)" "1 < length (Payload m)" using assms(2,3) by linarith+
  then show ?thesis using assms(1,4,5) ps n1 n2 assms(2,3)
    by (simp add: WiMOD_LoRaWAN_Process_U_DataRxIndication_def Let_def rx_channel_block_def
        flip: L_def)
qed

theorem U_DataRx_channel_info_witness:
  "flag_set ([1, 5, 10, 11, 20, 21, 22, 23, 24] ! 0) 0x01 \<and> 7 \<le> unat (9::u16) \<and>
   unat (9::u16) \<le> length [1, 5, 10, 11, 20, 21, 22, 23, 24 :: byte] \<and>
   [1, 5, 10, 11, 20, 21, 22, 23, 24 :: byte] ! 1 \<noteq> 99 \<and> [1, 5, 10, 11, 20, 21, 22, 23, 24 :: byte] ! 1 \<noteq> 100 \<and>
   WiMOD_LoRaWAN_Process_U_DataRxIndication (\<lparr>Ident = LORAWAN_SAP LORAWAN_MSG_RECV_UDATA_IND, Length = 9, Payload = [1, 5, 10, 11, 20, 21, 22, 23, 24]\<rparr>) =
     Inr (Data_Rx (Some (5, [10, 11])) No_Action False False
            (Some \<lparr>rx_chn_idx = 20, rx_dr = 21, rx_rssi = 22, rx_snr = 23, rx_slot = 24\<rparr>))"
  using U_DataRx_channel_info [of "\<lparr>Ident = LORAWAN_SAP LORAWAN_MSG_RECV_UDATA_IND, Length = 9, Payload = [1, 5, 10, 11, 20, 21, 22, 23, 24]\<rparr>"]
  by (simp add: flag_set_def channel_info_of_def)

text \<open>C10: On port 100 with channel info, the bytes WiMOD_LoRaWAN_Process_U_DataRxIndication forwards to tcp_write are the application payload followed by one more byte, the channel index of the trailer.\<close>

theorem U_DataRx_tcp_extra_byte:
  assumes "flag_set (Payload m ! 0) 0x01" and "7 \<le> unat (Length m)" and "unat (Length m) \<le> length (Payload m)"
    and "Payload m ! 1 = 100"
  shows "\<exists>app ci. WiMOD_LoRaWAN_Process_U_DataRxIndication m =
           Inr (Data_Rx (Some (100, app)) (TCP_Write (app @ [rx_chn_idx ci]))
                  (flag_set (Payload m ! 0) 0x02) (flag_set (Payload m ! 0) 0x04) (Some ci)) \<and>
           length app = unat (Length m) - 7"
proof -
  define L where "L = unat (Length m)"
  define p where "p = Payload m"
  have ps: "rx_payload_size (Length m) (p ! 0) = int L - 6"
    using rx_payload_size_bit0(1) assms(1) by (simp add: L_def p_def)
  have L7: "7 \<le> L" and Lp: "L \<le> length p" using assms(2,3) by (simp_all add: L_def p_def)
  then have n1: "nat (int L - 6 - 1) = L - 7" and n2: "nat (1 + (int L - 6)) = L - 5"
    and n3: "nat (int L - 6) = L - 6" by simp_all
  let ?app = "take (L - 7) (drop 2 p)"
  let ?ci = "channel_info_of (take 5 (drop (L - 5) p))"
  have fwd: "take (L - 6) (drop 2 p) = ?app @ [rx_chn_idx ?ci]"
  proof -
    have "L - 6 = Suc (L - 7)" using L7 by simp
    moreover have "drop 2 p ! (L - 7) = p ! (L - 5)"
    proof -
      have "2 + (L - 7) = L - 5" using L7 by simp
      then show ?thesis using L7 Lp by simp
    qed
    moreover have "rx_chn_idx ?ci = p ! (L - 5)" using L7 Lp by (simp add: channel_info_of_def)
    ultimately show ?thesis using L7 Lp by (simp add: take_Suc_conv_app_nth)
  qed
  have "0 < length p" "1 < length p" using L7 Lp by linarith+
  then have "WiMOD_LoRaWAN_Process_U_DataRxIndication m =
      Inr (Data_Rx (Some (100, ?app)) (TCP_Write (take (L - 6) (drop 2 p)))
             (flag_set (p ! 0) 0x02) (flag_set (p ! 0) 0x04) (Some ?ci))"
    using assms(1,4) ps n1 n2 n3 L7 Lp
    by (simp add: WiMOD_LoRaWAN_Process_U_DataRxIndication_def Let_def rx_channel_block_def
        flip: L_def p_def)
  then show ?thesis using fwd L7 Lp by (intro exI [of _ ?app] exI [of _ ?ci]) (simp add: p_def L_def)
qed

theorem U_DataRx_tcp_extra_byte_witness:
  "flag_set ([1, 100, 10, 11, 20, 21, 22, 23, 24] ! 0) 0x01 \<and> 7 \<le> unat (9::u16) \<and>
   unat (9::u16) \<le> length [1, 100, 10, 11, 20, 21, 22, 23, 24 :: byte] \<and>
   [1, 100, 10, 11, 20, 21, 22, 23, 24 :: byte] ! 1 = 100 \<and>
   (\<exists>app ci. WiMOD_LoRaWAN_Process_U_DataRxIndication (\<lparr>Ident = LORAWAN_SAP LORAWAN_MSG_RECV_UDATA_IND, Length = 9, Payload = [1, 100, 10, 11, 20, 21, 22, 23, 24]\<rparr>) =
           Inr (Data_Rx (Some (100, app)) (TCP_Write (app @ [rx_chn_idx ci])) False False (Some ci)) \<and>
           length app = 2)"
  using U_DataRx_tcp_extra_byte [of "\<lparr>Ident = LORAWAN_SAP LORAWAN_MSG_RECV_UDATA_IND, Length = 9, Payload = [1, 100, 10, 11, 20, 21, 22, 23, 24]\<rparr>"]
  by (simp add: flag_set_def)

text \<open>C11: With the channel-info flag set and a length of at most 4, WiMOD_LoRaWAN_Process_U_DataRxIndication reads the channel info at a negative index of the payload.\<close>

theorem U_DataRx_short_channel_fault:
  assumes "flag_set (Payload m ! 0) 0x01" and "unat (Length m) \<le> 4" and "1 < length (Payload m)"
  shows "WiMOD_LoRaWAN_Process_U_DataRxIndication m = Inl Read_Out_Of_Bounds"
proof -
  define L where "L = unat (Length m)"
  have ps: "rx_payload_size (Length m) (Payload m ! 0) = int L - 6"
    using rx_payload_size_bit0(1) [OF assms(1)] by (simp add: L_def)
  have "L \<le> 4" using assms(2) by (simp add: L_def)
  then have "\<not> 1 \<le> int L - 6" and "1 + (int L - 6) < 0" by simp_all
  moreover have "0 < length (Payload m)" using assms(3) by linarith
  ultimately show ?thesis using assms(1,3) ps
    by (simp add: WiMOD_LoRaWAN_Process_U_DataRxIndication_def Let_def rx_channel_block_def flip: L_def)
qed

theorem U_DataRx_short_channel_fault_witness:
  "flag_set ([1, 5, 10] ! 0) 0x01 \<and> unat (4::u16) \<le> 4 \<and> 1 < length [1, 5, 10 :: byte] \<and>
   WiMOD_LoRaWAN_Process_U_DataRxIndication (\<lparr>Ident = LORAWAN_SAP LORAWAN_MSG_RECV_UDATA_IND, Length = 4, Payload = [1, 5, 10]\<rparr>) = Inl Read_Out_Of_Bounds"
  using U_DataRx_short_channel_fault [of "\<lparr>Ident = LORAWAN_SAP LORAWAN_MSG_RECV_UDATA_IND, Length = 4, Payload = [1, 5, 10]\<rparr>"] by (simp add: flag_set_def)

text \<open>The two transmit indications read the same status byte differently: status 3 is max-retransmissions for C-Data, which tests bit 1 after the tests st = 0 and st = 1, and a plain error for U-Data, which has no bit tests.\<close>

theorem TxIndication_flag_bits:
  "5 \<le> length p \<Longrightarrow> p ! 0 = 3 \<Longrightarrow>
   WiMOD_LoRaWAN_Process_C_DATA_TxIndication p = Inr Tx_Max_Retransmissions \<and>
   WiMOD_LoRaWAN_Process_U_DATA_TxIndication p = Inr Tx_Error"
proof -
  assume "5 \<le> length p" and st: "p ! 0 = 3"
  then have "0 < length p" by linarith
  with st show ?thesis
    by (simp add: WiMOD_LoRaWAN_Process_C_DATA_TxIndication_def WiMOD_LoRaWAN_Process_U_DATA_TxIndication_def
      flag_set_def)
qed

theorem TxIndication_flag_bits_witness:
  "5 \<le> length [3, 0, 0, 0, 0 :: byte] \<and> [3, 0, 0, 0, 0 :: byte] ! 0 = 3 \<and>
   WiMOD_LoRaWAN_Process_C_DATA_TxIndication [3, 0, 0, 0, 0] = Inr Tx_Max_Retransmissions \<and>
   WiMOD_LoRaWAN_Process_U_DATA_TxIndication [3, 0, 0, 0, 0] = Inr Tx_Error"
  using TxIndication_flag_bits [of "[3, 0, 0, 0, 0]"] by simp

end
