(* ===== verification/Decode_Spec.thy ===== *)
theory Decode_Spec
  imports LoRaWAN_Indications
begin

text \<open>
  The inbound contract of the specification for the flag-gated receive indications
  (section 4.4, shape 4): byte 0 of the payload is a flag set (bit 0: a 5-byte
  channel-info block ends the payload; bit 1: acknowledged; bit 2: frame pending), the
  application data are the \<open>Length - 1 - 5 * bit0\<close> bytes after the flags, the channel
  info is the last five bytes, and a length too short for the flags and the block is
  rejected as \<open>MalformedPayload\<close>.  \<open>decoded_as\<close> relates a record decoded by the
  code (\<open>rx_indication\<close>) to a record of the contract: the port and the data together
  are the contract's application data, and the channel-info fields are its five bytes.
  The U-Data and MAC-command handlers refine the contract on every envelope it accepts
  whose bytes lie inside the array; the refinement is stated by the relation, as a
  simulation of one decode step.
\<close>

unbundle bit_operations_syntax

section \<open>The contract\<close>

datatype decode_error = UnknownKind byte | MalformedPayload

record flagged_record =
  fr_ack :: bool
  fr_pending :: bool
  fr_body :: "byte list"
  fr_channel :: "byte list option"

definition spec_decode_flagged :: "TWiMOD_HCI_Message \<Rightarrow> decode_error + flagged_record" where
  "spec_decode_flagged m =
     (let p = take (unat (Length m)) (Payload m) in
      if p = [] then Inl MalformedPayload
      else
        (let flags = hd p; trailer = (if bit flags 0 then 5 else 0) in
         if length p < 1 + trailer then Inl MalformedPayload
         else Inr \<lparr>fr_ack = bit flags 1, fr_pending = bit flags 2,
                   fr_body = take (length p - 1 - trailer) (tl p),
                   fr_channel = (if bit flags 0 then Some (drop (length p - 5) p) else None)\<rparr>))"

text \<open>The abstraction of a decoded record.\<close>

definition channel_bytes :: "rx_channel_info \<Rightarrow> byte list" where
  "channel_bytes c = [rx_chn_idx c, rx_dr c, rx_rssi c, rx_snr c, rx_slot c]"

definition port_and_data :: "(byte \<times> byte list) option \<Rightarrow> byte list" where
  "port_and_data pa = (case pa of None \<Rightarrow> [] | Some (port, app) \<Rightarrow> port # app)"

fun decoded_as :: "rx_indication \<Rightarrow> flagged_record \<Rightarrow> bool" where
  "decoded_as (Data_Rx pa act ack pend ci) r \<longleftrightarrow>
     ack = fr_ack r \<and> pend = fr_pending r \<and> port_and_data pa = fr_body r \<and> map_option channel_bytes ci = fr_channel r"
| "decoded_as (MAC_Rx mac ci) r \<longleftrightarrow>
     (case mac of None \<Rightarrow> [] | Some b \<Rightarrow> b) = fr_body r \<and> map_option channel_bytes ci = fr_channel r"
| "decoded_as System_Reset r \<longleftrightarrow> False"

section \<open>Lemmas\<close>

lemma flag_set_bits:
  "flag_set f 0x01 \<longleftrightarrow> bit f 0" "flag_set f 0x02 \<longleftrightarrow> bit f 1" "flag_set f 0x04 \<longleftrightarrow> bit f 2"
  using and_exp_eq_0_iff_not_bit [of f 0] and_exp_eq_0_iff_not_bit [of f 1] and_exp_eq_0_iff_not_bit [of f 2]
  by (simp_all add: flag_set_def)

lemma spec_decode_flagged_Inr:
  assumes "spec_decode_flagged m = Inr r" and "unat (Length m) \<le> length (Payload m)"
  defines "L \<equiv> unat (Length m)" and "f \<equiv> Payload m ! 0"
  defines "t \<equiv> (if bit f 0 then 5 else 0 :: nat)"
  shows "1 + t \<le> L" and "fr_ack r = bit f 1" and "fr_pending r = bit f 2"
    and "fr_body r = take (L - 1 - t) (drop 1 (Payload m))"
    and "fr_channel r = (if bit f 0 then Some (take 5 (drop (L - 5) (Payload m))) else None)"
proof -
  have ne: "take L (Payload m) \<noteq> []" and hd: "hd (take L (Payload m)) = f"
    and len: "length (take L (Payload m)) = L"
    using assms(1,2) by (auto simp: spec_decode_flagged_def L_def f_def Let_def hd_conv_nth split: if_splits)
  from assms(1) ne hd len show "1 + t \<le> L"
    by (auto simp: spec_decode_flagged_def L_def t_def Let_def split: if_splits)
  from assms(1) ne hd len show "fr_ack r = bit f 1" "fr_pending r = bit f 2"
    by (auto simp: spec_decode_flagged_def L_def t_def Let_def split: if_splits)
  from assms(1) ne hd len show "fr_body r = take (L - 1 - t) (drop 1 (Payload m))"
    by (auto simp: spec_decode_flagged_def L_def t_def Let_def drop_take tl_take drop_Suc split: if_splits)
  from assms(1) ne hd len show "fr_channel r = (if bit f 0 then Some (take 5 (drop (L - 5) (Payload m))) else None)"
    by (auto simp: spec_decode_flagged_def L_def t_def Let_def drop_take split: if_splits)
qed

lemma five_elems: "length bs = 5 \<Longrightarrow> [bs ! 0, bs ! 1, bs ! 2, bs ! 3, bs ! 4] = bs"
  by (rule nth_equalityI) (auto simp: less_Suc_eq numeral_eq_Suc)

lemma channel_bytes_of: "length bs = 5 \<Longrightarrow> channel_bytes (channel_info_of bs) = bs"
  using five_elems [of bs] by (simp add: channel_bytes_def channel_info_of_def)

lemma rx_fields:
  assumes spec: "spec_decode_flagged m = Inr r" and fit: "unat (Length m) \<le> length (Payload m)"
  defines "f \<equiv> Payload m ! 0"
  defines "n \<equiv> unat (Length m) - 1 - (if bit f 0 then 5 else 0)"
  shows "rx_payload_size (Length m) f = int n"
    and "buf_get (Payload m) 0 = Inr f"
    and "map_sum id (map_option channel_bytes) (rx_channel_block (Payload m) f (int n)) = Inr (fr_channel r)"
    and "fr_body r = take n (drop 1 (Payload m))"
    and "fr_ack r = flag_set f 0x02" and "fr_pending r = flag_set f 0x04"
    and "n < unat (Length m)"
proof -
  note s = spec_decode_flagged_Inr [OF spec fit, folded f_def]
  show "rx_payload_size (Length m) f = int n"
    using s(1) by (simp add: rx_payload_size_def n_def flag_set_bits split: if_splits)
  show "buf_get (Payload m) 0 = Inr f"
  proof -
    have "0 < length (Payload m)" using s(1) fit by linarith
    then show ?thesis by (simp add: buf_get_def f_def)
  qed
  show "fr_body r = take n (drop 1 (Payload m))" using s(4) by (simp add: n_def)
  show "fr_ack r = flag_set f 0x02" "fr_pending r = flag_set f 0x04" using s(2,3) by (simp_all add: flag_set_bits)
  show "n < unat (Length m)" using s(1) by (simp add: n_def)
  show "map_sum id (map_option channel_bytes) (rx_channel_block (Payload m) f (int n)) = Inr (fr_channel r)"
  proof (cases "bit f 0")
    case True
    have "Suc n = unat (Length m) - 5" "unat (Length m) - 5 + 5 \<le> length (Payload m)"
      using s(1) fit True by (simp_all add: n_def)
    moreover have "nat (1 + int n) = Suc n" by simp
    ultimately have "nat (1 + int n) = unat (Length m) - 5" "unat (Length m) - 5 + 5 \<le> length (Payload m)"
      by simp_all
    then show ?thesis using True s(5)
      by (simp add: rx_channel_block_def flag_set_bits buf_range_def fbind_def channel_bytes_of)
  next
    case False
    then show ?thesis using s(5) by (simp add: rx_channel_block_def flag_set_bits)
  qed
qed


lemma take_drop_Suc_nth: "k < length xs \<Longrightarrow> take (Suc j) (drop k xs) = xs ! k # take j (drop (Suc k) xs)"
  by (simp add: Cons_nth_drop_Suc [symmetric])

lemma rx_channel_ok:
  assumes "map_sum id (map_option channel_bytes) c = Inr x"
  obtains ci where "c = Inr ci" and "map_option channel_bytes ci = x"
  using assms by (cases c) auto

theorem U_DataRx_refines_spec:
  assumes spec: "spec_decode_flagged m = Inr r" and fit: "unat (Length m) < length (Payload m)"
    and port: "fr_body r \<noteq> [] \<Longrightarrow> hd (fr_body r) \<noteq> 99"
  shows "\<exists>x. WiMOD_LoRaWAN_Process_U_DataRxIndication m = Inr x \<and> decoded_as x r"
proof -
  define f where "f = Payload m ! 0"
  define n where "n = unat (Length m) - 1 - (if bit f 0 then 5 else 0)"
  have le: "unat (Length m) \<le> length (Payload m)" using fit by simp
  note F = rx_fields [OF spec le, folded f_def, folded n_def]
  obtain ci where ci: "rx_channel_block (Payload m) f (int n) = Inr ci" "map_option channel_bytes ci = fr_channel r"
    using F(3) by (rule rx_channel_ok)
  show ?thesis
  proof (cases "n = 0")
    case True
    then show ?thesis using F ci
      by (simp add: WiMOD_LoRaWAN_Process_U_DataRxIndication_def Let_def fbind_def port_and_data_def)
  next
    case False
    then obtain j where j: "n = Suc j" by (cases n) auto
    have b1: "buf_get (Payload m) 1 = Inr (Payload m ! 1)" using F(7) j fit by (simp add: buf_get_def)
    have app: "buf_range (Payload m) 2 (nat (int n - 1)) = Inr (take j (drop 2 (Payload m)))"
      using F(7) j fit by (simp add: buf_range_def)
    have fwd: "buf_range (Payload m) 2 (nat (int n)) = Inr (take n (drop 2 (Payload m)))"
      using F(7) fit by (simp add: buf_range_def)
    have body: "fr_body r = Payload m ! 1 # take j (drop 2 (Payload m))"
      using F(4) F(7) j fit take_drop_Suc_nth [of 1 "Payload m" j] by (simp add: numeral_2_eq_2)
    then have p99: "Payload m ! 1 \<noteq> 99" using port by simp
    show ?thesis
      using F(1,2,5,6) ci b1 app fwd body p99 j
      by (cases "Payload m ! 1 = 100") (simp_all add: WiMOD_LoRaWAN_Process_U_DataRxIndication_def Let_def fbind_def port_and_data_def)
  qed
qed

theorem MAC_CMDRx_refines_spec:
  assumes spec: "spec_decode_flagged m = Inr r" and fit: "unat (Length m) \<le> length (Payload m)"
  shows "\<exists>x. WiMOD_LoRaWAN_Process_MAC_CMDRxIndication m = Inr x \<and> decoded_as x r"
proof -
  define f where "f = Payload m ! 0"
  define n where "n = unat (Length m) - 1 - (if bit f 0 then 5 else 0)"
  note F = rx_fields [OF spec fit, folded f_def, folded n_def]
  obtain ci where ci: "rx_channel_block (Payload m) f (int n) = Inr ci" "map_option channel_bytes ci = fr_channel r"
    using F(3) by (rule rx_channel_ok)
  have mac: "buf_range (Payload m) 1 (nat (int n)) = Inr (take n (drop 1 (Payload m)))"
    using F(7) fit by (simp add: buf_range_def)
  show ?thesis
    using F ci mac by (simp add: WiMOD_LoRaWAN_Process_MAC_CMDRxIndication_def Let_def fbind_def)
qed

section \<open>Properties\<close>

text \<open>C40: On every receive indication that the specification's decoder accepts (the length covers the flag byte and, when bit 0 is set, the 5-byte channel block) and whose bytes lie inside the payload array, WiMOD_LoRaWAN_Process_U_DataRxIndication (for a port other than 99, which resets the system) and WiMOD_LoRaWAN_Process_MAC_CMDRxIndication return without undefined behaviour a record with the specified application data and channel info; the U-Data handler also reports the acknowledged and pending flags.\<close>

theorem RxIndications_refine_spec:
  assumes "spec_decode_flagged m = Inr r" and "unat (Length m) < length (Payload m)"
    and "fr_body r \<noteq> [] \<Longrightarrow> hd (fr_body r) \<noteq> 99"
  shows "(\<exists>x. WiMOD_LoRaWAN_Process_U_DataRxIndication m = Inr x \<and> decoded_as x r) \<and>
         (\<exists>x. WiMOD_LoRaWAN_Process_MAC_CMDRxIndication m = Inr x \<and> decoded_as x r)"
  using U_DataRx_refines_spec [OF assms] MAC_CMDRx_refines_spec [OF assms(1)] assms(2) by simp

theorem RxIndications_refine_spec_witness:
  "\<exists>r. spec_decode_flagged \<lparr>Ident = LORAWAN_SAP LORAWAN_MSG_RECV_UDATA_IND, Length = 9,
          Payload = [1, 5, 0xA, 0xB, 1, 2, 3, 4, 5, 0]\<rparr> = Inr r \<and>
       fr_body r = [5, 0xA, 0xB] \<and> fr_channel r = Some [1, 2, 3, 4, 5] \<and>
       (\<exists>x. WiMOD_LoRaWAN_Process_U_DataRxIndication \<lparr>Ident = LORAWAN_SAP LORAWAN_MSG_RECV_UDATA_IND, Length = 9,
          Payload = [1, 5, 0xA, 0xB, 1, 2, 3, 4, 5, 0]\<rparr> = Inr x \<and> decoded_as x r)"
proof -
  let ?m = "\<lparr>Ident = LORAWAN_SAP LORAWAN_MSG_RECV_UDATA_IND, Length = 9, Payload = [1, 5, 0xA, 0xB, 1, 2, 3, 4, 5, 0 :: byte]\<rparr>"
  obtain r where r: "spec_decode_flagged ?m = Inr r" "fr_body r = [5, 0xA, 0xB]" "fr_channel r = Some [1, 2, 3, 4, 5]"
    by (simp add: spec_decode_flagged_def)
  have "unat (Length ?m) < length (Payload ?m)" "fr_body r \<noteq> [] \<Longrightarrow> hd (fr_body r) \<noteq> 99"
    using r(2) by simp_all
  then show ?thesis using RxIndications_refine_spec [OF r(1)] r by blast
qed

end
