(* ===== verification/Dispatch.thy ===== *)
theory Dispatch
  imports LoRaWAN_Indications
begin

text \<open>
  The LoRaWAN-SAP response handlers of \<open>WiMOD_LoRaWAN_API.c\<close>, the LoRaWAN switch
  \<open>WiMOD_LoRaWAN_Process_LoRaWAN_Message\<close>, and the receiver callback
  \<open>WiMOD_LoRaWAN_Process_RxMessage\<close> that routes a received envelope by SAP and then
  by message identifier.  The callback's result is \<open>None\<close> when a handler does not
  return (the C-Data print loop), a fault when a handler reads or writes outside the
  receive buffer, and otherwise the decoded event with the envelope as the handler
  left it.
\<close>

unbundle bit_operations_syntax

section \<open>Response handlers\<close>

record rstack_config =
  rs_data_rate :: byte
  rs_tx_power :: byte
  rs_adaptive_dr :: bool
  rs_duty_cycle :: bool
  rs_class_c :: bool
  rs_extended_format :: bool
  rs_mac_forwarding :: bool
  rs_power_saving :: bool
  rs_retransmissions :: byte
  rs_band_index :: byte
  rs_mac_length :: byte

record nwk_status =
  nwk_device_address :: u32
  nwk_data_rate :: byte
  nwk_power :: byte
  nwk_max_payload :: byte

datatype lorawan_event =
    LoRaWAN_Status lorawan_msg_id byte "string option"
  | LoRaWAN_Reactivate byte "string option" "u32 option"
  | LoRaWAN_Tx lorawan_msg_id tx_indication
  | LoRaWAN_Join_Tx join_tx_indication
  | LoRaWAN_Join join_indication
  | LoRaWAN_Rx lorawan_msg_id rx_indication
  | LoRaWAN_No_Data
  | LoRaWAN_Set_RStack byte "string option" "(bool \<times> bool \<times> bool) option"
  | LoRaWAN_Get_RStack byte "string option" rstack_config
  | LoRaWAN_Bands byte "string option" "(byte \<times> byte) list option"
  | LoRaWAN_Device_EUI byte "string option" "byte list option"
  | LoRaWAN_Custom_Cfg byte "string option" "byte option"
  | LoRaWAN_Nwk_Status byte "string option" "(byte \<times> nwk_status option) option"
  | LoRaWAN_Link_ADR byte "string option" "byte option"
  | LoRaWAN_Unhandled lorawan_msg_id

definition lorawan_show :: "lorawan_msg_id \<Rightarrow> byte list \<Rightarrow> c_fault + lorawan_event" where
  "lorawan_show rsp p = with_status WiMOD_LoRaWAN_StatusStrings p (\<lambda>st lbl. Inr (LoRaWAN_Status rsp st lbl))"

definition WiMOD_LoRaWAN_Process_Reactivate_Rsp :: "byte list \<Rightarrow> c_fault + lorawan_event" where
  "WiMOD_LoRaWAN_Process_Reactivate_Rsp p =
     with_status WiMOD_LoRaWAN_StatusStrings p (\<lambda>st lbl.
       if st = LORAWAN_STATUS_OK
       then fbind (read_le p 1 4) (\<lambda>help. Inr (LoRaWAN_Reactivate st lbl (Some help)))
       else Inr (LoRaWAN_Reactivate st lbl None))"

definition WiMOD_LoRaWAN_Process_Get_LINK_ADR_RSP :: "byte list \<Rightarrow> c_fault + lorawan_event" where
  "WiMOD_LoRaWAN_Process_Get_LINK_ADR_RSP p =
     with_status WiMOD_LoRaWAN_StatusStrings p (\<lambda>st lbl.
       if st = LORAWAN_STATUS_OK
       then fbind (buf_get p 1) (\<lambda>opt. Inr (LoRaWAN_Link_ADR st lbl (Some opt)))
       else Inr (LoRaWAN_Link_ADR st lbl None))"

text \<open>Network status 1, 2, 3 (active ABP, active OTAA, joining) print the address,
  data rate, power and maximum payload size; any other value prints "device
  inactive" and returns.\<close>

definition WiMOD_LoRaWAN_Process_Get_Network_Status_RSP :: "byte list \<Rightarrow> c_fault + lorawan_event" where
  "WiMOD_LoRaWAN_Process_Get_Network_Status_RSP p =
     with_status WiMOD_LoRaWAN_StatusStrings p (\<lambda>st lbl.
       if st = LORAWAN_STATUS_OK
       then fbind (buf_get p 1) (\<lambda>ns.
              if ns = 0x01 \<or> ns = 0x02 \<or> ns = 0x03
              then fbind (read_le p 2 4) (\<lambda>help. fbind (buf_get p 6) (\<lambda>dr.
                     fbind (buf_get p 7) (\<lambda>pw. fbind (buf_get p 8) (\<lambda>mx.
                       Inr (LoRaWAN_Nwk_Status st lbl (Some (ns, Some
                         \<lparr>nwk_device_address = help, nwk_data_rate = dr, nwk_power = pw,
                          nwk_max_payload = mx\<rparr>)))))))
              else Inr (LoRaWAN_Nwk_Status st lbl (Some (ns, None))))
       else Inr (LoRaWAN_Nwk_Status st lbl None))"

definition WiMOD_LoRaWAN_Process_Get_Custom_CFG_RSP :: "byte list \<Rightarrow> c_fault + lorawan_event" where
  "WiMOD_LoRaWAN_Process_Get_Custom_CFG_RSP p =
     with_status WiMOD_LoRaWAN_StatusStrings p (\<lambda>st lbl.
       if st = LORAWAN_STATUS_OK
       then fbind (buf_get p 1) (\<lambda>g. Inr (LoRaWAN_Custom_Cfg st lbl (Some g)))
       else Inr (LoRaWAN_Custom_Cfg st lbl None))"

text \<open>\<open>for (var = 1; var < Length; ++var)\<close> prints \<open>Payload[var]\<close>.\<close>

definition WiMOD_LoRaWAN_Process_Get_Device_EUI_RSP :: "TWiMOD_HCI_Message \<Rightarrow> c_fault + lorawan_event" where
  "WiMOD_LoRaWAN_Process_Get_Device_EUI_RSP m =
     with_status WiMOD_LoRaWAN_StatusStrings (Payload m) (\<lambda>st lbl.
       if st = LORAWAN_STATUS_OK
       then fbind (buf_range (Payload m) 1 (unat (Length m) - 1)) (\<lambda>eui.
              Inr (LoRaWAN_Device_EUI st lbl (Some eui)))
       else Inr (LoRaWAN_Device_EUI st lbl None))"

text \<open>\<open>for (var = 1; var < Length; var += 2)\<close> prints \<open>Payload[var]\<close> and
  \<open>Payload[1 + var]\<close>.\<close>

function support_band_loop :: "byte list \<Rightarrow> nat \<Rightarrow> nat \<Rightarrow> c_fault + (byte \<times> byte) list" where
  "support_band_loop p len var =
     (if var < len
      then fbind (buf_get p (int var)) (\<lambda>idx. fbind (buf_get p (1 + int var)) (\<lambda>eirp.
             fbind (support_band_loop p len (var + 2)) (\<lambda>rest. Inr ((idx, eirp) # rest))))
      else Inr [])"
  by pat_completeness auto
termination
  by (relation "measure (\<lambda>(p, len, var). len - var)") auto

definition WiMOD_LoRaWAN_Process_Get_Support_Band_RSP :: "TWiMOD_HCI_Message \<Rightarrow> c_fault + lorawan_event" where
  "WiMOD_LoRaWAN_Process_Get_Support_Band_RSP m =
     with_status WiMOD_LoRaWAN_StatusStrings (Payload m) (\<lambda>st lbl.
       if st = LORAWAN_STATUS_OK
       then fbind (support_band_loop (Payload m) (unat (Length m)) 1) (\<lambda>bands.
              Inr (LoRaWAN_Bands st lbl (Some bands)))
       else Inr (LoRaWAN_Bands st lbl None))"

definition WiMOD_LoRaWAN_Process_Set_RSTACK_RSP :: "byte list \<Rightarrow> c_fault + lorawan_event" where
  "WiMOD_LoRaWAN_Process_Set_RSTACK_RSP p =
     with_status WiMOD_LoRaWAN_StatusStrings p (\<lambda>st lbl.
       if st = LORAWAN_STATUS_WRONG_PARAMETER
       then fbind (buf_get p 1) (\<lambda>e.
              Inr (LoRaWAN_Set_RStack st lbl (Some (flag_set e 0x01, flag_set e 0x02, flag_set e 0x20))))
       else Inr (LoRaWAN_Set_RStack st lbl None))"

text \<open>\<open>WiMOD_LoRaWAN_Process_Get_RSTACK_RSP\<close> prints the configuration whatever the
  status byte says.\<close>

definition WiMOD_LoRaWAN_Process_Get_RSTACK_RSP :: "byte list \<Rightarrow> c_fault + lorawan_event" where
  "WiMOD_LoRaWAN_Process_Get_RSTACK_RSP p =
     with_status WiMOD_LoRaWAN_StatusStrings p (\<lambda>st lbl.
       fbind (buf_range p 1 7) (\<lambda>c.
         Inr (LoRaWAN_Get_RStack st lbl
           \<lparr>rs_data_rate = c ! 0, rs_tx_power = c ! 1,
            rs_adaptive_dr = flag_set (c ! 2) 0x1, rs_duty_cycle = flag_set (c ! 2) 0x2,
            rs_class_c = flag_set (c ! 2) 0x4, rs_extended_format = flag_set (c ! 2) 0x40,
            rs_mac_forwarding = flag_set (c ! 2) 0x80, rs_power_saving = flag_set (c ! 3) 0x1,
            rs_retransmissions = c ! 4, rs_band_index = c ! 5, rs_mac_length = c ! 6\<rparr>)))"

section \<open>The LoRaWAN switch and the receiver callback\<close>

fun WiMOD_LoRaWAN_Process_LoRaWAN_Message ::
  "lorawan_msg_id \<Rightarrow> TWiMOD_HCI_Message \<Rightarrow> (c_fault + lorawan_event) option" where
  "WiMOD_LoRaWAN_Process_LoRaWAN_Message LORAWAN_MSG_ACTIVATE_DEVICE_RSP m =
     Some (lorawan_show LORAWAN_MSG_ACTIVATE_DEVICE_RSP (Payload m))"
| "WiMOD_LoRaWAN_Process_LoRaWAN_Message LORAWAN_MSG_REACTIVATE_DEVICE_RSP m =
     Some (WiMOD_LoRaWAN_Process_Reactivate_Rsp (Payload m))"
| "WiMOD_LoRaWAN_Process_LoRaWAN_Message LORAWAN_MSG_DEACTIVATE_DEVICE_RSP m =
     Some (lorawan_show LORAWAN_MSG_DEACTIVATE_DEVICE_RSP (Payload m))"
| "WiMOD_LoRaWAN_Process_LoRaWAN_Message LORAWAN_MSG_JOIN_NETWORK_RSP m =
     Some (lorawan_show LORAWAN_MSG_JOIN_NETWORK_RSP (Payload m))"
| "WiMOD_LoRaWAN_Process_LoRaWAN_Message LORAWAN_MSG_SEND_UDATA_RSP m =
     Some (lorawan_show LORAWAN_MSG_SEND_UDATA_RSP (Payload m))"
| "WiMOD_LoRaWAN_Process_LoRaWAN_Message LORAWAN_MSG_SEND_UDATA_IND m =
     Some (fbind (WiMOD_LoRaWAN_Process_U_DATA_TxIndication (Payload m))
             (\<lambda>t. Inr (LoRaWAN_Tx LORAWAN_MSG_SEND_UDATA_IND t)))"
| "WiMOD_LoRaWAN_Process_LoRaWAN_Message LORAWAN_MSG_SEND_CDATA_RSP m =
     Some (lorawan_show LORAWAN_MSG_SEND_CDATA_RSP (Payload m))"
| "WiMOD_LoRaWAN_Process_LoRaWAN_Message LORAWAN_MSG_SEND_CDATA_IND m =
     Some (fbind (WiMOD_LoRaWAN_Process_C_DATA_TxIndication (Payload m))
             (\<lambda>t. Inr (LoRaWAN_Tx LORAWAN_MSG_SEND_CDATA_IND t)))"
| "WiMOD_LoRaWAN_Process_LoRaWAN_Message LORAWAN_MSG_JOIN_TRANSMIT_IND m =
     Some (fbind (WiMOD_LoRaWAN_Process_JoinTxIndication (Payload m)) (\<lambda>t. Inr (LoRaWAN_Join_Tx t)))"
| "WiMOD_LoRaWAN_Process_LoRaWAN_Message LORAWAN_MSG_JOIN_NETWORK_IND m =
     Some (fbind (WiMOD_LoRaWAN_Process_JoinNetworkIndication (Payload m)) (\<lambda>j. Inr (LoRaWAN_Join j)))"
| "WiMOD_LoRaWAN_Process_LoRaWAN_Message LORAWAN_MSG_RECV_UDATA_IND m =
     Some (fbind (WiMOD_LoRaWAN_Process_U_DataRxIndication m)
             (\<lambda>r. Inr (LoRaWAN_Rx LORAWAN_MSG_RECV_UDATA_IND r)))"
| "WiMOD_LoRaWAN_Process_LoRaWAN_Message LORAWAN_MSG_RECV_CDATA_IND m =
     map_option (\<lambda>x. fbind x (\<lambda>r. Inr (LoRaWAN_Rx LORAWAN_MSG_RECV_CDATA_IND r)))
       (WiMOD_LoRaWAN_Process_C_DataRxIndication m)"
| "WiMOD_LoRaWAN_Process_LoRaWAN_Message LORAWAN_MSG_SEND_MAC_CMD_RSP m =
     Some (lorawan_show LORAWAN_MSG_SEND_MAC_CMD_RSP (Payload m))"
| "WiMOD_LoRaWAN_Process_LoRaWAN_Message LORAWAN_MSG_RECV_MAC_CMD_IND m =
     Some (fbind (WiMOD_LoRaWAN_Process_MAC_CMDRxIndication m)
             (\<lambda>r. Inr (LoRaWAN_Rx LORAWAN_MSG_RECV_MAC_CMD_IND r)))"
| "WiMOD_LoRaWAN_Process_LoRaWAN_Message LORAWAN_MSG_RECV_NODATA_IND m = Some (Inr LoRaWAN_No_Data)"
| "WiMOD_LoRaWAN_Process_LoRaWAN_Message LORAWAN_MSG_SET_RSTACK_CONFIG_RSP m =
     Some (WiMOD_LoRaWAN_Process_Set_RSTACK_RSP (Payload m))"
| "WiMOD_LoRaWAN_Process_LoRaWAN_Message LORAWAN_MSG_GET_RSTACK_CONFIG_RSP m =
     Some (WiMOD_LoRaWAN_Process_Get_RSTACK_RSP (Payload m))"
| "WiMOD_LoRaWAN_Process_LoRaWAN_Message LORAWAN_MSG_GET_SUPPORTED_BANDS_RSP m =
     Some (WiMOD_LoRaWAN_Process_Get_Support_Band_RSP m)"
| "WiMOD_LoRaWAN_Process_LoRaWAN_Message LORAWAN_MSG_GET_DEVICE_EUI_RSP m =
     Some (WiMOD_LoRaWAN_Process_Get_Device_EUI_RSP m)"
| "WiMOD_LoRaWAN_Process_LoRaWAN_Message LORAWAN_MSG_GET_CUSTOM_CFG_RSP m =
     Some (WiMOD_LoRaWAN_Process_Get_Custom_CFG_RSP (Payload m))"
| "WiMOD_LoRaWAN_Process_LoRaWAN_Message LORAWAN_MSG_SET_CUSTOM_CFG_RSP m =
     Some (lorawan_show LORAWAN_MSG_SET_CUSTOM_CFG_RSP (Payload m))"
| "WiMOD_LoRaWAN_Process_LoRaWAN_Message LORAWAN_MSG_FACTORY_RESET_RSP m =
     Some (lorawan_show LORAWAN_MSG_FACTORY_RESET_RSP (Payload m))"
| "WiMOD_LoRaWAN_Process_LoRaWAN_Message LORAWAN_MSG_GET_NWK_STATUS_RSP m =
     Some (WiMOD_LoRaWAN_Process_Get_Network_Status_RSP (Payload m))"
| "WiMOD_LoRaWAN_Process_LoRaWAN_Message LORAWAN_MSG_GET_LINKADRREQ_CONFIG_RSP m =
     Some (WiMOD_LoRaWAN_Process_Get_LINK_ADR_RSP (Payload m))"
| "WiMOD_LoRaWAN_Process_LoRaWAN_Message LORAWAN_MSG_SET_LINKADRREQ_CONFIG_RSP m =
     Some (lorawan_show LORAWAN_MSG_SET_LINKADRREQ_CONFIG_RSP (Payload m))"
| "WiMOD_LoRaWAN_Process_LoRaWAN_Message msg m = Some (Inr (LoRaWAN_Unhandled msg))"

datatype rx_event =
    DevMgmt_Event devmgmt_event
  | LoRaWAN_Event lorawan_event
  | Ignored_SAP byte byte

text \<open>\<open>WiMOD_LoRaWAN_Process_RxMessage\<close>: the switch on \<open>SapID\<close> has no default, so
  an envelope of another SAP is ignored.\<close>

fun WiMOD_LoRaWAN_Process_RxMessage ::
  "TWiMOD_HCI_Message \<Rightarrow> (c_fault + (rx_event \<times> TWiMOD_HCI_Message)) option" where
  "WiMOD_LoRaWAN_Process_RxMessage m =
     (case Ident m of
        DEVMGMT_SAP msg \<Rightarrow>
          Some (fbind (WiMOD_LoRaWAN_Process_DevMgmt_Message msg m) (\<lambda>(e, m'). Inr (DevMgmt_Event e, m')))
      | LORAWAN_SAP msg \<Rightarrow>
          map_option (\<lambda>r. fbind r (\<lambda>e. Inr (LoRaWAN_Event e, m)))
            (WiMOD_LoRaWAN_Process_LoRaWAN_Message msg m)
      | Other_SAP sap msg \<Rightarrow> Some (Inr (Ignored_SAP sap msg, m)))"

section \<open>Lemmas\<close>

lemma with_status_LoRaWAN:
  "0 < length p \<Longrightarrow>
   with_status WiMOD_LoRaWAN_StatusStrings p k =
     k (p ! 0) (map_of (table_entries WiMOD_LoRaWAN_StatusStrings) (p ! 0))"
  by (simp add: with_status_def ShowResponse_map_of)

lemma Process_LoRaWAN_Message_returns:
  "msg \<noteq> LORAWAN_MSG_RECV_CDATA_IND \<Longrightarrow> WiMOD_LoRaWAN_Process_LoRaWAN_Message msg m \<noteq> None"
  by (cases msg) simp_all

section \<open>Properties\<close>

text \<open>WiMOD_LoRaWAN_Process_RxMessage ignores a message of either SAP whose identifier its switch does not list: no fault, the message unchanged.\<close>

theorem Process_RxMessage_unknown_kind:
  "WiMOD_LoRaWAN_Process_RxMessage (m\<lparr>Ident := DEVMGMT_SAP (DEVMGMT_MSG_Other b)\<rparr>) =
     Some (Inr (DevMgmt_Event (DevMgmt_Unhandled (DEVMGMT_MSG_Other b)), m\<lparr>Ident := DEVMGMT_SAP (DEVMGMT_MSG_Other b)\<rparr>)) \<and>
   WiMOD_LoRaWAN_Process_RxMessage (m\<lparr>Ident := LORAWAN_SAP (LORAWAN_MSG_Other b)\<rparr>) =
     Some (Inr (LoRaWAN_Event (LoRaWAN_Unhandled (LORAWAN_MSG_Other b)), m\<lparr>Ident := LORAWAN_SAP (LORAWAN_MSG_Other b)\<rparr>))"
  by simp

text \<open>C28: WiMOD_LoRaWAN_Process_Get_RSTACK_RSP decodes the radio-stack configuration from the payload whatever the status byte says, errors included.\<close>

theorem Get_RSTACK_ignores_status:
  "8 \<le> length p \<Longrightarrow>
   \<exists>lbl c. WiMOD_LoRaWAN_Process_Get_RSTACK_RSP p = Inr (LoRaWAN_Get_RStack (p ! 0) lbl c) \<and>
     rs_data_rate c = p ! 1 \<and> rs_tx_power c = p ! 2 \<and> rs_band_index c = p ! 6"
proof -
  assume len: "8 \<le> length p"
  have "0 < length p" using len by linarith
  moreover have "nat 1 + 7 \<le> length p" using len by simp
  ultimately show ?thesis
    by (simp add: WiMOD_LoRaWAN_Process_Get_RSTACK_RSP_def with_status_LoRaWAN numeral_2_eq_2)
qed

theorem Get_RSTACK_ignores_status_witness:
  "8 \<le> length [1, 5, 16, 0xC6, 1, 7, 0x12, 15 :: byte] \<and>
   (\<exists>lbl c. WiMOD_LoRaWAN_Process_Get_RSTACK_RSP [1, 5, 16, 0xC6, 1, 7, 0x12, 15] =
       Inr (LoRaWAN_Get_RStack 1 lbl c) \<and> rs_data_rate c = 5 \<and> rs_tx_power c = 16 \<and> rs_band_index c = 0x12)"
  using Get_RSTACK_ignores_status [of "[1, 5, 16, 0xC6, 1, 7, 0x12, 15]"] by simp

text \<open>The receiver callback WiMOD_LoRaWAN_Process_RxMessage returns on every message other than a C-Data indication: every handler it reaches through the two switches, and the switches themselves on identifiers they do not list, end (with a decoded event, a print of the unknown identifier, or a fault value); only the C-Data print loop may run forever.\<close>

theorem Process_RxMessage_returns:
  "Ident m \<noteq> LORAWAN_SAP LORAWAN_MSG_RECV_CDATA_IND \<Longrightarrow> \<exists>r. WiMOD_LoRaWAN_Process_RxMessage m = Some r"
  using Process_LoRaWAN_Message_returns by (cases "Ident m") auto

theorem Process_RxMessage_returns_witness:
  "\<exists>r. WiMOD_LoRaWAN_Process_RxMessage
         \<lparr>Ident = LORAWAN_SAP LORAWAN_MSG_RECV_UDATA_IND, Length = 4, Payload = [0, 7, 1, 2, 3]\<rparr> = Some r"
  using Process_RxMessage_returns [of "\<lparr>Ident = LORAWAN_SAP LORAWAN_MSG_RECV_UDATA_IND, Length = 4, Payload = [0, 7, 1, 2, 3]\<rparr>"]
  by simp

end
