(* ===== verification/Driver.thy ===== *)
theory Driver
  imports Encoder Dispatch
begin

text \<open>
  Start-up and polling of the driver (\<open>WiMOD_LoRaWAN_Init\<close> and
  \<open>WiMOD_LoRaWAN_Process\<close>): both only call the HCI layer, which is not part of the
  sources.  Its two entry points are the fields of the interface \<open>hci_layer\<close>:
  \<open>WiMOD_HCI_Init\<close> receives the port, the receiver callback and the receive
  envelope, and \<open>WiMOD_HCI_Process\<close> is whatever one polling step of the HCI layer
  does.  The callback the driver registers is the model's
  \<open>WiMOD_LoRaWAN_Process_RxMessage\<close>, so what the HCI layer may call on a received
  frame is exactly the decoder of the Dispatch theory.
\<close>

type_synonym rx_callback = "TWiMOD_HCI_Message \<Rightarrow> (c_fault + (rx_event \<times> TWiMOD_HCI_Message)) option"

record ('port, 'p) hci_layer =
  WiMOD_HCI_Init :: "'port \<Rightarrow> rx_callback \<Rightarrow> TWiMOD_HCI_Message \<Rightarrow> bool"
  WiMOD_HCI_Process :: 'p

text \<open>\<open>WiMOD_LoRaWAN_Init(comPort)\<close>: \<open>WiMOD_HCI_Init(comPort, WiMOD_LoRaWAN_Process_RxMessage, &RxMessage)\<close>.\<close>

definition WiMOD_LoRaWAN_Init :: "('port, 'p) hci_layer \<Rightarrow> 'port \<Rightarrow> wimod_state \<Rightarrow> bool" where
  "WiMOD_LoRaWAN_Init hci comPort s = WiMOD_HCI_Init hci comPort WiMOD_LoRaWAN_Process_RxMessage (RxMessage s)"

text \<open>\<open>WiMOD_LoRaWAN_Process()\<close>: \<open>WiMOD_HCI_Process()\<close>.\<close>

definition WiMOD_LoRaWAN_Process :: "('port, 'p) hci_layer \<Rightarrow> 'p" where
  "WiMOD_LoRaWAN_Process hci = WiMOD_HCI_Process hci"

end
