(* ===== verification/Serial_Helpers.thy ===== *)
theory Serial_Helpers
  imports Prelude
begin

text \<open>
  The console helpers of \<open>SerialDevice.c\<close>: \<open>str2num\<close> (a NUL-terminated decimal
  string to a \<open>uint32_t\<close>), \<open>num2str\<close> (a \<open>uint32_t\<close> to a decimal string of at most
  seven digits) and \<open>num2hex\<close> (a \<open>uint32_t\<close> to 1, 2, 4 or 8 upper-case hex digits).
  Strings are the byte arrays the functions read or write; the counters keep their C
  widths (\<open>uint8_t digit\<close>, \<open>uint8_t k\<close>) and the arithmetic is \<open>uint32_t\<close>.
  The reference definitions \<open>dec_string\<close>, \<open>dec_value\<close> and \<open>hex_value\<close> are the
  usual positional notation; the lemmas relate the code to them.
\<close>

section \<open>str2num\<close>

text \<open>
  The scan \<open>while (str[digit] != '\0')\<close>, with \<open>digit\<close> a \<open>uint8_t\<close>: the result is
  \<open>Some digit\<close> at the terminator and \<open>None\<close> at the first byte that is not a digit
  (the \<open>return RESET\<close>).  Past 255 the counter wraps to 0, so on 256 digits the loop
  never ends: a \<open>partial_function\<close>.
\<close>

definition is_digit :: "byte \<Rightarrow> bool" where
  "is_digit c \<longleftrightarrow> 48 \<le> c \<and> c \<le> 57"

partial_function (option) str2num_scan :: "byte list \<Rightarrow> byte \<Rightarrow> (c_fault + byte option) option" where
  "str2num_scan str digit =
     (case buf_get str (uint digit) of
        Inl f \<Rightarrow> Some (Inl f)
      | Inr c \<Rightarrow>
          if c = 0 then Some (Inr (Some digit))
          else if is_digit c then str2num_scan str (digit + 1)
          else Some (Inr None))"

text \<open>
  The \<open>do \<dots> while (digit)\<close> loop: \<open>TxtStr_digit = str[--digit]\<close>,
  \<open>number += (TxtStr_digit - '0') * tenpwr\<close> (an \<open>int\<close> converted to
  \<open>uint32_t\<close>), \<open>tenpwr *= 10\<close>.  The pre-decrement of \<open>digit = 0\<close> gives 255.
\<close>

function str2num_acc :: "byte list \<Rightarrow> byte \<Rightarrow> u32 \<Rightarrow> u32 \<Rightarrow> c_fault + u32" where
  "str2num_acc str digit tenpwr number =
     (let digit = digit - 1 in
      fbind (buf_get str (uint digit)) (\<lambda>TxtStr_digit.
        let number = number + word_of_int (uint TxtStr_digit - 48) * tenpwr;
            tenpwr = tenpwr * 10
        in if digit \<noteq> 0 then str2num_acc str digit tenpwr number else Inr number))"
  by pat_completeness auto
termination
  by (relation "measure (\<lambda>(_, d, _, _). unat (d - 1))")
     (auto simp: Let_def word_minus_two_less)

declare str2num_scan.simps [code]

text \<open>\<open>str2num(str, pnum)\<close>: the flag (\<open>SET\<close> as \<open>True\<close>) and the value written to
  \<open>*pnum\<close>.\<close>

definition str2num :: "byte list \<Rightarrow> (c_fault + bool \<times> u32) option" where
  "str2num str =
     map_option (\<lambda>r. fbind r (\<lambda>scan. case scan of
         None \<Rightarrow> Inr (False, 0)
       | Some digit \<Rightarrow> fbind (str2num_acc str digit 1 0) (\<lambda>number. Inr (True, number))))
       (str2num_scan str 0)"

section \<open>num2str\<close>

text \<open>\<open>while (!(nbr / divisor)) divisor /= 10;\<close>\<close>

function num2str_scale :: "u32 \<Rightarrow> u32 \<Rightarrow> c_fault + u32" where
  "num2str_scale nbr divisor =
     (if divisor = 0 then Inl Division_By_Zero
      else if nbr div divisor = 0 then num2str_scale nbr (divisor div 10)
      else Inr divisor)"
  by pat_completeness auto
termination
  by (relation "measure (\<lambda>(_, d). unat d)") (auto simp: unat_div word_neq_0_conv unat_gt_0)

text \<open>
  \<open>while (divisor >= 10) { k = nbr / divisor; *pstrbuff++ = '0' + k;
  nbr = nbr - (k * divisor); divisor /= 10; }\<close> with \<open>k\<close> a \<open>uint8_t\<close>: the
  characters written and the final \<open>nbr\<close>.
\<close>

function num2str_loop :: "u32 \<Rightarrow> u32 \<Rightarrow> byte list \<times> u32" where
  "num2str_loop nbr divisor =
     (if 10 \<le> divisor then
        let k = (ucast (nbr div divisor) :: byte);
            r = num2str_loop (nbr - ucast k * divisor) (divisor div 10)
        in ((48 + k) # fst r, snd r)
      else ([], nbr))"
  by pat_completeness auto
termination
  by (relation "measure (\<lambda>(_, d). unat d)") (auto simp: unat_div word_le_nat_alt)

text \<open>
  \<open>num2str(nbr, str)\<close>: clear \<open>str[0..6]\<close>, write the leading digits, then
  \<open>'0' + nbr\<close> and the terminator.  The result is the array after the writes.
\<close>

definition num2str :: "u32 \<Rightarrow> byte list \<Rightarrow> c_fault + byte list" where
  "num2str nbr str =
     fbind (memcpy_into str 0 (replicate 7 0) 7) (\<lambda>str.
     fbind (if nbr \<noteq> 0 then fbind (num2str_scale nbr 1000000) (\<lambda>divisor. Inr (num2str_loop nbr divisor))
            else Inr ([], nbr)) (\<lambda>r.
       let w = fst r @ [48 + ucast (snd r), 0] in memcpy_into str 0 w (length w)))"

section \<open>num2hex\<close>

datatype eHexFormat = HALFBYTE_F | BYTE_F | WORD_F | DOUBLEWORD_F

fun hex_digits :: "eHexFormat \<Rightarrow> nat" where
  "hex_digits HALFBYTE_F = 1"
| "hex_digits BYTE_F = 2"
| "hex_digits WORD_F = 4"
| "hex_digits DOUBLEWORD_F = 8"

definition hex_char :: "byte \<Rightarrow> byte" where
  "hex_char dummy = (if dummy < 0x0A then dummy + 48 else (dummy - 0x0A) + 65)"

text \<open>
  \<open>num2hex(num, HexFormat)\<close>: digit \<open>i\<close> is
  \<open>(num & (0x0F << s)) >> s\<close> with \<open>s = (HexDigits - 1 - i) * 4\<close>, stored in the
  \<open>uint8_t dummy\<close>; the static buffer \<open>HexValue\<close> holds the digits and a NUL.
\<close>

definition num2hex :: "u32 \<Rightarrow> eHexFormat \<Rightarrow> byte list" where
  "num2hex num HexFormat =
     (let HexDigits = hex_digits HexFormat in
      map (\<lambda>i. let s = (HexDigits - 1 - i) * 4 in
                 hex_char (ucast (drop_bit s (num AND push_bit s 0x0F))))
          [0..<HexDigits] @ [0])"

section \<open>Reference notation\<close>

text \<open>The decimal digits of a number, most significant first, as characters.\<close>

fun dec_string :: "nat \<Rightarrow> byte list" where
  "dec_string n = (if n < 10 then [of_nat (48 + n)] else dec_string (n div 10) @ [of_nat (48 + n mod 10)])"

definition dec_value :: "byte list \<Rightarrow> nat" where
  "dec_value cs = foldl (\<lambda>acc c. 10 * acc + (unat c - 48)) 0 cs"

text \<open>The value of one upper-case hex digit character.\<close>

definition hex_digit_value :: "byte \<Rightarrow> nat" where
  "hex_digit_value c = (if c < 65 then unat c - 48 else unat c - 55)"

definition hex_value :: "byte list \<Rightarrow> nat" where
  "hex_value cs = foldl (\<lambda>acc c. 16 * acc + hex_digit_value c) 0 cs"

section \<open>Lemmas\<close>

declare dec_string.simps [simp del]

text \<open>Positional notation read most significant digit first.\<close>

lemma foldl_positional:
  fixes b a :: nat
  shows "foldl (\<lambda>acc c. b * acc + g c) a cs = a * b ^ length cs + foldl (\<lambda>acc c. b * acc + g c) 0 cs"
proof (induction cs arbitrary: a)
  case Nil
  then show ?case by simp
next
  case (Cons c cs)
  have "foldl (\<lambda>acc c. b * acc + g c) (b * a + g c) cs =
          (b * a + g c) * b ^ length cs + foldl (\<lambda>acc c. b * acc + g c) 0 cs"
    by (rule Cons.IH)
  moreover have "foldl (\<lambda>acc c. b * acc + g c) (g c) cs =
          g c * b ^ length cs + foldl (\<lambda>acc c. b * acc + g c) 0 cs"
    by (rule Cons.IH)
  ultimately show ?case by (simp add: algebra_simps)
qed

lemma dec_value_append [simp]:
  "dec_value (xs @ ys) = dec_value xs * 10 ^ length ys + dec_value ys"
  unfolding dec_value_def by (simp add: foldl_positional [where a = "foldl _ 0 xs"])

lemma dec_value_single [simp]: "dec_value [c] = unat c - 48"
  by (simp add: dec_value_def)

lemma dec_value_Cons: "dec_value (c # cs) = (unat c - 48) * 10 ^ length cs + dec_value cs"
  using dec_value_append [of "[c]" cs] by simp

lemma is_digit_nonzero: "is_digit c \<Longrightarrow> c \<noteq> 0"
  by (auto simp: is_digit_def)


lemma is_digit_ucast:
  assumes "is_digit c"
  shows "(ucast c :: u32) = 48 + of_nat (unat c - 48)"
proof -
  have "48 \<le> unat c" using assms by (simp add: is_digit_def word_le_nat_alt)
  have "(ucast c :: u32) = of_nat (unat c)" by (simp add: of_nat_unat)
  also have "unat c = 48 + (unat c - 48)" using \<open>48 \<le> unat c\<close> by simp
  finally show ?thesis by simp
qed

text \<open>The scan stops at the first byte after a run of digits that is not a digit.\<close>

lemma str2num_scan_digits:
  assumes "\<forall>c \<in> set ds. is_digit c" and "\<not> is_digit c" and "length ds < 256" and "i \<le> length ds"
  shows "str2num_scan (ds @ c # rest) (of_nat i) =
           Some (Inr (if c = 0 then Some (of_nat (length ds)) else None))"
  using assms(4)
proof (induction "length ds - i" arbitrary: i)
  case 0
  then have "i = length ds" by simp
  then show ?case using assms(2,3)
    by (subst str2num_scan.simps) (simp add: buf_get_def unat_of_nat uint_nat nth_append)
next
  case (Suc k)
  then have i: "i < length ds" and k: "k = length ds - Suc i" by simp_all
  then have "is_digit (ds ! i)" using assms(1) by simp
  moreover have "uint (of_nat i :: byte) = int i" using i assms(3) by (simp add: uint_nat unat_of_nat)
  moreover have "(of_nat i :: byte) + 1 = of_nat (Suc i)" by simp
  ultimately show ?case using Suc.hyps(1) [OF k] i
    by (subst str2num_scan.simps) (simp add: buf_get_def nth_append is_digit_nonzero add.commute)
qed

text \<open>The accumulation from the last digit before the terminator down to the first.\<close>

lemma dec_value_take_Suc:
  "d < length ds \<Longrightarrow> dec_value (take (Suc d) ds) = dec_value (take d ds) * 10 + (unat (ds ! d) - 48)"
  by (simp add: take_Suc_conv_app_nth)

lemma str2num_acc_digits:
  assumes "\<forall>c \<in> set ds. is_digit c" and "length ds < 256" and "0 < d" and "d \<le> length ds"
  shows "str2num_acc (ds @ 0 # rest) (of_nat d) t n = Inr (n + t * of_nat (dec_value (take d ds)))"
  using assms(3,4)
proof (induction d arbitrary: t n)
  case 0
  then show ?case by simp
next
  case (Suc d)
  have dl: "d < length ds" using Suc.prems by simp
  have dig: "is_digit (ds ! d)" using assms(1) dl by simp
  have u: "uint (of_nat d :: byte) = int d" using dl assms(2) by (simp add: uint_nat unat_of_nat)
  have get: "buf_get (ds @ 0 # rest) (uint (of_nat (Suc d) - 1 :: byte)) = Inr (ds ! d)"
    using u dl by (simp add: buf_get_def nth_append)
  let ?v = "of_nat (unat (ds ! d) - 48) :: u32"
  show ?case
  proof (cases d)
    case 0
    have "dec_value (take (Suc 0) ds) = unat (ds ! 0) - 48"
      using dl 0 by (simp add: take_Suc_conv_app_nth)
    then show ?thesis using get dig 0
      by (subst str2num_acc.simps) (simp add: Let_def is_digit_ucast algebra_simps del: str2num_acc.simps)
  next
    case (Suc d')
    have "unat (of_nat d :: byte) = d" using dl assms(2) by (simp add: unat_of_nat)
    then have nz: "(of_nat d :: byte) \<noteq> 0" using Suc by (metis nat.distinct(1) unat_0)
    have IH: "str2num_acc (ds @ 0 # rest) (of_nat d) (t * 10) (n + ?v * t) =
                Inr (n + ?v * t + t * 10 * of_nat (dec_value (take d ds)))"
      using Suc.IH [of "t * 10" "n + ?v * t"] Suc dl by simp
    have "n + ?v * t + t * 10 * of_nat (dec_value (take d ds)) =
            n + t * of_nat (dec_value (take (Suc d) ds))"
      using dl by (simp add: dec_value_take_Suc algebra_simps)
    then show ?thesis using get dig nz IH
      by (subst str2num_acc.simps) (simp add: Let_def is_digit_ucast del: str2num_acc.simps)
  qed
qed

lemma zero_not_digit [simp]: "\<not> is_digit 0"
  by (simp add: is_digit_def)

lemma str2num_digits:
  assumes "\<forall>c \<in> set ds. is_digit c" and "0 < length ds" and "length ds < 256"
  shows "str2num (ds @ 0 # rest) = Some (Inr (True, of_nat (dec_value ds)))"
proof -
  have "str2num_scan (ds @ 0 # rest) (of_nat 0) = Some (Inr (Some (of_nat (length ds))))"
    using str2num_scan_digits [OF assms(1) zero_not_digit assms(3), of 0] by simp
  moreover have "str2num_acc (ds @ 0 # rest) (of_nat (length ds)) 1 0 = Inr (of_nat (dec_value ds))"
    using str2num_acc_digits [OF assms(1,3,2), of rest 1 0] by simp
  ultimately show ?thesis by (simp add: str2num_def del: str2num_acc.simps)
qed

lemma unat_ucast_down: "unat (w :: u32) < 256 \<Longrightarrow> unat (ucast w :: byte) = unat w"
  by (simp add: unsigned_ucast_eq take_bit_eq_mod)

lemma unat_ucast_up: "unat (ucast (b :: byte) :: u32) = unat b"
proof -
  have "unat b < 256" using unsigned_less [of b] by simp
  then show ?thesis by (simp add: unsigned_ucast_eq take_bit_eq_mod)
qed

lemma is_digit_unat: "is_digit c \<longleftrightarrow> 48 \<le> unat c \<and> unat c \<le> 57"
  by (simp add: is_digit_def word_le_nat_alt)

lemma div_mod_ten: "(n div (10 * D)) * D + (n mod (10 * D)) div 10 = (n div 10 :: nat)"
proof -
  have "n div (10 * D) = n div 10 div D" by (simp add: div_mult2_eq)
  moreover have "n mod (10 * D) div 10 = n div 10 mod D"
    by (simp add: mod_mult2_eq)
  ultimately show ?thesis by simp
qed

lemma num2str_loop_digits:
  assumes "unat divisor = 10 ^ k" and "unat nbr < 10 * 10 ^ k"
  shows "\<exists>cs. num2str_loop nbr divisor = (cs, nbr mod 10) \<and> length cs = k \<and>
           (\<forall>c \<in> set cs. is_digit c) \<and> dec_value cs = unat nbr div 10 \<and>
           (cs \<noteq> [] \<longrightarrow> unat (hd cs) = 48 + unat nbr div 10 ^ k)"
  using assms
proof (induction k arbitrary: nbr divisor)
  case 0
  then have "\<not> 10 \<le> divisor" by (simp add: word_le_nat_alt)
  moreover have "nbr mod 10 = nbr"
    using 0 by (simp add: word_unat_eq_iff unat_mod)
  moreover have "unat nbr div 10 = 0" using 0 by simp
  ultimately show ?case by (simp add: dec_value_def)
next
  case (Suc k)
  let ?n = "unat nbr" and ?D = "10 ^ k :: nat"
  have ge: "10 \<le> divisor" using Suc.prems(1) by (simp add: word_le_nat_alt)
  have qd: "unat (nbr div divisor) = ?n div (10 * ?D)" using Suc.prems(1) by (simp add: unat_div)
  have q10: "?n div (10 * ?D) < 10" using Suc.prems(2) by (simp add: div_less_iff_less_mult)
  define q where "q = (ucast (nbr div divisor) :: byte)"
  have uq: "unat q = ?n div (10 * ?D)" using qd q10 by (simp add: q_def unat_ucast_down)
  have le: "unat (ucast q :: u32) * unat divisor \<le> ?n"
    using Suc.prems(1) uq by (simp add: unat_ucast_up div_times_less_eq_dividend times_div_less_eq_dividend)
  have nlt: "unat nbr < 2 ^ LENGTH(32)" by (rule unsigned_less)
  have "unat (ucast q :: u32) * unat divisor < 2 ^ LENGTH(32)" using le_less_trans [OF le nlt] .
  then have mul: "unat (ucast q * divisor) = ?n div (10 * ?D) * (10 * ?D)"
    using Suc.prems(1) uq by (simp add: unat_mult_lem [THEN iffD1] unat_ucast_up)
  have sub: "unat (nbr - ucast q * divisor) = ?n mod (10 * ?D)"
  proof -
    have "ucast q * divisor \<le> nbr" using le mul uq Suc.prems(1) by (simp add: word_le_nat_alt unat_ucast_up)
    then show ?thesis using mul by (simp add: unat_sub minus_div_mult_eq_mod)
  qed
  have dv: "unat (divisor div 10) = ?D" using Suc.prems(1) by (simp add: unat_div)
  obtain cs where IH: "num2str_loop (nbr - ucast q * divisor) (divisor div 10) =
        (cs, (nbr - ucast q * divisor) mod 10)" "length cs = k" "\<forall>c \<in> set cs. is_digit c"
      "dec_value cs = ?n mod (10 * ?D) div 10"
  proof -
    have "unat (nbr - ucast q * divisor) < 10 * ?D" using sub by simp
    from Suc.IH [OF dv this] sub show ?thesis using that by (auto simp del: num2str_loop.simps)
  qed
  have m10: "(nbr - ucast q * divisor) mod 10 = nbr mod 10"
  proof -
    have "?n mod (10 * ?D) mod 10 = ?n mod 10" by (simp add: mod_mod_cancel)
    then show ?thesis using sub by (simp add: word_unat_eq_iff unat_mod)
  qed
  have u48: "unat (48 + q) = 48 + unat q" using uq q10 by (simp add: unat_add_lem [THEN iffD1])
  have "num2str_loop nbr divisor = ((48 + q) # cs, nbr mod 10)"
    using ge IH(1) m10 by (subst num2str_loop.simps) (simp add: Let_def q_def del: num2str_loop.simps)
  moreover have "is_digit (48 + q)" using u48 uq q10 by (simp add: is_digit_unat)
  moreover have "dec_value ((48 + q) # cs) = ?n div 10"
    using u48 uq IH(2,4) div_mod_ten [of ?n ?D] by (simp add: dec_value_Cons)
  ultimately show ?case using IH(2,3) u48 uq by (intro exI [of _ "(48 + q) # cs"]) simp
qed

lemma num2str_scale_pow:
  assumes "unat divisor = 10 ^ j" and "0 < unat nbr" and "unat nbr < 10 * 10 ^ j"
  shows "\<exists>k \<le> j. \<exists>d. num2str_scale nbr divisor = Inr d \<and> unat d = 10 ^ k \<and>
           10 ^ k \<le> unat nbr \<and> unat nbr < 10 * 10 ^ k"
  using assms(1,3)
proof (induction j arbitrary: divisor)
  case 0
  then have "divisor = 1" by (simp add: word_unat_eq_iff)
  moreover have "nbr \<noteq> 0" using assms(2) by (auto simp: unat_gt_0)
  ultimately show ?case using assms(2) 0 by simp
next
  case (Suc j)
  have nz: "divisor \<noteq> 0" using Suc.prems(1) by (auto simp: word_unat_eq_iff)
  show ?case
  proof (cases "nbr div divisor = 0")
    case True
    then have "unat nbr < 10 * 10 ^ j"
      using Suc.prems(1) by (simp add: word_unat_eq_iff unat_div div_eq_0_iff)
    moreover have "unat (divisor div 10) = 10 ^ j" using Suc.prems(1) by (simp add: unat_div)
    ultimately obtain k d where "k \<le> j" "num2str_scale nbr (divisor div 10) = Inr d"
        "unat d = 10 ^ k" "10 ^ k \<le> unat nbr" "unat nbr < 10 * 10 ^ k"
      using Suc.IH by blast
    then show ?thesis using nz True by (intro exI [of _ k]) (simp del: num2str_scale.simps add: num2str_scale.simps [of nbr divisor])
  next
    case False
    then have "10 ^ Suc j \<le> unat nbr"
      using Suc.prems(1) by (simp add: word_unat_eq_iff unat_div div_eq_0_iff)
    then show ?thesis using nz False Suc.prems
      by (intro exI [of _ "Suc j"]) (simp del: num2str_scale.simps add: num2str_scale.simps [of nbr divisor])
  qed
qed

lemma num2str_writes_digits:
  assumes "unat nbr < 10 ^ 7" and "8 \<le> length str"
  shows "\<exists>ds. num2str nbr str = Inr (ds @ 0 # drop (Suc (length ds)) (replicate 7 0 @ drop 7 str)) \<and>
           (\<forall>c \<in> set ds. is_digit c) \<and> 0 < length ds \<and> length ds \<le> 7 \<and>
           dec_value ds = unat nbr \<and> (1 < length ds \<longrightarrow> hd ds \<noteq> 48)"
proof -
  let ?s1 = "replicate 7 0 @ drop 7 str"
  have reset: "memcpy_into str 0 (replicate 7 (0 :: byte)) 7 = Inr ?s1"
    using assms(2) by (simp add: memcpy_into_def)
  have len1: "length ?s1 = length str" using assms(2) by simp
  show ?thesis
  proof (cases "nbr = 0")
    case True
    have "num2str nbr str = Inr ([48] @ 0 # drop (Suc (length [48 :: byte])) ?s1)"
      using True reset len1 assms(2) by (simp add: num2str_def memcpy_into_def)
    then show ?thesis using True by (intro exI [of _ "[48]"]) (simp add: is_digit_def)
  next
    case False
    then have pos: "0 < unat nbr" by (simp add: unat_gt_0)
    obtain k d where k: "k \<le> 6" and sc: "num2str_scale nbr 1000000 = Inr d" and ud: "unat d = 10 ^ k"
        and lo: "10 ^ k \<le> unat nbr" and hi: "unat nbr < 10 * 10 ^ k"
      using num2str_scale_pow [of 1000000 6 nbr] pos assms(1) by auto
    obtain cs where lp: "num2str_loop nbr d = (cs, nbr mod 10)" and lc: "length cs = k"
        and dg: "\<forall>c \<in> set cs. is_digit c" and dv: "dec_value cs = unat nbr div 10"
        and hd: "cs \<noteq> [] \<longrightarrow> unat (hd cs) = 48 + unat nbr div 10 ^ k"
      using num2str_loop_digits [OF ud hi] by blast
    define last where "last = 48 + (ucast (nbr mod 10) :: byte)"
    have ul: "unat last = 48 + unat nbr mod 10"
    proof -
      have "unat (nbr mod 10) < 256" by (simp add: unat_mod)
      then have "unat (ucast (nbr mod 10) :: byte) = unat nbr mod 10" by (simp add: unat_ucast_down unat_mod)
      then show ?thesis by (simp add: last_def unat_add_lem [THEN iffD1])
    qed
    let ?ds = "cs @ [last]"
    have "num2str nbr str = Inr (?ds @ 0 # drop (Suc (length ?ds)) ?s1)"
      using False reset sc lp lc k len1 assms(2)
      by (simp add: num2str_def memcpy_into_def last_def del: num2str_scale.simps num2str_loop.simps)
    moreover have "is_digit last" using ul by (simp add: is_digit_unat)
    moreover have "dec_value ?ds = unat nbr" using dv ul by simp
    moreover have "1 < length ?ds \<longrightarrow> hd ?ds \<noteq> 48"
    proof
      assume "1 < length ?ds"
      then have "cs \<noteq> []" by simp
      moreover have "0 < unat nbr div 10 ^ k" using lo by (simp add: div_greater_zero_iff)
      ultimately have "unat (hd cs) \<noteq> 48" using hd by simp
      then show "hd ?ds \<noteq> 48" using \<open>cs \<noteq> []\<close> by auto
    qed
    ultimately show ?thesis using dg lc k by (intro exI [of _ ?ds]) simp
  qed
qed


lemma hex_value_Cons: "hex_value (c # cs) = hex_digit_value c * 16 ^ length cs + hex_value cs"
  unfolding hex_value_def by (simp add: foldl_positional [where a = "hex_digit_value c"])

lemma nibble_unat:
  "unat (ucast (drop_bit (i * 4) (num AND push_bit (i * 4) 0x0F)) :: byte) = unat (num :: u32) div 16 ^ i mod 16"
proof -
  have "drop_bit (i * 4) (num AND push_bit (i * 4) 0x0F) = take_bit 4 (drop_bit (i * 4) num)"
  proof -
    have m: "(0x0F :: u32) = mask 4" by (simp add: mask_eq_exp_minus_1)
    show ?thesis by (rule bit_word_eqI) (auto simp: m bit_simps dest: bit_imp_le_length)
  qed
  moreover have "unat (take_bit 4 (drop_bit (i * 4) num)) = unat num div 16 ^ i mod 16"
  proof -
    have p: "(2::nat) ^ (i * 4) = 16 ^ i" by (subst mult.commute) (simp add: power_mult)
    show ?thesis
      by (simp only: unsigned_take_bit_eq unat_drop_bit_eq) (simp add: take_bit_eq_mod drop_bit_eq_div p)
  qed
  moreover have "unat num div 16 ^ i mod 16 < 256" by simp
  ultimately show ?thesis by (simp add: unsigned_ucast_eq take_bit_eq_mod)
qed

lemma hex_char_value:
  assumes "unat d < 16"
  shows "hex_digit_value (hex_char d) = unat d"
proof (cases "d < 0x0A")
  case True
  then have "unat d < 10" by (simp add: word_less_nat_alt)
  then have "unat (hex_char d) = unat d + 48" using True by (simp add: hex_char_def unat_add_lem [THEN iffD1])
  then show ?thesis using \<open>unat d < 10\<close> by (simp add: hex_digit_value_def word_less_nat_alt)
next
  case False
  then have ge: "10 \<le> unat d" by (simp add: word_less_nat_alt)
  have "unat (d - 0x0A) = unat d - 10" using False by (simp add: unat_sub word_le_nat_alt word_less_nat_alt)
  then have "unat (hex_char d) = unat d + 55"
    using False ge assms by (simp add: hex_char_def unat_add_lem [THEN iffD1])
  then show ?thesis using ge by (simp add: hex_digit_value_def word_less_nat_alt)
qed

lemma hex_value_msb_first:
  assumes "\<forall>j < n. hex_digit_value (h j) = x div 16 ^ j mod 16"
  shows "hex_value (map (\<lambda>i. h (n - 1 - i)) [0..<n]) = x mod 16 ^ n"
  using assms
proof (induction n)
  case 0
  then show ?case by (simp add: hex_value_def)
next
  case (Suc n)
  have "[0..<Suc n] = 0 # map Suc [0..<n]" by (simp add: upt_conv_Cons map_Suc_upt)
  then have "hex_value (map (\<lambda>i. h (Suc n - 1 - i)) [0..<Suc n]) =
               hex_digit_value (h n) * 16 ^ n + hex_value (map (\<lambda>i. h (n - 1 - i)) [0..<n])"
    by (simp add: hex_value_Cons comp_def)
  also have "\<dots> = x div 16 ^ n mod 16 * 16 ^ n + x mod 16 ^ n" using Suc by simp
  also have "\<dots> = x mod 16 ^ Suc n"
  proof -
    have "x mod 16 ^ Suc n = 16 ^ n * (x div 16 ^ n mod 16) + x mod 16 ^ n"
      by (simp only: power_Suc2 mod_mult2_eq)
    then show ?thesis by (simp add: algebra_simps)
  qed
  finally show ?case .
qed

lemma dec_value_digit_less: "is_digit c \<Longrightarrow> unat c - 48 < 10"
  unfolding is_digit_unat by arith

lemma dec_value_hd_le: "unat c - 48 \<le> dec_value (c # cs)"
proof -
  have "unat c - 48 \<le> (unat c - 48) * 10 ^ length cs" by simp
  then show ?thesis unfolding dec_value_Cons by linarith
qed

lemma word_of_digit:
  assumes "is_digit c"
  shows "48 + (of_nat (unat c - 48) :: byte) = c"
proof -
  have e: "unat c = 48 + (unat c - 48)" using assms by (simp add: is_digit_unat)
  have "(of_nat (48 + (unat c - 48)) :: byte) = of_nat (unat c)" using e [symmetric] by (rule arg_cong)
  then show ?thesis by simp
qed

lemma dec_string_unique:
  assumes "\<forall>c \<in> set ds. is_digit c" and "ds \<noteq> []" and "1 < length ds \<longrightarrow> hd ds \<noteq> 48"
  shows "dec_string (dec_value ds) = ds"
  using assms
proof (induction ds rule: rev_induct)
  case Nil
  then show ?case by simp
next
  case (snoc x xs)
  have dx: "is_digit x" using snoc.prems(1) by simp
  have val: "dec_value (xs @ [x]) = dec_value xs * 10 + (unat x - 48)" by simp
  show ?case
  proof (cases "xs = []")
    case True
    then show ?thesis using dx dec_value_digit_less [OF dx]
      by (subst dec_string.simps) (simp add: word_of_digit)
  next
    case False
    have hx: "hd xs \<noteq> 48" using snoc.prems(3) False by simp
    have dxs: "\<forall>c \<in> set xs. is_digit c" using snoc.prems(1) by simp
    have IH: "dec_string (dec_value xs) = xs"
      using snoc.IH [OF dxs False] hx by simp
    obtain c cs where xs: "xs = c # cs" using False by (cases xs) auto
    have "1 \<le> unat c - 48" using hx dxs xs by (auto simp: is_digit_unat word_unat_eq_iff)
    then have "1 \<le> dec_value xs" using dec_value_hd_le [of c cs] xs by simp
    then have "\<not> dec_value (xs @ [x]) < 10" using val by simp
    moreover have "dec_value (xs @ [x]) div 10 = dec_value xs" and "dec_value (xs @ [x]) mod 10 = unat x - 48"
      using val dec_value_digit_less [OF dx] by simp_all
    ultimately show ?thesis using IH dx
      by (subst dec_string.simps) (simp add: word_of_digit)
  qed
qed

section \<open>Properties\<close>

text \<open>C30: num2str followed by str2num gives back every number of at most seven decimal digits: the string num2str writes into an array of at least 8 bytes is read by str2num as the same uint32_t, with the flag SET.\<close>

theorem num2str_str2num_roundtrip:
  assumes "unat nbr < 10 ^ 7" and "8 \<le> length str"
  shows "\<exists>str'. num2str nbr str = Inr str' \<and> str2num str' = Some (Inr (True, nbr))"
proof -
  obtain ds where w: "num2str nbr str = Inr (ds @ 0 # drop (Suc (length ds)) (replicate 7 0 @ drop 7 str))"
      and d: "\<forall>c \<in> set ds. is_digit c" "0 < length ds" "length ds \<le> 7" "dec_value ds = unat nbr"
    using num2str_writes_digits [OF assms] by blast
  have "str2num (ds @ 0 # drop (Suc (length ds)) (replicate 7 0 @ drop 7 str)) = Some (Inr (True, nbr))"
    using str2num_digits [OF d(1,2)] d(3,4) by simp
  then show ?thesis using w by blast
qed

theorem num2str_str2num_roundtrip_witness:
  "unat (1234567 :: u32) < 10 ^ 7 \<and> 8 \<le> length (replicate 8 (0 :: byte)) \<and>
   (\<exists>str'. num2str 1234567 (replicate 8 0) = Inr str' \<and> str2num str' = Some (Inr (True, 1234567)))"
  using num2str_str2num_roundtrip [of 1234567 "replicate 8 0"] by simp

text \<open>C31: For a number of at most seven digits, num2str writes exactly its decimal representation (dec_string, most significant digit first, no leading zeros) followed by the terminator, and leaves the rest of the cleared 7-byte prefix zero.\<close>

theorem num2str_eq_dec_string:
  assumes "unat nbr < 10 ^ 7" and "8 \<le> length str"
  shows "num2str nbr str =
           Inr (dec_string (unat nbr) @ 0 # drop (Suc (length (dec_string (unat nbr)))) (replicate 7 0 @ drop 7 str))"
proof -
  obtain ds where w: "num2str nbr str = Inr (ds @ 0 # drop (Suc (length ds)) (replicate 7 0 @ drop 7 str))"
      and d: "\<forall>c \<in> set ds. is_digit c" "0 < length ds" "dec_value ds = unat nbr" "1 < length ds \<longrightarrow> hd ds \<noteq> 48"
    using num2str_writes_digits [OF assms] by blast
  have "dec_string (unat nbr) = ds" using dec_string_unique [of ds] d by simp
  then show ?thesis using w by simp
qed

theorem num2str_eq_dec_string_witness:
  "unat (205 :: u32) < 10 ^ 7 \<and> 8 \<le> length (replicate 8 (0xFF :: byte)) \<and>
   num2str 205 (replicate 8 0xFF) = Inr [50, 48, 53, 0, 0, 0, 0, 0xFF]"
proof -
  have "dec_string 205 = [50, 48, 53]" by code_simp
  then show ?thesis using num2str_eq_dec_string [of 205 "replicate 8 0xFF"] by (simp add: numeral_3_eq_3)
qed

text \<open>C32: str2num does not return on an array whose first 256 bytes are digits: its uint8_t index wraps from 255 to 0 and the scan for the terminator starts over.\<close>

theorem str2num_never_returns:
  assumes "256 \<le> length str" and "\<forall>i < 256. is_digit (str ! i)"
  shows "str2num str = None"
proof -
  have "\<not> (256 \<le> length str \<and> (\<forall>i < 256. is_digit (str ! i)))"
    if "str2num_scan str d = Some r" for d r
  proof (rule str2num_scan.raw_induct
      [where P = "\<lambda>str d r. \<not> (256 \<le> length str \<and> (\<forall>i < 256. is_digit (str ! i)))", OF _ that])
    fix f str r and d :: byte
    assume IH: "\<And>str d r. f str d = Some r \<Longrightarrow> \<not> (256 \<le> length str \<and> (\<forall>i < 256. is_digit (str ! i)))"
      and eq: "(case buf_get str (uint d) of Inl f \<Rightarrow> Some (Inl f)
                | Inr c \<Rightarrow> if c = 0 then Some (Inr (Some d))
                           else if is_digit c then f str (d + 1) else Some (Inr None)) = Some r"
    show "\<not> (256 \<le> length str \<and> (\<forall>i < 256. is_digit (str ! i)))"
    proof
      assume c: "256 \<le> length str \<and> (\<forall>i < 256. is_digit (str ! i))"
      have lt: "unat d < 256" using unsigned_less [of d] by simp
      have "uint d < 256" using unsigned_less [of d] by simp
      then have "buf_get str (uint d) = Inr (str ! unat d)" using c by (simp add: buf_get_def)
      moreover have "is_digit (str ! unat d)" using c lt by simp
      ultimately have "f str (d + 1) = Some r" using eq by (simp add: is_digit_nonzero)
      then show False using IH c by blast
    qed
  qed
  with assms have "str2num_scan str 0 = None" by (cases "str2num_scan str 0") auto
  then show ?thesis by (simp add: str2num_def)
qed

theorem str2num_never_returns_witness:
  "256 \<le> length (replicate 256 (0x31 :: byte)) \<and> str2num (replicate 256 0x31) = None"
proof -
  have "\<forall>i < 256. is_digit (replicate 256 (0x31 :: byte) ! i)" by (simp add: is_digit_def)
  then show ?thesis using str2num_never_returns [of "replicate 256 0x31"] by simp
qed

text \<open>C33: str2num on the empty string pre-decrements its uint8_t index from 0 to 255 and reads str[255], beyond every array shorter than 256 bytes (the console line buffer has 64).\<close>

theorem str2num_empty_overread:
  assumes "0 < length str" and "length str < 256" and "str ! 0 = 0"
  shows "str2num str = Some (Inl Read_Out_Of_Bounds)"
proof -
  have "str2num_scan str 0 = Some (Inr (Some 0))"
    using assms by (subst str2num_scan.simps) (simp add: buf_get_def)
  moreover have "str2num_acc str 0 1 0 = Inl Read_Out_Of_Bounds"
  proof -
    have m: "(- 1 :: byte) = 255" by simp
    have "uint (- 1 :: byte) = 255" by (subst m) simp
    then show ?thesis
      using assms(2) by (subst str2num_acc.simps) (simp add: buf_get_def Let_def del: str2num_acc.simps)
  qed
  ultimately show ?thesis by (simp add: str2num_def del: str2num_acc.simps)
qed

theorem str2num_empty_overread_witness:
  "0 < length (replicate 64 (0 :: byte)) \<and> length (replicate 64 (0 :: byte)) < 256 \<and>
   replicate 64 (0 :: byte) ! 0 = 0 \<and> str2num (replicate 64 0) = Some (Inl Read_Out_Of_Bounds)"
  using str2num_empty_overread [of "replicate 64 0"] by simp

text \<open>C34: str2num returns RESET and writes 0 to *pnum when a byte before the terminator is not a decimal digit.\<close>

theorem str2num_rejects:
  assumes "\<forall>c \<in> set ds. is_digit c" and "\<not> is_digit c" and "c \<noteq> 0" and "length ds < 256"
  shows "str2num (ds @ c # rest) = Some (Inr (False, 0))"
  using str2num_scan_digits [OF assms(1,2,4), of 0 rest] assms(3) by (simp add: str2num_def)

theorem str2num_rejects_witness:
  "\<not> is_digit (0x41 :: byte) \<and> length [0x31, 0x32 :: byte] < 256 \<and>
   str2num [0x31, 0x32, 0x41, 0] = Some (Inr (False, 0))"
proof -
  have "\<forall>c \<in> set [0x31, 0x32 :: byte]. is_digit c" by (simp add: is_digit_def)
  then show ?thesis using str2num_rejects [of "[0x31, 0x32]" "0x41" "[0]"] by (simp add: is_digit_def)
qed

text \<open>num2str misprints a number of eight digits: for 12345678 the uint8_t quotient 12 becomes the character 0x3C, and str2num rejects the result.\<close>

theorem num2str_eight_digits:
  "num2str 12345678 (replicate 8 0) = Inr [60, 51, 52, 53, 54, 55, 56, 0] \<and>
   str2num [60, 51, 52, 53, 54, 55, 56, 0] = Some (Inr (False, 0))"
by code_simp

text \<open>C35: num2hex writes the low 4 * HexDigits bits of its argument: read back as upper-case hex, its digits are the number modulo 16 ^ HexDigits.\<close>

theorem num2hex_value: "hex_value (butlast (num2hex num f)) = unat num mod 16 ^ hex_digits f"
proof -
  let ?h = "\<lambda>j. hex_char (ucast (drop_bit (j * 4) (num AND push_bit (j * 4) 0x0F)))"
  have "\<forall>j < hex_digits f. hex_digit_value (?h j) = unat num div 16 ^ j mod 16"
    using hex_char_value nibble_unat by simp
  then show ?thesis using hex_value_msb_first [of "hex_digits f" ?h "unat num"]
    by (simp add: num2hex_def Let_def)
qed

text \<open>C36: num2hex returns HexDigits characters, each 0-9 or A-F, and a terminating NUL.\<close>

theorem num2hex_chars:
  "length (num2hex num f) = hex_digits f + 1 \<and> last (num2hex num f) = 0 \<and>
   (\<forall>c \<in> set (butlast (num2hex num f)). (48 \<le> c \<and> c \<le> 57) \<or> (65 \<le> c \<and> c \<le> 70))"
proof -
  have "(48 \<le> hex_char d \<and> hex_char d \<le> 57) \<or> (65 \<le> hex_char d \<and> hex_char d \<le> 70)" if "unat d < 16" for d
  proof (cases "d < 0x0A")
    case True
    then have "unat d < 10" by (simp add: word_less_nat_alt)
    then show ?thesis using True by (simp add: hex_char_def word_le_nat_alt unat_add_lem [THEN iffD1])
  next
    case False
    then have "10 \<le> unat d" by (simp add: word_less_nat_alt)
    moreover have "unat (d - 0x0A) = unat d - 10" using False by (simp add: unat_sub word_le_nat_alt word_less_nat_alt)
    ultimately show ?thesis using False that by (simp add: hex_char_def word_le_nat_alt unat_add_lem [THEN iffD1])
  qed
  then show ?thesis using nibble_unat by (auto simp: num2hex_def Let_def)
qed

theorem num2hex_chars_witness:
  "length (num2hex 0x2AB BYTE_F) = 3 \<and> last (num2hex 0x2AB BYTE_F) = 0 \<and>
   list_all (\<lambda>c. (48 \<le> c \<and> c \<le> 57) \<or> (65 \<le> c \<and> c \<le> 70)) (butlast (num2hex 0x2AB BYTE_F))"
  using num2hex_chars [of "0x2AB" BYTE_F] by (simp add: list_all_iff)

end
