(* ===== verification/Serial_Device.thy ===== *)
theory Serial_Device
  imports Prelude
begin

text \<open>
  The serial device driver of \<open>SerialDevice.c\<close> as it is compiled for the STM32 (the
  branches without \<open>Q_OS_WIN\<close>): \<open>SerialDevice_Open\<close>, \<open>SerialDevice_Close\<close>,
  \<open>SerialDevice_SendData\<close>, \<open>SerialDevice_SendByte\<close>, \<open>SerialDevice_ReadData\<close>,
  \<open>USART_Transmit\<close> and the interrupt-side \<open>USART_ITCharManager\<close>.
  The driver's globals are the fields of \<open>serial_state\<close>: the handle pointer
  \<open>hWiModUart\<close>, the UART handle objects it may point to (a store indexed by address,
  since the caller's \<open>huart\<close> object is shared with the HAL), the byte objects a receive
  pointer may point into (among them the one-byte global \<open>UsartTextString\<close>), and the
  byte strings handed to \<open>HAL_UART_Transmit\<close>, in order.
  The STM32 HAL is not part of the sources: its functions are the fields of the
  interface \<open>stm32_hal\<close>, each returning its status and the updated handle, and
  of \<open>Error_Handler\<close> (of the application's \<open>main.c\<close>, which does not touch the
  driver's globals) only whether it returns.  \<open>HAL_UART_DeInit\<close> checks its
  argument for NULL; \<open>HAL_UART_Transmit\<close> dereferences it.  The status register
  flag \<open>RXNE\<close> that the interrupt handler polls is hardware: the model reads it from
  a sequence of polls.
\<close>

section \<open>Handles, memory and the HAL interface\<close>

datatype 'a ptr = NULL | Ptr 'a

datatype hal_status = HAL_OK | HAL_ERROR | HAL_BUSY | HAL_TIMEOUT

datatype uart_gstate =
    HAL_UART_STATE_RESET | HAL_UART_STATE_READY | HAL_UART_STATE_BUSY
  | HAL_UART_STATE_BUSY_TX | HAL_UART_STATE_BUSY_RX | HAL_UART_STATE_BUSY_TX_RX
  | HAL_UART_STATE_TIMEOUT | HAL_UART_STATE_ERROR

datatype uart_instance = USART6 | UART_Other nat

datatype uart_mode = UART_MODE_RX | UART_MODE_TX | UART_MODE_TX_RX

datatype uart_hwcontrol = UART_HWCONTROL_NONE | UART_HWCONTROL_RTS | UART_HWCONTROL_CTS | UART_HWCONTROL_RTS_CTS

datatype uart_oversampling = UART_OVERSAMPLING_16 | UART_OVERSAMPLING_8

datatype uart_stopbits = UART_STOPBITS_1 | UART_STOPBITS_2

record UART_InitTypeDef =
  BaudRate :: u32
  WordLength :: u32
  StopBits :: uart_stopbits
  Parity :: u32
  Mode :: uart_mode
  HwFlowCtl :: uart_hwcontrol
  OverSampling :: uart_oversampling

text \<open>The byte objects a receive pointer may point into.\<close>

datatype region = UsartTextString_Object | Caller_Buffer nat

text \<open>
  The fields of \<open>UART_HandleTypeDef\<close> the driver reads or writes; \<open>RXNEIE\<close>, \<open>PEIE\<close>
  and \<open>EIE\<close> are the interrupt enables that \<open>__HAL_UART_DISABLE_IT\<close> clears.
\<close>

record UART_HandleTypeDef =
  Instance :: uart_instance
  Init :: UART_InitTypeDef
  pRxBuffPtr :: "region \<times> int"
  RxXferCount :: u16
  gState :: uart_gstate
  RXNEIE :: bool
  PEIE :: bool
  EIE :: bool

record serial_state =
  hWiModUart :: "nat ptr"
  uarts :: "nat \<Rightarrow> UART_HandleTypeDef"
  mem :: "region \<Rightarrow> byte list"
  uart_tx :: "byte list list"

text \<open>
  The globals at reset: \<open>static UART_HandleTypeDef *hWiModUart\<close> is NULL and
  \<open>uint8_t UsartTextString\<close> is a one-byte object holding 0; the handle objects and
  the other byte objects are the application's.
\<close>

definition serial_initial_state ::
  "(nat \<Rightarrow> UART_HandleTypeDef) \<Rightarrow> (region \<Rightarrow> byte list) \<Rightarrow> serial_state" where
  "serial_initial_state handles objects =
     \<lparr>hWiModUart = NULL, uarts = handles, mem = objects(UsartTextString_Object := [0]), uart_tx = []\<rparr>"

record stm32_hal =
  HAL_UART_Init :: "UART_HandleTypeDef \<Rightarrow> hal_status \<times> UART_HandleTypeDef"
  HAL_UART_DeInit :: "UART_HandleTypeDef \<Rightarrow> hal_status \<times> UART_HandleTypeDef"
  HAL_UART_Receive_IT :: "UART_HandleTypeDef \<Rightarrow> region \<times> int \<Rightarrow> u16 \<Rightarrow> hal_status \<times> UART_HandleTypeDef"
  HAL_UART_Transmit :: "UART_HandleTypeDef \<Rightarrow> byte list \<Rightarrow> u16 \<Rightarrow> u32 \<Rightarrow> hal_status \<times> UART_HandleTypeDef"
  Error_Handler_returns :: bool

section \<open>Transmit, close and open\<close>

text \<open>
  \<open>USART_Transmit(huart, data, len)\<close> is \<open>HAL_UART_Transmit(huart, data, len, 500)\<close>;
  the HAL's \<open>Size\<close> is a \<open>uint16_t\<close>, so the \<open>size_t\<close> length (32 bits on the target)
  is converted to its low 16 bits, and the HAL reads that many bytes of \<open>data\<close>.
\<close>

definition USART_Transmit ::
  "stm32_hal \<Rightarrow> nat ptr \<Rightarrow> byte list \<Rightarrow> u32 \<Rightarrow> serial_state \<Rightarrow> c_fault + hal_status \<times> serial_state" where
  "USART_Transmit hal huart data len s =
     (case huart of
        NULL \<Rightarrow> Inl Null_Dereference
      | Ptr h \<Rightarrow>
          (let size = (ucast len :: u16) in
           fbind (buf_range data 0 (unat size))
             (\<lambda>bytes. let (st, u) = HAL_UART_Transmit hal (uarts s h) bytes size 500
                      in Inr (st, s\<lparr>uarts := (uarts s)(h := u), uart_tx := uart_tx s @ [bytes]\<rparr>))))"

text \<open>\<open>SerialDevice_Close\<close>: \<open>HAL_UART_DeInit(hWiModUart)\<close>, then \<open>return false\<close>.\<close>

definition SerialDevice_Close :: "stm32_hal \<Rightarrow> serial_state \<Rightarrow> bool \<times> serial_state" where
  "SerialDevice_Close hal s =
     (case hWiModUart s of
        NULL \<Rightarrow> (False, s)
      | Ptr h \<Rightarrow> (False, s\<lparr>uarts := (uarts s)(h := snd (HAL_UART_DeInit hal (uarts s h)))\<rparr>))"

text \<open>
  \<open>SerialDevice_Open(huart, baudRate, dataBits, parity)\<close>: a non-NULL \<open>huart\<close> becomes
  \<open>hWiModUart\<close>; the handle is configured for USART6; when \<open>HAL_UART_Init\<close> succeeds a
  one-byte interrupt reception into \<open>UsartTextString\<close> is started (its status is
  ignored) and the result is \<open>true\<close>; otherwise the device is closed, \<open>Error_Handler\<close>
  is called and, if it returns, the result is \<open>false\<close>.
\<close>

definition uart_configure :: "u32 \<Rightarrow> int \<Rightarrow> byte \<Rightarrow> UART_HandleTypeDef \<Rightarrow> UART_HandleTypeDef" where
  "uart_configure baudRate dataBits parity u =
     u\<lparr>Instance := USART6,
       Init := (Init u)\<lparr>Mode := UART_MODE_TX_RX, HwFlowCtl := UART_HWCONTROL_NONE,
                        OverSampling := UART_OVERSAMPLING_16, BaudRate := baudRate,
                        WordLength := word_of_int dataBits, StopBits := UART_STOPBITS_1,
                        Parity := ucast parity\<rparr>\<rparr>"

definition SerialDevice_Open ::
  "stm32_hal \<Rightarrow> nat ptr \<Rightarrow> u32 \<Rightarrow> int \<Rightarrow> byte \<Rightarrow> serial_state \<Rightarrow> (c_fault + bool \<times> serial_state) option" where
  "SerialDevice_Open hal huart baudRate dataBits parity s =
     (let s = (if huart \<noteq> NULL then s\<lparr>hWiModUart := huart\<rparr> else s) in
      case hWiModUart s of
        NULL \<Rightarrow> Some (Inl Null_Dereference)
      | Ptr h \<Rightarrow>
          (let (st, u) = HAL_UART_Init hal (uart_configure baudRate dataBits parity (uarts s h)) in
           if st = HAL_OK
           then Some (Inr (True, s\<lparr>uarts := (uarts s)(h := snd (HAL_UART_Receive_IT hal u (UsartTextString_Object, 0) 1))\<rparr>))
           else if Error_Handler_returns hal
           then Some (Inr (False, snd (SerialDevice_Close hal (s\<lparr>uarts := (uarts s)(h := u)\<rparr>))))
           else None))"

section \<open>Send and read\<close>

text \<open>
  \<open>SerialDevice_SendData(txBuffer, txLength)\<close> returns \<open>txLength\<close>, converted to \<open>int\<close>,
  whenever \<open>USART_Transmit\<close> does not return \<open>HAL_ERROR\<close>, and \<open>-1\<close> otherwise.
\<close>

definition SerialDevice_SendData ::
  "stm32_hal \<Rightarrow> byte list \<Rightarrow> u32 \<Rightarrow> serial_state \<Rightarrow> c_fault + int \<times> serial_state" where
  "SerialDevice_SendData hal txBuffer txLength s =
     fbind (USART_Transmit hal (hWiModUart s) txBuffer txLength s)
       (\<lambda>(st, s'). Inr (if st \<noteq> HAL_ERROR then sint txLength else -1, s'))"

definition SerialDevice_SendByte :: "stm32_hal \<Rightarrow> byte \<Rightarrow> serial_state \<Rightarrow> c_fault + int \<times> serial_state" where
  "SerialDevice_SendByte hal txByte s =
     fbind (USART_Transmit hal (hWiModUart s) [txByte] 1 s)
       (\<lambda>(st, s'). Inr (if st \<noteq> HAL_ERROR then 1 else -1, s'))"

text \<open>
  \<open>SerialDevice_ReadData(rxBuffer, rxBufferSize)\<close>: \<open>*rxBuffer = UsartTextString\<close>,
  then \<open>rxBufferSize = 1\<close> and \<open>return rxBufferSize\<close>; the size argument is not read.
  The result is the returned count and the caller's buffer.
\<close>

definition SerialDevice_ReadData :: "byte list \<Rightarrow> u32 \<Rightarrow> serial_state \<Rightarrow> c_fault + int \<times> byte list" where
  "SerialDevice_ReadData rxBuffer rxBufferSize s =
     fbind (buf_get (mem s UsartTextString_Object) 0)
       (\<lambda>c. fbind (buf_set rxBuffer 0 c) (\<lambda>buf. Inr (1, buf)))"

section \<open>The character interrupt\<close>

text \<open>
  \<open>while (HAL_IS_BIT_SET(huart->Instance->SR, UART_FLAG_RXNE)) {}\<close>: \<open>rxne n\<close> is the
  flag at the \<open>n\<close>-th poll; the loop ends at the first poll that sees it clear.
\<close>

partial_function (option) rxne_wait :: "(nat \<Rightarrow> bool) \<Rightarrow> nat \<Rightarrow> nat option" where
  "rxne_wait rxne n = (if rxne n then rxne_wait rxne (Suc n) else Some n)"

declare rxne_wait.simps [code]

text \<open>
  The end of reception in \<open>USART_ITCharManager(huart)\<close>, when one byte is left
  (\<open>RxXferCount == 1\<close>) or the byte in the data register \<open>dr\<close> is a carriage return:
  step the count up and the pointer back, write a NUL there, echo \<open>"\r\n"\<close>, wait
  for \<open>RXNE\<close> to clear, disable the receive interrupt, and leave the state
  \<open>BUSY_TX\<close> if a transmission is ongoing, \<open>READY\<close> with the error interrupts off
  otherwise.
\<close>

definition uart_rx_finish :: "UART_HandleTypeDef \<Rightarrow> UART_HandleTypeDef" where
  "uart_rx_finish u =
     (let u = u\<lparr>RXNEIE := False\<rparr> in
      if gState u = HAL_UART_STATE_BUSY_TX_RX then u\<lparr>gState := HAL_UART_STATE_BUSY_TX\<rparr>
      else u\<lparr>PEIE := False, EIE := False, gState := HAL_UART_STATE_READY\<rparr>)"

definition USART_ITCharManager ::
  "stm32_hal \<Rightarrow> nat ptr \<Rightarrow> u32 \<Rightarrow> (nat \<Rightarrow> bool) \<Rightarrow> serial_state \<Rightarrow> (c_fault + serial_state) option" where
  "USART_ITCharManager hal huart dr rxne s =
     (case huart of
        NULL \<Rightarrow> Some (Inl Null_Dereference)
      | Ptr h \<Rightarrow>
          (let c = (ucast dr :: byte); u = uarts s h in
           if RxXferCount u = 1 \<or> c = 13 then
             (let (r, i) = pRxBuffPtr u;
                  u = u\<lparr>RxXferCount := RxXferCount u + 1, pRxBuffPtr := (r, i - 1)\<rparr> in
              case buf_set (mem s r) (i - 1) 0 of
                Inl f \<Rightarrow> Some (Inl f)
              | Inr b \<Rightarrow>
                  (case USART_Transmit hal huart [13, 10, 0] 2 (s\<lparr>uarts := (uarts s)(h := u), mem := (mem s)(r := b)\<rparr>) of
                     Inl f \<Rightarrow> Some (Inl f)
                   | Inr (_, s) \<Rightarrow>
                       map_option (\<lambda>_. Inr (s\<lparr>uarts := (uarts s)(h := uart_rx_finish (uarts s h))\<rparr>))
                         (rxne_wait rxne 0)))
           else Some (Inr s)))"

section \<open>The driver as an event system\<close>

text \<open>
  The calls the application and the HCI layer make and the character interrupt, as
  events of one step relation; a call that faults or does not return has no step.
\<close>

datatype serial_event =
    Ev_Open "nat ptr" u32 int byte
  | Ev_Close
  | Ev_SendData "byte list" u32
  | Ev_SendByte byte
  | Ev_ReadData "byte list" u32
  | Ev_CharIRQ "nat ptr" u32 "nat \<Rightarrow> bool"

inductive serial_step :: "stm32_hal \<Rightarrow> serial_state \<Rightarrow> serial_event \<Rightarrow> serial_state \<Rightarrow> bool"
  for hal where
  open_step: "SerialDevice_Open hal huart b d p s = Some (Inr (r, s')) \<Longrightarrow> serial_step hal s (Ev_Open huart b d p) s'"
| close_step: "SerialDevice_Close hal s = (r, s') \<Longrightarrow> serial_step hal s Ev_Close s'"
| send_step: "SerialDevice_SendData hal buf n s = Inr (r, s') \<Longrightarrow> serial_step hal s (Ev_SendData buf n) s'"
| byte_step: "SerialDevice_SendByte hal c s = Inr (r, s') \<Longrightarrow> serial_step hal s (Ev_SendByte c) s'"
| read_step: "SerialDevice_ReadData buf n s = Inr (r, buf') \<Longrightarrow> serial_step hal s (Ev_ReadData buf n) s"
| irq_step: "USART_ITCharManager hal huart dr rxne s = Some (Inr s') \<Longrightarrow> serial_step hal s (Ev_CharIRQ huart dr rxne) s'"

inductive serial_reach :: "stm32_hal \<Rightarrow> serial_state \<Rightarrow> serial_state \<Rightarrow> bool" for hal s0 where
  reach_init: "serial_reach hal s0 s0"
| reach_step: "serial_reach hal s0 s \<Longrightarrow> serial_step hal s e s' \<Longrightarrow> serial_reach hal s0 s'"

inductive_cases serial_step_cases: "serial_step hal s e s'"

text \<open>The driver's byte objects keep their sizes; in particular \<open>UsartTextString\<close> is one byte.\<close>

definition serial_inv :: "serial_state \<Rightarrow> serial_state \<Rightarrow> bool" where
  "serial_inv s0 s \<longleftrightarrow> (\<forall>r. length (mem s r) = length (mem s0 r))"


text \<open>A HAL whose calls succeed and whose \<open>HAL_UART_Receive_IT\<close> starts the reception at
  the given buffer with the given count, as the HAL documents; the examples use it.\<close>

abbreviation ok_hal :: stm32_hal where
  "ok_hal \<equiv> \<lparr>HAL_UART_Init = (\<lambda>u. (HAL_OK, u)), HAL_UART_DeInit = (\<lambda>u. (HAL_OK, u)),
     HAL_UART_Receive_IT = (\<lambda>u q n. (HAL_OK, u\<lparr>pRxBuffPtr := q, RxXferCount := n\<rparr>)),
     HAL_UART_Transmit = (\<lambda>u b n t. (HAL_OK, u)), Error_Handler_returns = False\<rparr>"

section \<open>Lemmas\<close>

lemma USART_Transmit_mem: "USART_Transmit hal huart d l s = Inr (st, s') \<Longrightarrow> mem s' = mem s"
  by (auto simp: USART_Transmit_def fbind_def Let_def split: ptr.splits sum.splits prod.splits)

lemma SerialDevice_Close_mem: "SerialDevice_Close hal s = (r, s') \<Longrightarrow> mem s' = mem s"
  by (auto simp: SerialDevice_Close_def split: ptr.splits)

lemma SerialDevice_Open_NULL:
  "(if huart \<noteq> NULL then huart else hWiModUart s) = NULL \<Longrightarrow>
   SerialDevice_Open hal huart b d p s = Some (Inl Null_Dereference)"
  by (cases huart) (simp_all add: SerialDevice_Open_def)

lemma SerialDevice_Open_Ptr:
  assumes "(if huart \<noteq> NULL then huart else hWiModUart s) = Ptr h"
    and "HAL_UART_Init hal (uart_configure b d p (uarts s h)) = (st, u)"
  shows "SerialDevice_Open hal huart b d p s =
    (if st = HAL_OK
     then Some (Inr (True, s\<lparr>hWiModUart := Ptr h,
                              uarts := (uarts s)(h := snd (HAL_UART_Receive_IT hal u (UsartTextString_Object, 0) 1))\<rparr>))
     else if Error_Handler_returns hal
     then Some (Inr (False, snd (SerialDevice_Close hal (s\<lparr>hWiModUart := Ptr h, uarts := (uarts s)(h := u)\<rparr>))))
     else None)"
proof (cases huart)
  case NULL
  then have "hWiModUart s = Ptr h" using assms(1) by simp
  with assms NULL show ?thesis by (cases s) (simp add: SerialDevice_Open_def)
qed (use assms in \<open>simp add: SerialDevice_Open_def\<close>)

lemma SerialDevice_Open_mem:
  assumes "SerialDevice_Open hal huart b d p s = Some (Inr (r, s'))"
  shows "mem s' = mem s"
proof (cases "if huart \<noteq> NULL then huart else hWiModUart s")
  case NULL
  with assms show ?thesis by (simp add: SerialDevice_Open_NULL)
next
  case (Ptr h)
  obtain st u where i: "HAL_UART_Init hal (uart_configure b d p (uarts s h)) = (st, u)" by fastforce
  let ?c = "SerialDevice_Close hal (s\<lparr>hWiModUart := Ptr h, uarts := (uarts s)(h := u)\<rparr>)"
  have "mem (snd ?c) = mem s" using SerialDevice_Close_mem [of hal _ "fst ?c" "snd ?c"] by simp
  with assms show ?thesis by (auto simp: SerialDevice_Open_Ptr [OF Ptr i] split: if_splits)
qed

lemma USART_Transmit_Ptr:
  assumes "unat (ucast len :: u16) \<le> length data"
    and "HAL_UART_Transmit hal (uarts s h) (take (unat (ucast len :: u16)) data) (ucast len) 500 = (st, u)"
  shows "USART_Transmit hal (Ptr h) data len s =
           Inr (st, s\<lparr>uarts := (uarts s)(h := u), uart_tx := uart_tx s @ [take (unat (ucast len :: u16)) data]\<rparr>)"
  using assms by (simp add: USART_Transmit_def buf_range_def fbind_def)

lemma USART_ITCharManager_end:
  assumes "RxXferCount (uarts s h) = 1 \<or> (ucast dr :: byte) = 13" and "pRxBuffPtr (uarts s h) = (r, i)"
  shows "USART_ITCharManager hal (Ptr h) dr rxne s =
    (case buf_set (mem s r) (i - 1) 0 of
       Inl f \<Rightarrow> Some (Inl f)
     | Inr b \<Rightarrow>
         (case USART_Transmit hal (Ptr h) [13, 10, 0] 2
                 (s\<lparr>uarts := (uarts s)(h := (uarts s h)\<lparr>RxXferCount := RxXferCount (uarts s h) + 1, pRxBuffPtr := (r, i - 1)\<rparr>),
                     mem := (mem s)(r := b)\<rparr>) of
            Inl f \<Rightarrow> Some (Inl f)
          | Inr (_, s) \<Rightarrow> map_option (\<lambda>_. Inr (s\<lparr>uarts := (uarts s)(h := uart_rx_finish (uarts s h))\<rparr>)) (rxne_wait rxne 0)))"
  using assms by (simp add: USART_ITCharManager_def Let_def)

lemma USART_ITCharManager_other:
  "\<not> (RxXferCount (uarts s h) = 1 \<or> (ucast dr :: byte) = 13) \<Longrightarrow> USART_ITCharManager hal (Ptr h) dr rxne s = Some (Inr s)"
  by (simp add: USART_ITCharManager_def Let_def)

lemma USART_ITCharManager_mem:
  assumes "USART_ITCharManager hal huart dr rxne s = Some (Inr s')"
  shows "length (mem s' q) = length (mem s q)"
proof (cases huart)
  case NULL
  with assms show ?thesis by (simp add: USART_ITCharManager_def)
next
  case (Ptr h)
  obtain r i where p: "pRxBuffPtr (uarts s h) = (r, i)" by fastforce
  show ?thesis
  proof (cases "RxXferCount (uarts s h) = 1 \<or> (ucast dr :: byte) = 13")
    case True
    show ?thesis
    proof (cases "buf_set (mem s r) (i - 1) 0")
      case (Inl f)
      with assms Ptr show ?thesis by (simp add: USART_ITCharManager_end [OF True p])
    next
      case (Inr b)
      then have "length b = length (mem s r)" by (rule buf_set_length)
      with assms Ptr Inr show ?thesis
        by (auto simp: USART_ITCharManager_end [OF True p] split: sum.splits dest!: USART_Transmit_mem)
    qed
  next
    case False
    with assms Ptr show ?thesis by (simp add: USART_ITCharManager_other)
  qed
qed

lemma SerialDevice_SendData_mem: "SerialDevice_SendData hal buf n s = Inr (r, s') \<Longrightarrow> mem s' = mem s"
  by (auto simp: SerialDevice_SendData_def fbind_def dest: USART_Transmit_mem split: sum.splits prod.splits)

lemma SerialDevice_SendByte_mem: "SerialDevice_SendByte hal c s = Inr (r, s') \<Longrightarrow> mem s' = mem s"
  by (auto simp: SerialDevice_SendByte_def fbind_def dest: USART_Transmit_mem split: sum.splits prod.splits)

lemma serial_step_mem:
  "serial_step hal s e s' \<Longrightarrow> length (mem s' r) = length (mem s r)"
  by (induction rule: serial_step.induct)
     (auto dest: SerialDevice_Open_mem SerialDevice_Close_mem SerialDevice_SendData_mem
        SerialDevice_SendByte_mem USART_ITCharManager_mem)

lemma serial_reach_inv: "serial_reach hal s0 s \<Longrightarrow> serial_inv s0 s"
  by (induction rule: serial_reach.induct) (simp_all add: serial_inv_def serial_step_mem)

lemma rxne_wait_returns: "\<not> rxne (n + k) \<Longrightarrow> rxne_wait rxne n \<noteq> None"
proof (induction k arbitrary: n)
  case 0
  then show ?case by (subst rxne_wait.simps) simp
next
  case (Suc k)
  then have "rxne_wait rxne (Suc n) \<noteq> None" using Suc.IH [of "Suc n"] by simp
  then show ?case by (subst rxne_wait.simps) simp
qed

lemma rxne_wait_stuck:
  assumes "\<forall>j\<ge>n. rxne j"
  shows "rxne_wait rxne n = None"
proof -
  have ret: "\<exists>j\<ge>n. \<not> rxne j" if "rxne_wait rxne n = Some r" for r
  proof (rule rxne_wait.raw_induct [where P = "\<lambda>rxne n r. \<exists>j\<ge>n. \<not> rxne j", OF _ that])
    fix f rxne n r
    assume IH: "\<And>rxne n r. f rxne n = Some r \<Longrightarrow> \<exists>j\<ge>n. \<not> rxne j"
      and eq: "(if rxne n then f rxne (Suc n) else Some n) = Some r"
    show "\<exists>j\<ge>n. \<not> rxne j"
    proof (cases "rxne n")
      case True
      with eq have "f rxne (Suc n) = Some r" by simp
      then obtain j where "Suc n \<le> j" "\<not> rxne j" using IH by blast
      then show ?thesis by (intro exI [of _ j]) simp
    next
      case False
      then show ?thesis by (intro exI [of _ n]) simp
    qed
  qed
  show ?thesis
  proof (cases "rxne_wait rxne n")
    case (Some r)
    then obtain j where "n \<le> j" "\<not> rxne j" using ret by blast
    with assms show ?thesis by simp
  qed
qed

lemma rxne_wait_iff: "rxne_wait rxne n \<noteq> None \<longleftrightarrow> (\<exists>j\<ge>n. \<not> rxne j)"
proof
  assume "rxne_wait rxne n \<noteq> None"
  then show "\<exists>j\<ge>n. \<not> rxne j"
  proof (rule contrapos_np)
    assume "\<not> (\<exists>j\<ge>n. \<not> rxne j)"
    then have "\<forall>j\<ge>n. rxne j" by simp
    then show "rxne_wait rxne n = None" by (rule rxne_wait_stuck)
  qed
next
  assume "\<exists>j\<ge>n. \<not> rxne j"
  then obtain j where "n \<le> j" "\<not> rxne j" by blast
  then show "rxne_wait rxne n \<noteq> None" using rxne_wait_returns [of rxne n "j - n"] by simp
qed


lemma echo_transmit: "\<exists>st s'. USART_Transmit hal (Ptr h) [13, 10, 0] 2 s = Inr (st, s')"
  by (cases "HAL_UART_Transmit hal (uarts s h) [13, 10] 2 500")
     (simp add: USART_Transmit_def buf_range_def fbind_def)


lemma USART_Transmit_handle: "USART_Transmit hal huart d l s = Inr (st, s') \<Longrightarrow> hWiModUart s' = hWiModUart s"
  by (auto simp: USART_Transmit_def fbind_def Let_def split: ptr.splits sum.splits prod.splits)

lemma SerialDevice_Open_handle:
  assumes "SerialDevice_Open hal huart b d p s = Some (Inr (r, s'))"
  shows "hWiModUart s' = (if huart \<noteq> NULL then huart else hWiModUart s)"
proof (cases "if huart \<noteq> NULL then huart else hWiModUart s")
  case NULL
  with assms show ?thesis by (simp add: SerialDevice_Open_NULL)
next
  case (Ptr h)
  obtain st u where i: "HAL_UART_Init hal (uart_configure b d p (uarts s h)) = (st, u)" by fastforce
  with assms Ptr show ?thesis
    by (auto simp: SerialDevice_Open_Ptr [OF Ptr i] SerialDevice_Close_def split: if_splits)
qed

lemma USART_ITCharManager_handle:
  assumes "USART_ITCharManager hal huart dr rxne s = Some (Inr s')"
  shows "hWiModUart s' = hWiModUart s"
proof (cases huart)
  case NULL
  with assms show ?thesis by (simp add: USART_ITCharManager_def)
next
  case (Ptr h)
  obtain r i where p: "pRxBuffPtr (uarts s h) = (r, i)" by fastforce
  show ?thesis
  proof (cases "RxXferCount (uarts s h) = 1 \<or> (ucast dr :: byte) = 13")
    case True
    with assms Ptr show ?thesis
      by (auto simp: USART_ITCharManager_end [OF True p] split: sum.splits dest!: USART_Transmit_handle)
  next
    case False
    with assms Ptr show ?thesis by (simp add: USART_ITCharManager_other)
  qed
qed

lemma serial_step_handle:
  "serial_step hal s e s' \<Longrightarrow> hWiModUart s \<noteq> NULL \<Longrightarrow> hWiModUart s' \<noteq> NULL"
  by (induction rule: serial_step.induct)
     (auto simp: SerialDevice_Close_def SerialDevice_SendData_def SerialDevice_SendByte_def fbind_def
        dest!: SerialDevice_Open_handle USART_ITCharManager_handle USART_Transmit_handle
        split: ptr.splits sum.splits if_splits)

lemma serial_reach_handle: "serial_reach hal s0 s \<Longrightarrow> hWiModUart s0 \<noteq> NULL \<Longrightarrow> hWiModUart s \<noteq> NULL"
  by (induction rule: serial_reach.induct) (auto dest: serial_step_handle)

section \<open>Properties\<close>

text \<open>C17: With a HAL whose HAL_UART_Receive_IT starts the reception at the given buffer with the given count, a successful SerialDevice_Open leaves a one-byte reception into UsartTextString, and the next USART_ITCharManager, whatever the received character, steps the receive pointer back before UsartTextString and writes its NUL there: a write outside the object.\<close>

theorem Open_first_char_writes_before_buffer:
  assumes rx: "\<forall>u q n. pRxBuffPtr (snd (HAL_UART_Receive_IT hal u q n)) = q \<and> RxXferCount (snd (HAL_UART_Receive_IT hal u q n)) = n"
    and opened: "SerialDevice_Open hal huart b d p s = Some (Inr (True, s'))"
  shows "USART_ITCharManager hal (hWiModUart s') dr rxne s' = Some (Inl Write_Out_Of_Bounds)"
proof (cases "if huart \<noteq> NULL then huart else hWiModUart s")
  case NULL
  with opened show ?thesis by (simp add: SerialDevice_Open_NULL)
next
  case (Ptr h)
  obtain st u where i: "HAL_UART_Init hal (uart_configure b d p (uarts s h)) = (st, u)" by fastforce
  have s': "s' = s\<lparr>hWiModUart := Ptr h,
                   uarts := (uarts s)(h := snd (HAL_UART_Receive_IT hal u (UsartTextString_Object, 0) 1))\<rparr>"
    using opened by (simp add: SerialDevice_Open_Ptr [OF Ptr i] split: if_splits)
  then have "pRxBuffPtr (uarts s' h) = (UsartTextString_Object, 0)" "RxXferCount (uarts s' h) = 1"
    using rx by simp_all
  then show ?thesis using s' by (simp add: USART_ITCharManager_end buf_set_before)
qed

theorem Open_first_char_writes_before_buffer_witness:
  "\<exists>s'. SerialDevice_Open ok_hal (Ptr 6) 115200 0 0 (serial_initial_state (\<lambda>_. undefined) (\<lambda>_. [])) = Some (Inr (True, s')) \<and>
        USART_ITCharManager ok_hal (hWiModUart s') 0x41 (\<lambda>_. False) s' = Some (Inl Write_Out_Of_Bounds)"
proof -
  have rx: "\<forall>u q n. pRxBuffPtr (snd (HAL_UART_Receive_IT ok_hal u q n)) = q \<and>
                    RxXferCount (snd (HAL_UART_Receive_IT ok_hal u q n)) = n" by simp
  obtain s' where o: "SerialDevice_Open ok_hal (Ptr 6) 115200 0 0 (serial_initial_state (\<lambda>_. undefined) (\<lambda>_. [])) =
                      Some (Inr (True, s'))"
    by (simp add: SerialDevice_Open_def)
  show ?thesis using Open_first_char_writes_before_buffer [OF rx o] o by blast
qed

text \<open>SerialDevice_Open with a NULL handle before any handle was stored dereferences the NULL pointer hWiModUart.\<close>

theorem Open_NULL_handle:
  "hWiModUart s = NULL \<Longrightarrow> SerialDevice_Open hal NULL baudRate dataBits parity s = Some (Inl Null_Dereference)"
  by (simp add: SerialDevice_Open_NULL)

theorem Open_NULL_handle_witness:
  "SerialDevice_Open ok_hal NULL 115200 0 0 (serial_initial_state (\<lambda>_. undefined) (\<lambda>_. [])) = Some (Inl Null_Dereference)"
  using Open_NULL_handle [of "serial_initial_state (\<lambda>_. undefined) (\<lambda>_. [])" ok_hal 115200 0 0]
  by (simp add: serial_initial_state_def)

text \<open>C20: SerialDevice_SendData hands the HAL only the low 16 bits of txLength as the byte count (its Size is a uint16_t) and reports txLength, read as an int, for every HAL status but HAL_ERROR, HAL_TIMEOUT and HAL_BUSY included; only HAL_ERROR gives -1.\<close>

theorem SendData_reports_length:
  assumes "hWiModUart s = Ptr h" and "unat txLength mod 65536 \<le> length txBuffer"
    and "HAL_UART_Transmit hal (uarts s h) (take (unat txLength mod 65536) txBuffer) (ucast txLength) 500 = (st, u)"
  shows "SerialDevice_SendData hal txBuffer txLength s =
           Inr (if st = HAL_ERROR then -1 else sint txLength,
                s\<lparr>uarts := (uarts s)(h := u), uart_tx := uart_tx s @ [take (unat txLength mod 65536) txBuffer]\<rparr>)"
proof -
  have "unat (ucast txLength :: u16) = unat txLength mod 65536"
    by (simp add: unsigned_ucast_eq take_bit_eq_mod)
  with assms show ?thesis
    by (simp add: SerialDevice_SendData_def USART_Transmit_Ptr fbind_def)
qed

theorem SendData_reports_length_witness:
  "SerialDevice_SendData (ok_hal\<lparr>HAL_UART_Transmit := (\<lambda>u b n t. (HAL_TIMEOUT, u))\<rparr>) [7] 65537
     ((serial_initial_state (\<lambda>_. undefined) (\<lambda>_. []))\<lparr>hWiModUart := Ptr 6\<rparr>) =
   Inr (65537, (serial_initial_state (\<lambda>_. undefined) (\<lambda>_. []))\<lparr>hWiModUart := Ptr 6, uart_tx := [[7]]\<rparr>)"
proof -
  have "unat (65537 :: u32) mod 65536 = 1" by simp
  moreover have "sint (65537 :: u32) = 65537" by simp
  moreover have "(\<lambda>_. undefined)(6 := undefined) = (\<lambda>_::nat. undefined :: UART_HandleTypeDef)" by auto
  ultimately show ?thesis
    using SendData_reports_length [of "(serial_initial_state (\<lambda>_. undefined) (\<lambda>_. []))\<lparr>hWiModUart := Ptr 6\<rparr>" 6 65537 "[7]"
        "ok_hal\<lparr>HAL_UART_Transmit := (\<lambda>u b n t. (HAL_TIMEOUT, u))\<rparr>" HAL_TIMEOUT undefined]
    by (simp add: serial_initial_state_def)
qed

text \<open>C19: When one byte is left or a carriage return arrives, and the receive pointer is inside its object, USART_ITCharManager steps the count up and the pointer back, writes a NUL at the new pointer, echoes CR LF (two bytes) through HAL_UART_Transmit, and then, on the handle the HAL returns, clears RXNEIE and sets the state to BUSY_TX after a transmission in progress (BUSY_TX_RX), or clears PEIE and EIE as well and sets it to READY otherwise; the stored handle pointer is unchanged.\<close>

theorem ITCharManager_end_of_line:
  assumes "RxXferCount (uarts s h) = 1 \<or> (ucast dr :: byte) = 13" and "pRxBuffPtr (uarts s h) = (r, i)"
    and "0 < i" and "i \<le> int (length (mem s r))" and "\<not> rxne j"
    and "HAL_UART_Transmit hal ((uarts s h)\<lparr>RxXferCount := RxXferCount (uarts s h) + 1, pRxBuffPtr := (r, i - 1)\<rparr>)
           [13, 10] 2 500 = (st, u)"
  shows "\<exists>s'. USART_ITCharManager hal (Ptr h) dr rxne s = Some (Inr s') \<and>
           mem s' = (mem s)(r := (mem s r)[nat (i - 1) := 0]) \<and> uart_tx s' = uart_tx s @ [[13, 10]] \<and>
           hWiModUart s' = hWiModUart s \<and>
           uarts s' = (uarts s)(h :=
             (if gState u = HAL_UART_STATE_BUSY_TX_RX
              then u\<lparr>RXNEIE := False, gState := HAL_UART_STATE_BUSY_TX\<rparr>
              else u\<lparr>RXNEIE := False, PEIE := False, EIE := False, gState := HAL_UART_STATE_READY\<rparr>))"
proof -
  have b: "buf_set (mem s r) (i - 1) 0 = Inr ((mem s r)[nat (i - 1) := 0])"
    using assms(3,4) by (simp add: buf_set_def)
  obtain k where k: "rxne_wait rxne 0 = Some k" using rxne_wait_returns [of rxne 0 j] assms(5) by auto
  have "USART_ITCharManager hal (Ptr h) dr rxne s =
          Some (Inr (s\<lparr>uarts := (uarts s)(h := uart_rx_finish u), mem := (mem s)(r := (mem s r)[nat (i - 1) := 0]),
                       uart_tx := uart_tx s @ [[13, 10]]\<rparr>))"
    using assms(6) by (simp add: USART_ITCharManager_end [OF assms(1,2)] b k USART_Transmit_def buf_range_def fbind_def)
  then show ?thesis by (simp add: uart_rx_finish_def)
qed

theorem ITCharManager_end_of_line_witness:
  "\<exists>s'. USART_ITCharManager ok_hal (Ptr 6) 13 (\<lambda>j. j < 2)
     \<lparr>hWiModUart = Ptr 6, uarts = (\<lambda>_. undefined\<lparr>pRxBuffPtr := (Caller_Buffer 0, 3), RxXferCount := 5, gState := HAL_UART_STATE_BUSY_TX_RX\<rparr>),
      mem = (\<lambda>_. [0x41, 0x42, 0x43, 0x44]), uart_tx = []\<rparr> = Some (Inr s') \<and>
     mem s' (Caller_Buffer 0) = [0x41, 0x42, 0, 0x44] \<and> uart_tx s' = [[13, 10]] \<and>
     pRxBuffPtr (uarts s' 6) = (Caller_Buffer 0, 2) \<and> RxXferCount (uarts s' 6) = 6 \<and>
     gState (uarts s' 6) = HAL_UART_STATE_BUSY_TX \<and> \<not> RXNEIE (uarts s' 6)"
  using ITCharManager_end_of_line [where s = "\<lparr>hWiModUart = Ptr 6, uarts = (\<lambda>_. undefined\<lparr>pRxBuffPtr := (Caller_Buffer 0, 3), RxXferCount := 5, gState := HAL_UART_STATE_BUSY_TX_RX\<rparr>),
      mem = (\<lambda>_. [0x41, 0x42, 0x43, 0x44]), uart_tx = []\<rparr>" and h = 6 and dr = 13 and r = "Caller_Buffer 0" and i = 3
      and rxne = "\<lambda>j. j < 2" and j = 2 and hal = ok_hal]
  by auto

text \<open>C18: USART_ITCharManager on the end of a line returns if and only if the RXNE flag is eventually seen clear: its busy-wait on the status register has no bound.\<close>

theorem ITCharManager_returns_iff:
  assumes "RxXferCount (uarts s h) = 1 \<or> (ucast dr :: byte) = 13" and "pRxBuffPtr (uarts s h) = (r, i)"
    and "0 < i" and "i \<le> int (length (mem s r))"
  shows "USART_ITCharManager hal (Ptr h) dr rxne s \<noteq> None \<longleftrightarrow> (\<exists>j. \<not> rxne j)"
proof -
  have b: "buf_set (mem s r) (i - 1) 0 = Inr ((mem s r)[nat (i - 1) := 0])"
    using assms(3,4) by (simp add: buf_set_def)
  let ?s1 = "s\<lparr>uarts := (uarts s)(h := (uarts s h)\<lparr>RxXferCount := RxXferCount (uarts s h) + 1, pRxBuffPtr := (r, i - 1)\<rparr>),
                 mem := (mem s)(r := (mem s r)[nat (i - 1) := 0])\<rparr>"
  obtain st s' where t: "USART_Transmit hal (Ptr h) [13, 10, 0] 2 ?s1 = Inr (st, s')" using echo_transmit by blast
  have "USART_ITCharManager hal (Ptr h) dr rxne s \<noteq> None \<longleftrightarrow> rxne_wait rxne 0 \<noteq> None"
    by (simp add: USART_ITCharManager_end [OF assms(1,2)] b t)
  then show ?thesis using rxne_wait_iff [of rxne 0] by simp
qed

theorem ITCharManager_returns_iff_witness:
  "USART_ITCharManager ok_hal (Ptr 6) 13 (\<lambda>_. True)
     \<lparr>hWiModUart = Ptr 6, uarts = (\<lambda>_. undefined\<lparr>pRxBuffPtr := (Caller_Buffer 0, 3), RxXferCount := 5\<rparr>),
      mem = (\<lambda>_. [0x41, 0x42, 0x43, 0x44]), uart_tx = []\<rparr> = None"
  using ITCharManager_returns_iff [where
      s = "\<lparr>hWiModUart = Ptr 6, uarts = (\<lambda>_. undefined\<lparr>pRxBuffPtr := (Caller_Buffer 0, 3), RxXferCount := 5\<rparr>),
        mem = (\<lambda>_. [0x41, 0x42, 0x43, 0x44]), uart_tx = []\<rparr>" and h = 6 and dr = 13 and r = "Caller_Buffer 0" and i = 3
      and hal = ok_hal and rxne = "\<lambda>_. True"]
  by simp

text \<open>C21: In every state the driver reaches by its calls and interrupts from a start where UsartTextString is one byte, SerialDevice_ReadData into a non-empty buffer stores the current UsartTextString and returns 1, whatever size the caller gives; the byte is not consumed, so a second read returns it again.\<close>

theorem ReadData_reachable:
  assumes "serial_reach hal s0 s" and "length (mem s0 UsartTextString_Object) = 1" and "rxBuffer \<noteq> []"
  shows "SerialDevice_ReadData rxBuffer rxBufferSize s = Inr (1, rxBuffer[0 := mem s UsartTextString_Object ! 0])"
proof -
  have "length (mem s UsartTextString_Object) = 1"
    using serial_reach_inv [OF assms(1)] assms(2) by (simp add: serial_inv_def)
  with assms(3) show ?thesis
    by (simp add: SerialDevice_ReadData_def buf_get_def buf_set_def fbind_def)
qed

theorem ReadData_reachable_witness:
  "SerialDevice_ReadData [9, 9] 2 (serial_initial_state (\<lambda>_. undefined) (\<lambda>_. [])) = Inr (1, [0, 9])"
  using ReadData_reachable [where hal = ok_hal and s0 = "serial_initial_state (\<lambda>_. undefined) (\<lambda>_. [])"
      and s = "serial_initial_state (\<lambda>_. undefined) (\<lambda>_. [])" and rxBuffer = "[9, 9]" and rxBufferSize = 2, OF reach_init]
  by (simp add: serial_initial_state_def)


text \<open>C22: In every state the driver reaches by its calls and interrupts from a state where a UART handle is stored, the handle stays stored: SerialDevice_Open keeps it when called with NULL (its huart != NULL guard) and so does not dereference NULL, and no other call or interrupt changes it; so SerialDevice_SendByte completes without dereferencing NULL, whatever the HAL returns.\<close>

theorem SendByte_reachable_completes:
  assumes "serial_reach hal s0 s" and "hWiModUart s0 \<noteq> NULL"
  shows "(\<exists>r s'. SerialDevice_SendByte hal txByte s = Inr (r, s')) \<and>
         SerialDevice_Open hal NULL baudRate dataBits parity s \<noteq> Some (Inl Null_Dereference)"
proof -
  obtain h where h: "hWiModUart s = Ptr h" using serial_reach_handle [OF assms] by (cases "hWiModUart s") auto
  obtain st u where t: "HAL_UART_Transmit hal (uarts s h) [txByte] 1 500 = (st, u)" by fastforce
  obtain sti ui where i: "HAL_UART_Init hal (uart_configure baudRate dataBits parity (uarts s h)) = (sti, ui)" by fastforce
  have "(if NULL \<noteq> NULL then NULL else hWiModUart s) = Ptr h" using h by simp
  note o = SerialDevice_Open_Ptr [OF this i]
  show ?thesis using t by (simp add: o SerialDevice_SendByte_def h USART_Transmit_def buf_range_def fbind_def)
qed

theorem SendByte_reachable_completes_witness:
  "(\<exists>r s'. SerialDevice_SendByte ok_hal 65 ((serial_initial_state (\<lambda>_. undefined) (\<lambda>_. []))\<lparr>hWiModUart := Ptr 6\<rparr>) = Inr (r, s')) \<and>
   SerialDevice_Open ok_hal NULL 115200 8 0 ((serial_initial_state (\<lambda>_. undefined) (\<lambda>_. []))\<lparr>hWiModUart := Ptr 6\<rparr>) \<noteq>
     Some (Inl Null_Dereference)"
  using SendByte_reachable_completes [where hal = ok_hal and s0 = "(serial_initial_state (\<lambda>_. undefined) (\<lambda>_. []))\<lparr>hWiModUart := Ptr 6\<rparr>"
      and s = "(serial_initial_state (\<lambda>_. undefined) (\<lambda>_. []))\<lparr>hWiModUart := Ptr 6\<rparr>" and txByte = 65
      and baudRate = 115200 and dataBits = 8 and parity = 0, OF reach_init]
  by simp

end
