(* ===== verification/Serial_Device_Win.thy ===== *)
theory Serial_Device_Win
  imports Prelude
begin

text \<open>
  The Windows build of the serial device driver (the \<open>Q_OS_WIN\<close> branches of
  \<open>SerialDevice.c\<close>): \<open>SerialDevice_Open\<close>, \<open>SerialDevice_Close\<close>,
  \<open>SerialDevice_SendData\<close>, \<open>SerialDevice_SendByte\<close> and \<open>SerialDevice_ReadData\<close> on
  the file handle \<open>ComHandle\<close>.  The Win32 functions whose results the driver uses
  are the fields of the interface \<open>win32_api\<close>; every Win32 call is recorded, in
  order, in the driver state, so that the sequence of calls is part of the model.
  \<open>strcpy\<close> and \<open>strcat\<close> are the C library's, on byte arrays; a string argument is
  the array that holds it, terminator included.  The build is 32-bit: \<open>size_t\<close>,
  \<open>DWORD\<close> and \<open>UINT32\<close> are 32-bit words.
\<close>

section \<open>The Win32 interface and the driver state\<close>

datatype win_handle = INVALID_HANDLE_VALUE | Win_Handle nat

text \<open>The fields of \<open>DCB\<close> that \<open>SerialDevice_Open\<close> sets; the one-bit flags are booleans.\<close>

record DCB =
  DCBlength :: u32
  BaudRate :: u32
  ByteSize :: byte
  Parity :: byte
  StopBits :: byte
  fOutxCtsFlow :: bool
  fOutxDsrFlow :: bool
  fDtrControl :: nat
  fDsrSensitivity :: bool
  fTXContinueOnXoff :: bool
  fOutX :: bool
  fInX :: bool
  fErrorChar :: bool
  fNull :: bool
  fRtsControl :: nat
  fAbortOnError :: bool

record COMMTIMEOUTS =
  ReadIntervalTimeout :: u32
  ReadTotalTimeoutMultiplier :: u32
  ReadTotalTimeoutConstant :: u32
  WriteTotalTimeoutMultiplier :: u32
  WriteTotalTimeoutConstant :: u32

datatype win_call =
    Call_CreateFileA "byte list"
  | Call_GetCommState win_handle
  | Call_SetCommState win_handle DCB
  | Call_SetCommTimeouts win_handle COMMTIMEOUTS
  | Call_CancelIo win_handle
  | Call_Sleep nat
  | Call_CloseHandle win_handle
  | Call_WriteFile win_handle "byte list"
  | Call_ReadFile win_handle u32

record win_state =
  ComHandle :: win_handle
  win_calls :: "win_call list"

text \<open>\<open>static HANDLE ComHandle = INVALID_HANDLE_VALUE\<close>.\<close>

definition win_initial_state :: win_state where
  "win_initial_state = \<lparr>ComHandle = INVALID_HANDLE_VALUE, win_calls = []\<rparr>"

text \<open>
  The results the driver reads: the handle \<open>CreateFileA\<close> opens for a path, the
  \<open>DCB\<close> \<open>GetCommState\<close> fills in (\<open>None\<close> when it fails), whether \<open>SetCommState\<close>
  succeeds, and the success flag with the byte count of \<open>WriteFile\<close>, or with the
  bytes read of \<open>ReadFile\<close>.
\<close>

record win32_api =
  CreateFileA :: "byte list \<Rightarrow> win_handle"
  GetCommState :: "win_handle \<Rightarrow> DCB option"
  SetCommState :: "win_handle \<Rightarrow> DCB \<Rightarrow> bool"
  WriteFile :: "win_handle \<Rightarrow> byte list \<Rightarrow> bool \<times> u32"
  ReadFile :: "win_handle \<Rightarrow> u32 \<Rightarrow> bool \<times> byte list"

text \<open>The constants of the Windows headers the driver uses.\<close>

definition ONESTOPBIT :: byte where "ONESTOPBIT = 0"

definition DTR_CONTROL_DISABLE :: nat where "DTR_CONTROL_DISABLE = 0"

definition RTS_CONTROL_DISABLE :: nat where "RTS_CONTROL_DISABLE = 0"

definition MAXDWORD :: u32 where "MAXDWORD = 0xFFFFFFFF"

definition sizeof_DCB :: u32 where "sizeof_DCB = 28"

section \<open>C strings\<close>

text \<open>
  \<open>strcpy(dst, src)\<close> and \<open>strcat(dst, src)\<close>: the source string and its terminator
  are written at the start, or at the terminator, of \<open>dst\<close>; a source without
  terminator is read beyond its object.
\<close>

definition c_strcpy :: "byte list \<Rightarrow> byte list \<Rightarrow> c_fault + byte list" where
  "c_strcpy dst src =
     (if 0 \<notin> set src then Inl Source_Overread
      else memcpy_into dst 0 (c_string src @ [0]) (length (c_string src) + 1))"

definition c_strcat :: "byte list \<Rightarrow> byte list \<Rightarrow> c_fault + byte list" where
  "c_strcat dst src =
     (if 0 \<notin> set dst then Inl Read_Out_Of_Bounds
      else if 0 \<notin> set src then Inl Source_Overread
      else memcpy_into dst (length (c_string dst)) (c_string src @ [0]) (length (c_string src) + 1))"

section \<open>Close and open\<close>

text \<open>
  \<open>SerialDevice_Close\<close>: with a valid handle, \<open>CancelIo\<close>, \<open>Sleep(100)\<close>, \<open>CloseHandle\<close>,
  invalidate the handle and return \<open>true\<close>; otherwise \<open>false\<close>.
\<close>

definition SerialDevice_Close_Win32 :: "win_state \<Rightarrow> bool \<times> win_state" where
  "SerialDevice_Close_Win32 s =
     (if ComHandle s \<noteq> INVALID_HANDLE_VALUE
      then (True, s\<lparr>ComHandle := INVALID_HANDLE_VALUE,
                     win_calls := win_calls s @ [Call_CancelIo (ComHandle s), Call_Sleep 100,
                                                 Call_CloseHandle (ComHandle s)]\<rparr>)
      else (False, s))"

text \<open>The \<open>DCB\<close> and the timeouts \<open>SerialDevice_Open\<close> writes (lines 97-123).\<close>

definition win_config_dcb :: "u32 \<Rightarrow> int \<Rightarrow> byte \<Rightarrow> DCB \<Rightarrow> DCB" where
  "win_config_dcb baudRate dataBits parity dcb =
     dcb\<lparr>DCBlength := sizeof_DCB, BaudRate := baudRate, ByteSize := word_of_int dataBits,
         Parity := parity, StopBits := ONESTOPBIT, fOutxCtsFlow := False, fOutxDsrFlow := False,
         fDtrControl := DTR_CONTROL_DISABLE, fDsrSensitivity := False, fTXContinueOnXoff := False,
         fOutX := False, fInX := False, fErrorChar := False, fNull := False,
         fRtsControl := RTS_CONTROL_DISABLE, fAbortOnError := False\<rparr>"

definition win_timeouts :: COMMTIMEOUTS where
  "win_timeouts =
     \<lparr>ReadIntervalTimeout = MAXDWORD, ReadTotalTimeoutMultiplier = 0, ReadTotalTimeoutConstant = 0,
      WriteTotalTimeoutMultiplier = 10, WriteTotalTimeoutConstant = 1\<rparr>"

text \<open>
  \<open>SerialDevice_Open(comPort, baudRate, dataBits, parity)\<close>: close a valid handle,
  build \<open>"\\.\" + comPort\<close> in \<open>char devName[80]\<close> (whose initial bytes are not read),
  open it, and configure the port; any failure after the open closes the device.
\<close>

definition SerialDevice_Open_Win32 ::
  "win32_api \<Rightarrow> byte list \<Rightarrow> u32 \<Rightarrow> int \<Rightarrow> byte \<Rightarrow> win_state \<Rightarrow> c_fault + bool \<times> win_state" where
  "SerialDevice_Open_Win32 os comPort baudRate dataBits parity s =
     (let s = (if ComHandle s \<noteq> INVALID_HANDLE_VALUE then snd (SerialDevice_Close_Win32 s) else s) in
      fbind (c_strcpy (replicate 80 0) [92, 92, 46, 92, 0]) (\<lambda>devName.
      fbind (c_strcat devName comPort) (\<lambda>devName.
        let path = c_string devName; h = CreateFileA os path;
            s = s\<lparr>ComHandle := h, win_calls := win_calls s @ [Call_CreateFileA path]\<rparr> in
        if h \<noteq> INVALID_HANDLE_VALUE then
          (case GetCommState os h of
             Some dcb \<Rightarrow>
               (let dcb = win_config_dcb baudRate dataBits parity dcb;
                    s = s\<lparr>win_calls := win_calls s @ [Call_GetCommState h, Call_SetCommState h dcb]\<rparr> in
                if SetCommState os h dcb
                then Inr (True, s\<lparr>win_calls := win_calls s @ [Call_SetCommTimeouts h win_timeouts]\<rparr>)
                else Inr (False, snd (SerialDevice_Close_Win32 s)))
           | None \<Rightarrow> Inr (False, snd (SerialDevice_Close_Win32 (s\<lparr>win_calls := win_calls s @ [Call_GetCommState h]\<rparr>))))
        else Inr (False, s))))"

section \<open>Send and read\<close>

text \<open>
  \<open>SerialDevice_SendData(txBuffer, txLength)\<close>: \<open>-1\<close> without a valid handle or when
  \<open>WriteFile\<close> fails; the written count, as an \<open>int\<close>, when it equals \<open>txLength\<close>; and
  \<open>-1\<close> after a partial write.
\<close>

definition SerialDevice_SendData_Win32 ::
  "win32_api \<Rightarrow> byte list \<Rightarrow> u32 \<Rightarrow> win_state \<Rightarrow> c_fault + int \<times> win_state" where
  "SerialDevice_SendData_Win32 os txBuffer txLength s =
     (if ComHandle s = INVALID_HANDLE_VALUE then Inr (-1, s)
      else fbind (buf_range txBuffer 0 (unat txLength)) (\<lambda>bytes.
        let (ok, numTxBytes) = WriteFile os (ComHandle s) bytes;
            s = s\<lparr>win_calls := win_calls s @ [Call_WriteFile (ComHandle s) bytes]\<rparr> in
        if \<not> ok then Inr (-1, s)
        else if numTxBytes = txLength then Inr (sint numTxBytes, s)
        else Inr (-1, s)))"

definition SerialDevice_SendByte_Win32 :: "win32_api \<Rightarrow> byte \<Rightarrow> win_state \<Rightarrow> int \<times> win_state" where
  "SerialDevice_SendByte_Win32 os txByte s =
     (if ComHandle s = INVALID_HANDLE_VALUE then (-1, s)
      else let (ok, numTxBytes) = WriteFile os (ComHandle s) [txByte];
               s = s\<lparr>win_calls := win_calls s @ [Call_WriteFile (ComHandle s) [txByte]]\<rparr> in
           if \<not> ok then (-1, s)
           else if numTxBytes = 1 then (sint numTxBytes, s)
           else (-1, s))"

text \<open>
  \<open>SerialDevice_ReadData(rxBuffer, rxBufferSize)\<close>: \<open>-1\<close> without a valid handle; the
  bytes \<open>ReadFile\<close> delivers are stored at \<open>rxBuffer\<close> and their count returned; when
  \<open>ReadFile\<close> fails the function ends without a \<open>return\<close> (the \<open>return -1\<close> after the
  branch is commented out).  The result is the count, the caller's buffer and the state.
\<close>

definition SerialDevice_ReadData_Win32 ::
  "win32_api \<Rightarrow> byte list \<Rightarrow> u32 \<Rightarrow> win_state \<Rightarrow> c_fault + int \<times> byte list \<times> win_state" where
  "SerialDevice_ReadData_Win32 os rxBuffer rxBufferSize s =
     (if ComHandle s = INVALID_HANDLE_VALUE then Inr (-1, rxBuffer, s)
      else let (ok, bytes) = ReadFile os (ComHandle s) rxBufferSize;
               s = s\<lparr>win_calls := win_calls s @ [Call_ReadFile (ComHandle s) rxBufferSize]\<rparr> in
           if ok then fbind (memcpy_into rxBuffer 0 bytes (length bytes))
                        (\<lambda>buf. Inr (sint (word_of_nat (length bytes) :: u32), buf, s))
           else Inl No_Return_Value)"

text \<open>An operating system on which every call succeeds and the reads fail; the examples use it.\<close>

abbreviation com_api :: win32_api where
  "com_api \<equiv> \<lparr>CreateFileA = (\<lambda>_. Win_Handle 3), GetCommState = (\<lambda>_. Some undefined), SetCommState = (\<lambda>_ _. True),
              WriteFile = (\<lambda>_ b. (True, word_of_nat (length b))), ReadFile = (\<lambda>_ _. (False, []))\<rparr>"

section \<open>Lemmas\<close>

lemma devName_strcpy: "c_strcpy (replicate 80 0) [92, 92, 46, 92, 0] = Inr (92 # 92 # 46 # 92 # 0 # replicate 75 0)"
  by (simp add: c_strcpy_def c_string_def memcpy_into_def)

lemma devName_strcat:
  assumes "0 \<in> set comPort"
  shows "c_strcat (92 # 92 # 46 # 92 # 0 # replicate 75 0) comPort =
           (if 75 < length (c_string comPort) then Inl Write_Out_Of_Bounds
            else Inr ([92, 92, 46, 92] @ c_string comPort @ 0 # replicate (75 - length (c_string comPort)) 0))"
  using assms by (auto simp: c_strcat_def c_string_def memcpy_into_def)

lemma devName_path:
  "c_string ([92, 92, 46, 92] @ c_string comPort @ 0 # zs) = [92, 92, 46, 92] @ c_string comPort"
  using c_string_append_zero [of "[92, 92, 46, 92] @ c_string comPort" zs] c_string_no_zero [of comPort] by simp


lemma Open_Win32_success:
  assumes "0 \<in> set comPort" and "length (c_string comPort) \<le> 75" and "ComHandle s = INVALID_HANDLE_VALUE"
    and "CreateFileA os ([92, 92, 46, 92] @ c_string comPort) = h" and "h \<noteq> INVALID_HANDLE_VALUE"
    and "GetCommState os h = Some dcb" and "SetCommState os h (win_config_dcb baudRate dataBits parity dcb)"
  shows "SerialDevice_Open_Win32 os comPort baudRate dataBits parity s =
           Inr (True, s\<lparr>ComHandle := h, win_calls := win_calls s @
             [Call_CreateFileA ([92, 92, 46, 92] @ c_string comPort), Call_GetCommState h,
              Call_SetCommState h (win_config_dcb baudRate dataBits parity dcb), Call_SetCommTimeouts h win_timeouts]\<rparr>)"
  using assms devName_path [of comPort]
  by (simp add: SerialDevice_Open_Win32_def devName_strcpy devName_strcat fbind_def Let_def)


section \<open>Properties\<close>

text \<open>C23: The Windows SerialDevice_Open builds the device name with strcpy and strcat in char devName[80]: it writes beyond the array exactly when the port name is longer than 75 characters; no length is checked.\<close>

theorem Open_Win32_overflow_iff:
  assumes "0 \<in> set comPort"
  shows "SerialDevice_Open_Win32 os comPort baudRate dataBits parity s = Inl Write_Out_Of_Bounds \<longleftrightarrow>
           75 < length (c_string comPort)"
proof (cases "75 < length (c_string comPort)")
  case True
  with assms show ?thesis by (simp add: SerialDevice_Open_Win32_def devName_strcpy devName_strcat fbind_def)
next
  case False
  with assms show ?thesis
    by (simp add: SerialDevice_Open_Win32_def devName_strcpy devName_strcat fbind_def Let_def split: option.splits)
qed

theorem Open_Win32_overflow_iff_witness:
  "SerialDevice_Open_Win32 com_api (replicate 76 0x41 @ [0]) 115200 8 0 win_initial_state = Inl Write_Out_Of_Bounds \<and>
   SerialDevice_Open_Win32 com_api (replicate 75 0x41 @ [0]) 115200 8 0 win_initial_state \<noteq> Inl Write_Out_Of_Bounds"
proof -
  have "c_string (replicate 76 0x41 @ [0 :: byte]) = replicate 76 0x41" "c_string (replicate 75 0x41 @ [0 :: byte]) = replicate 75 0x41"
    using c_string_append_zero [of "replicate 76 0x41" "[]"] c_string_append_zero [of "replicate 75 0x41" "[]"] by simp_all
  then show ?thesis
    using Open_Win32_overflow_iff [of "replicate 76 0x41 @ [0]" com_api 115200 8 0 win_initial_state]
      Open_Win32_overflow_iff [of "replicate 75 0x41 @ [0]" com_api 115200 8 0 win_initial_state]
    by simp
qed

text \<open>C24: Whenever the Windows SerialDevice_Open returns without undefined behaviour, the handle ComHandle is valid exactly when the result is true: every failure after CreateFileA closes the device again, so no handle is left open.\<close>

theorem Open_Win32_handle_valid_iff:
  assumes "SerialDevice_Open_Win32 os comPort baudRate dataBits parity s = Inr (r, s')"
  shows "ComHandle s' \<noteq> INVALID_HANDLE_VALUE \<longleftrightarrow> r"
  using assms
  by (auto simp: SerialDevice_Open_Win32_def SerialDevice_Close_Win32_def fbind_def Let_def
      split: sum.splits option.splits if_splits)

theorem Open_Win32_handle_valid_iff_witness:
  "\<exists>s'. SerialDevice_Open_Win32 com_api [0x43, 0x4F, 0x4D, 0x33, 0] 115200 8 0 win_initial_state = Inr (True, s') \<and>
        ComHandle s' \<noteq> INVALID_HANDLE_VALUE"
proof -
  have c: "c_string [0x43, 0x4F, 0x4D, 0x33, 0 :: byte] = [0x43, 0x4F, 0x4D, 0x33]" by (simp add: c_string_def)
  obtain s' where o: "SerialDevice_Open_Win32 com_api [0x43, 0x4F, 0x4D, 0x33, 0] 115200 8 0 win_initial_state = Inr (True, s')"
    using Open_Win32_success [of "[0x43, 0x4F, 0x4D, 0x33, 0]" win_initial_state com_api "Win_Handle 3" undefined 115200 8 0] c
    by (simp add: win_initial_state_def)
  then show ?thesis using Open_Win32_handle_valid_iff [OF o] by blast
qed

text \<open>C25: When ReadFile fails, the Windows SerialDevice_ReadData ends without a return statement (its return -1 is commented out), so its caller reads an indeterminate value.\<close>

theorem ReadData_Win32_failure_no_return:
  assumes "ComHandle s \<noteq> INVALID_HANDLE_VALUE" and "\<not> fst (ReadFile os (ComHandle s) rxBufferSize)"
  shows "SerialDevice_ReadData_Win32 os rxBuffer rxBufferSize s = Inl No_Return_Value"
  using assms by (cases "ReadFile os (ComHandle s) rxBufferSize") (simp add: SerialDevice_ReadData_Win32_def)

theorem ReadData_Win32_failure_no_return_witness:
  "SerialDevice_ReadData_Win32 com_api [0, 0] 2 (win_initial_state\<lparr>ComHandle := Win_Handle 3\<rparr>) = Inl No_Return_Value"
  using ReadData_Win32_failure_no_return [of "win_initial_state\<lparr>ComHandle := Win_Handle 3\<rparr>" com_api 2 "[0, 0]"]
  by (simp add: win_initial_state_def)

end
