(* ===== verification/Spec2Isabelle.thy ===== *)
theory Spec2Isabelle
  imports Encode_Spec Decode_Spec Driver Serial_Helpers Serial_Device Serial_Device_Win
begin

text \<open>
  \<^bold>\<open>A model of the WiMOD LoRaWAN host driver of tcp2lorawan.\<close>

  The program (src/Middlewares/Third_Party/WiMOD/src) has three layers.
  \<^item> \<open>SerialDevice.c\<close> drives the UART of the STM32: it opens, closes, sends and
    reads bytes through the HAL, collects received characters in an interrupt
    handler (\<open>USART_ITCharManager\<close>) and has the console helpers \<open>str2num\<close>,
    \<open>num2str\<close> and \<open>num2hex\<close>.
  \<^item> The HCI layer (\<open>WiMOD_HCI_Layer.c\<close>, not under src) frames a
    \<open>TWiMOD_HCI_Message\<close> (SAP id, message id, a 16-bit length and a payload array of
    \<open>WIMOD_HCI_MSG_PAYLOAD_SIZE\<close> bytes) into SLIP/CRC16 and hands each received
    message to a callback.
  \<^item> \<open>WiMOD_LoRaWAN_API.c\<close> builds requests into the static envelope \<open>TxMessage\<close>
    and sends it (\<open>WiMOD_DevMgmt_Msg_Req\<close>, \<open>WiMOD_LoRaWAN_Msg_Req\<close> and the
    \<open>WiMOD_LoRaWAN_*\<close> wrappers and console commands), and decodes each received
    message in \<open>WiMOD_LoRaWAN_Process_RxMessage\<close>, which dispatches on the SAP to a
    Device-Management switch and a LoRaWAN switch with one handler per response or
    indication; the handlers print, and the U-Data handler forwards the payload of
    port 100 to the TCP client with \<open>tcp_write\<close>.

  \<^bold>\<open>Theories.\<close>
  \<^item> \<open>Prelude\<close>: bytes and words (\<open>8 word\<close>, \<open>16 word\<close>, \<open>32 word\<close>); C array accesses as
    total functions with a \<open>c_fault\<close> outcome for every access outside the array
    (\<open>buf_get\<close>, \<open>buf_set\<close>, \<open>buf_range\<close>, \<open>memcpy_into\<close>), NULL dereference,
    division by zero and a missing return value as further faults; the C string of a
    byte array (\<open>c_string\<close>); the little-endian object representation (\<open>le_u32\<close>,
    \<open>u32_bytes\<close>) and \<open>MAKEWORD\<close>/\<open>MAKELONG\<close>.
  \<^item> \<open>HCI_Message\<close>: the message identifiers (one constructor per \<open>#define\<close> the code
    uses, one \<open>_Other\<close> constructor for every other byte), the record
    \<open>TWiMOD_HCI_Message\<close>, whose payload is the whole array of capacity \<open>N\<close>, and the
    status codes.
  \<^item> \<open>Status_Tables\<close>: the three \<open>TIDString\<close> tables and \<open>WiMOD_LoRaWAN_ShowResponse\<close>
    (lines 136-180, 1720-1741), with their abstraction as association lists.
  \<^item> \<open>RTC_Format\<close>: the RTC word: the decoder of \<open>Get_RTC_Rsp\<close> (lines 822-837), the
    encoder of the console command \<open>SetRTC\<close> (lines 1997-2015) and the documented
    layout.
  \<^item> \<open>Encoder\<close>: the driver state (\<open>TxMessage\<close>, \<open>RxMessage\<close> and the messages handed to
    the HCI layer, in order), the two request builders with their per-identifier
    length rules, the API wrappers that pass data (lines 321-650) and the console
    commands that build it (lines 1930-2197).  The HCI send is a parameter
    \<open>hci_send\<close> of type \<open>hci_transport\<close>: the model records every message it is given
    and returns its result.
  \<^item> \<open>DevMgmt_Decoder\<close>: the Device-Management handlers (lines 701-1041), each copy
    from the payload array in the order of the source, and their switch.
  \<^item> \<open>LoRaWAN_Indications\<close>: the transmit, join and receive indications (lines
    1198-1369, 1630-1709); the C-Data print loop is a \<open>partial_function (option)\<close>,
    so that its not returning is the value \<open>None\<close>.
  \<^item> \<open>Dispatch\<close>: the remaining LoRaWAN responses, the LoRaWAN switch (lines
    1051-1162) and the receiver callback (lines 675-691).
  \<^item> \<open>Serial_Helpers\<close>: the console helpers of \<open>SerialDevice.c\<close>: \<open>str2num\<close> (lines
    392-419; its scan is a \<open>partial_function (option)\<close> because its \<open>uint8_t\<close> index
    wraps, its accumulation a \<open>function\<close> on the decreasing index), \<open>num2str\<close> (lines
    429-458; the scaling and digit loops are \<open>function\<close>s on the decreasing divisor)
    and \<open>num2hex\<close> (lines 468-505), with the reference notations \<open>dec_string\<close>,
    \<open>dec_value\<close> and \<open>hex_value\<close>.
  \<^item> \<open>Encode_Spec\<close>: the outbound contract of the specification (sections 4.1-4.3 and
    7) as an executable encoder \<open>spec_encode\<close> with the specification's length tables,
    the abstraction \<open>envelope_of\<close> of a sent message and the relation \<open>refines_encode\<close>
    between an outcome of the contract and a run of the driver.
  \<^item> \<open>Decode_Spec\<close>: the inbound contract of the specification for the flag-gated
    receive indications (section 4.4) as an executable decoder
    \<open>spec_decode_flagged\<close> into a record of flags, application data and channel
    bytes, and the relation \<open>decoded_as\<close> between that record and a record decoded by
    the driver (port and data together, the five channel-info fields as bytes).

  \<^item> \<open>Serial_Device\<close>: the STM32 build of the serial driver (\<open>SerialDevice.c\<close> lines
    133-384): the globals \<open>hWiModUart\<close> and \<open>UsartTextString\<close> with the UART handle
    objects and byte objects as the state \<open>serial_state\<close>, the HAL as the interface
    \<open>stm32_hal\<close>, \<open>SerialDevice_Open\<close>/\<open>Close\<close>/\<open>SendData\<close>/\<open>SendByte\<close>/\<open>ReadData\<close>,
    \<open>USART_Transmit\<close> and the interrupt-side \<open>USART_ITCharManager\<close>, whose busy-wait on
    the RXNE flag is the partial function \<open>rxne_wait\<close> over the sequence of flag
    polls; the calls and interrupts form the event relation \<open>serial_step\<close> with its
    reachable states \<open>serial_reach\<close>.
  \<^item> \<open>Serial_Device_Win\<close>: the Windows build (the \<open>Q_OS_WIN\<close> branches, lines 59-322):
    the file handle \<open>ComHandle\<close>, the Win32 calls as the interface \<open>win32_api\<close> and
    the sequence of calls made as part of the state; \<open>strcpy\<close>/\<open>strcat\<close> on the
    80-byte device name.
  \<^item> \<open>Driver\<close>: \<open>WiMOD_LoRaWAN_Init\<close> and \<open>WiMOD_LoRaWAN_Process\<close> over the interface
    \<open>hci_layer\<close> of the HCI layer; Init registers the decoder of Dispatch as the
    receiver callback.
  \<^bold>\<open>Modelling choices.\<close>  The payload capacity \<open>WIMOD_HCI_MSG_PAYLOAD_SIZE\<close> is defined
  in the HCI layer's header, which is not part of the sources: it is the parameter
  \<open>N\<close> of every definition that depends on it, and the theorems hold for every
  \<open>N\<close> their hypotheses allow.  A decoder reads \<open>Payload[i]\<close> whatever \<open>Length\<close> says,
  so the model gives it the whole array and reads beyond \<open>Length\<close> return the stale
  bytes; only accesses beyond the array are faults.  Output with \<open>printf\<close> is not
  modelled as text: a handler returns the values it prints as an event.  Three loops
  may not end and are partial functions whose non-termination is the value \<open>None\<close>:
  the C-Data print loop, the scan of \<open>str2num\<close> and the RXNE busy-wait of the
  character interrupt, whose flag is an input sequence; no fuel is used.  The other
  loops are \<open>function\<close>s with a termination measure (unread bytes, the index, the
  divisor).  Division by zero is the fault \<open>Division_By_Zero\<close>.

  \<^bold>\<open>Properties\<close> (claims C1-C40).
  \<^item> RTC: the decoder inverts the layout (C3) and bounds every field (C29); a value
    in the layout that \<open>WiMOD_LoRaWAN_SetRTC\<close> sends is decoded by \<open>Get_RTC_Rsp\<close>
    to the same date (C1, below, across Encoder and DevMgmt_Decoder); the word the
    console encoder builds decodes, for every date, to the fields shifted into each
    other, day and hour halved and their low bits moved up (C2).
  \<^item> Requests: what is sent, byte for byte (C4, C6), the guards and their results
    (C5, C26: \<open>SetOPMODE\<close> sends exactly modes 0 and 1, so the console's mode 3 is
    never sent), and the missing capacity check of the variable-length requests (C7).
  \<^item> Responses and indications: decoding on every branch, faults included (C9-C12,
    C28), field by field at the specification's offsets for the firmware version
    (C13), the device status (C14) and the RTC alarm (C16); a short device-status
    response reports the counters an earlier message left in the receive array
    (C15); the print loop that never returns (C8) and the table search (C27).
  \<^item> Serial driver, STM32: the first character after a successful open writes before
    \<open>UsartTextString\<close> (C17); the end-of-line interrupt, with the handle state it
    leaves (C19), and its busy-wait, which returns exactly when RXNE is eventually
    clear (C18); the length that \<open>SendData\<close> reports and sends (C20); two invariants
    of the event relation: \<open>ReadData\<close> in every reachable state (C21), and a stored
    UART handle is never replaced by NULL, so \<open>SendByte\<close> and \<open>Open(NULL)\<close> do not
    dereference NULL in any state reached after a successful open (C22).
  \<^item> Serial driver, Windows: the device-name overflow, exactly for names longer than 75
    characters (C23); no handle left open by a failed open (C24); the missing return
    value of a failed read (C25).
  \<^item> Console helpers: \<open>str2num\<close> reads back what \<open>num2str\<close> writes (C30); \<open>num2str\<close>
    equals the positional notation for numbers below \<open>10^7\<close> (C31); \<open>str2num\<close> never
    returns on 256 digits (C32), reads before the string when it is empty (C33) and
    rejects a non-digit (C34); \<open>num2hex\<close> writes the value in hex (C35) with
    characters 0-9, A-F (C36).
  \<^item> Refinement: the Device-Management builder (C37) and the data submission
    functions (C39) refine the specification's encoder; the LoRaWAN builder refines
    it exactly where the specification does not report Overflow (C38); the U-Data
    and MAC-command receive handlers refine the specification's flag-gated decoder
    (C40).
  Further facts are proved as lemmas beside them: the envelope invariant of the
  request builders, that the receiver callback returns on every message but a C-Data
  indication, the unhandled SET_OPMODE response, the unsupported Device-Management
  request, the NULL handle of an open before any handle is stored, the device-status
  fault on an array shorter than 60 bytes, the eight-digit misprint of \<open>num2str\<close>,
  the field positions of the console RTC encoder, the two readings of the
  transmit-indication status byte.

  \<^bold>\<open>Not modelled.\<close>  The HCI layer, SLIP and CRC16 are not in the repository:
  its send function is the parameter \<open>hci_send\<close> and its Init and Process the
  interface \<open>hci_layer\<close>.  The STM32 HAL and the Win32 API are libraries the driver
  only calls: their results are interfaces, and the bytes the HAL stores on its own
  receive interrupt are not modelled.  The configuration macros of
  \<open>SerialDevice.h\<close> (baud rates, data bits, parity) are HAL constants passed through
  unchanged.  The text that the handlers print is not modelled; the values printed are.
\<close>

text \<open>C1: An RTC time in the documented layout, sent by WiMOD_LoRaWAN_SetRTC, is decoded by
  WiMOD_LoRaWAN_DevMgmt_Get_RTC_Rsp from the bytes of the request to the same date and
  time: the encoder and the decoder of the RTC word agree on the byte order of the payload
  and on the field positions of the layout.\<close>

theorem SetRTC_GetRTC_roundtrip:
  assumes fit: "rtc_fields_fit y d h mo mi s" and N: "4 \<le> N"
    and req: "WiMOD_LoRaWAN_SetRTC N hci_send (rtc_layout y d h mo mi s) st = Inr (r, st')"
  shows "WiMOD_LoRaWAN_DevMgmt_Get_RTC_Rsp (DEVMGMT_STATUS_OK # take 4 (Payload (TxMessage st'))) =
           Inr (DevMgmt_RTC 0 (Some ''ok'')
             (Some \<lparr>rtc_year = y + 2000, rtc_month = mo, rtc_day = d, rtc_hour = h,
                    rtc_minute = mi, rtc_second = s\<rparr>))"
proof -
  let ?t = "rtc_layout y d h mo mi s"
  have "Payload (TxMessage st') = u32_bytes ?t @ replicate (N - 4) 0"
    using req Msg_Req_fill_Some [of 4 "u32_bytes ?t" N] N
    by (auto simp: WiMOD_LoRaWAN_SetRTC_def WiMOD_DevMgmt_Msg_Req_def Let_def)
  then have "take 4 (Payload (TxMessage st')) = u32_bytes ?t" by simp
  moreover have "rtc_unpack ?t = \<lparr>rtc_year = y + 2000, rtc_month = mo, rtc_day = d, rtc_hour = h,
                    rtc_minute = mi, rtc_second = s\<rparr>"
    by (simp only: rtc_unpack_def rtc_layout_fields [OF fit])
  ultimately show ?thesis
    by (simp add: WiMOD_LoRaWAN_DevMgmt_Get_RTC_Rsp_def with_status_DeviceMgmt le_at_def
        table_entries_DeviceMgmt_StatusStrings DEVMGMT_STATUS_OK_def)
qed

theorem SetRTC_GetRTC_roundtrip_witness:
  "\<exists>r st'. rtc_fields_fit 18 20 12 5 30 30 \<and> 4 \<le> (8::nat) \<and>
     WiMOD_LoRaWAN_SetRTC 8 (\<lambda>_. 1) (rtc_layout 18 20 12 5 30 30) (initial_state 8) = Inr (r, st') \<and>
     WiMOD_LoRaWAN_DevMgmt_Get_RTC_Rsp (DEVMGMT_STATUS_OK # take 4 (Payload (TxMessage st'))) =
       Inr (DevMgmt_RTC 0 (Some ''ok'') (Some \<lparr>rtc_year = 2018, rtc_month = 5, rtc_day = 20,
              rtc_hour = 12, rtc_minute = 30, rtc_second = 30\<rparr>))"
proof -
  have "\<exists>r st'. WiMOD_LoRaWAN_SetRTC 8 (\<lambda>_. 1) (rtc_layout 18 20 12 5 30 30) (initial_state 8) = Inr (r, st')"
    using Msg_Req_fill_Some [of 4 "u32_bytes (rtc_layout 18 20 12 5 30 30)" 8]
    by (simp add: WiMOD_LoRaWAN_SetRTC_def WiMOD_DevMgmt_Msg_Req_def Let_def)
  then obtain r st' where req:
    "WiMOD_LoRaWAN_SetRTC 8 (\<lambda>_. 1) (rtc_layout 18 20 12 5 30 30) (initial_state 8) = Inr (r, st')"
    by blast
  have fit: "rtc_fields_fit 18 20 12 5 30 30" by (simp add: rtc_fields_fit_def)
  from SetRTC_GetRTC_roundtrip [OF fit _ req] fit req show ?thesis by auto
qed

end
